theory Spec2Isabelle
  imports Complex_Main "HOL-Library.Word" "HOL-Library.AList" "HOL-Library.Sublist"
begin

section \<open>Overview\<close>

text \<open>
  The two scripts of the repository, \<open>generate-batch.js\<close> and the script that regenerates
  the avatars of named authors, as functions on an explicit world: the content files, the
  persisted manifest, the log files, the clock and the requests sent to the generation
  service. Functions that the two scripts share word for word are defined once; where
  the bodies differ, the script is a parameter or the definition's name starts with
  \<open>batch_\<close> or \<open>regen_\<close>. An error that the source throws is a value \<open>Inl message\<close>.
  Output to the console and the creation of the output directory are not modelled, and
  the options of the batch script are taken as \<open>parseInt\<close> returns them.
\<close>

section \<open>JavaScript strings\<close>

text \<open>
  A JavaScript string is a sequence of UTF-16 code units. String literals of the scripts
  are ASCII and are written through \<open>js\<close>. The pictographs and line breaks that decorate
  the scripts' log messages are left out of the message texts.
\<close>

type_synonym jschar = "16 word"
type_synonym jsstring = "jschar list"
type_synonym bytes = "8 word list"

definition js :: "string \<Rightarrow> jsstring" where
  "js s = map (\<lambda>c. of_nat (of_char c)) s"

text \<open>
  \<open>String.prototype.toLowerCase\<close>. On a string of ASCII code units it maps \<open>A\<close>-\<open>Z\<close> to
  \<open>a\<close>-\<open>z\<close> and leaves the rest alone. On any other string the result is the one of the
  Unicode default case conversion, which is a builtin of the runtime: it is the parameter
  \<open>uni\<close> (it can change the length of the string and can produce ASCII letters, as for the
  Kelvin sign).
\<close>

definition lowerAscii :: "jschar \<Rightarrow> jschar" where
  "lowerAscii c = (if 0x41 \<le> c \<and> c \<le> 0x5A then c + 0x20 else c)"

definition toLowerCase :: "(jsstring \<Rightarrow> jsstring) \<Rightarrow> jsstring \<Rightarrow> jsstring" where
  "toLowerCase uni s = (if list_all (\<lambda>c. c < 0x80) s then map lowerAscii s else uni s)"

text \<open>The character class \<open>[a-z0-9]\<close> (the regular expression has no \<open>i\<close> or \<open>u\<close> flag).\<close>

definition isLowerAlnum :: "jschar \<Rightarrow> bool" where
  "isLowerAlnum c = ((0x61 \<le> c \<and> c \<le> 0x7A) \<or> (0x30 \<le> c \<and> c \<le> 0x39))"

text \<open>\<open>s.replace(/[^a-z0-9]/g, '-')\<close>: a left-to-right scan that replaces every match.\<close>

fun replaceNonAlnum :: "jsstring \<Rightarrow> jsstring" where
  "replaceNonAlnum [] = []"
| "replaceNonAlnum (c # cs) =
     (if isLowerAlnum c then c # replaceNonAlnum cs else js ''-'' @ replaceNonAlnum cs)"

definition normalizeFilename :: "(jsstring \<Rightarrow> jsstring) \<Rightarrow> jsstring \<Rightarrow> jsstring" where
  "normalizeFilename uni authorName =
     replaceNonAlnum (toLowerCase uni authorName) @ js ''.png''"

text \<open>
  The specification's wording of the normalisation: the lowercased name with every
  character outside \<open>[a-z0-9]\<close> replaced by the separator, then the image extension.
\<close>

definition separator :: jschar where
  "separator = 0x2D"

definition normalized_by_spec :: "(jsstring \<Rightarrow> jsstring) \<Rightarrow> jsstring \<Rightarrow> jsstring" where
  "normalized_by_spec uni name =
     map (\<lambda>c. if isLowerAlnum c then c else separator) (toLowerCase uni name) @ js ''.png''"

text \<open>
  \<open>s.replace(pat, rep)\<close> with a string pattern: only the first occurrence is replaced.
  (The replacement texts of the scripts hold no \<open>$\<close> pattern.)
\<close>

fun replace_first :: "jsstring \<Rightarrow> jsstring \<Rightarrow> jsstring \<Rightarrow> jsstring" where
  "replace_first pat rep [] = (if pat = [] then rep else [])"
| "replace_first pat rep (c # cs) =
     (if prefix pat (c # cs) then rep @ drop (length pat) (c # cs)
      else c # replace_first pat rep cs)"

text \<open>\<open>s.includes(pat)\<close>.\<close>

fun str_includes :: "jsstring \<Rightarrow> jsstring \<Rightarrow> bool" where
  "str_includes [] pat = (pat = [])"
| "str_includes (c # cs) pat = (prefix pat (c # cs) \<or> str_includes cs pat)"

text \<open>A non-negative integer in a template literal: its decimal digits.\<close>

function decimal :: "nat \<Rightarrow> jsstring" where
  "decimal n = (if n < 10 then [0x30 + of_nat n] else decimal (n div 10) @ [0x30 + of_nat (n mod 10)])"
  by pat_completeness auto
termination
  by (relation "measure id") auto

declare decimal.simps [simp del]

text \<open>
  \<open>path.join(dir, name)\<close> on POSIX, for a normalised absolute directory and one plain
  segment; \<open>path.basename\<close> of a path that does not end with a slash.
\<close>

definition path_join :: "jsstring \<Rightarrow> jsstring \<Rightarrow> jsstring" where
  "path_join dir name = (if dir = js ''/'' then dir @ name else dir @ js ''/'' @ name)"

definition basename :: "jsstring \<Rightarrow> jsstring" where
  "basename p = rev (takeWhile (\<lambda>c. c \<noteq> 0x2F) (rev p))"

section \<open>Numbers read from the command line\<close>

text \<open>
  \<open>parseInt\<close> returns an integer, \<open>NaN\<close>, or an infinity (for a numeral of some 309 digits
  or more). An integer is kept exact here; \<open>parseInt\<close> rounds one beyond \<open>2^53\<close> to the
  nearest double. The operations are those of the source on such numbers: \<open>+\<close>, \<open>> 0\<close> and
  \<open>Math.min\<close>.
\<close>

datatype jsnum = NaN | Num int | Infinity | NegInfinity

fun num_add :: "jsnum \<Rightarrow> jsnum \<Rightarrow> jsnum" where
  "num_add NaN y = NaN"
| "num_add x NaN = NaN"
| "num_add (Num a) (Num b) = Num (a + b)"
| "num_add Infinity NegInfinity = NaN"
| "num_add NegInfinity Infinity = NaN"
| "num_add Infinity y = Infinity"
| "num_add x Infinity = Infinity"
| "num_add NegInfinity y = NegInfinity"
| "num_add x NegInfinity = NegInfinity"

fun num_gt0 :: "jsnum \<Rightarrow> bool" where
  "num_gt0 (Num a) = (0 < a)"
| "num_gt0 Infinity = True"
| "num_gt0 x = False"

fun Math_min :: "jsnum \<Rightarrow> jsnum \<Rightarrow> jsnum" where
  "Math_min NaN y = NaN"
| "Math_min x NaN = NaN"
| "Math_min (Num a) (Num b) = Num (min a b)"
| "Math_min NegInfinity y = NegInfinity"
| "Math_min x NegInfinity = NegInfinity"
| "Math_min Infinity y = y"
| "Math_min x Infinity = x"

text \<open>
  \<open>Array.prototype.slice(start, end)\<close>. An argument is turned into an integer or an
  infinity (\<open>NaN\<close> into 0); a negative one counts from the end of the array, and the
  result is clamped to the array.
\<close>

fun relative_index :: "int \<Rightarrow> jsnum \<Rightarrow> nat" where
  "relative_index len NaN = 0"
| "relative_index len (Num r) = (if r < 0 then nat (max (len + r) 0) else nat (min r len))"
| "relative_index len Infinity = nat len"
| "relative_index len NegInfinity = 0"

definition array_slice :: "'a list \<Rightarrow> jsnum \<Rightarrow> jsnum \<Rightarrow> 'a list" where
  "array_slice xs start stop =
     (let len = int (length xs);
          k = relative_index len start;
          final = relative_index len stop
      in take (final - k) (drop k xs))"

section \<open>JSON values and the generation service\<close>

text \<open>
  The value of \<open>response.json()\<close>. A JSON number is kept as the exact rational value of
  the parsed double: the scripts only test it for truthiness.
\<close>

datatype json =
    JNull
  | JBool bool
  | JNum rat
  | JStr jsstring
  | JArr "json list"
  | JObj "(jsstring \<times> json) list"

fun truthy :: "json \<Rightarrow> bool" where
  "truthy JNull = False"
| "truthy (JBool b) = b"
| "truthy (JNum r) = (r \<noteq> 0)"
| "truthy (JStr s) = (s \<noteq> [])"
| "truthy (JArr xs) = True"
| "truthy (JObj kvs) = True"

text \<open>
  A value that may be \<open>undefined\<close> is a \<open>json option\<close>. \<open>get_prop v k\<close> is \<open>v.k\<close> for a value
  \<open>v\<close> that is not \<open>null\<close> and one of the names the scripts read (\<open>candidates\<close>,
  \<open>content\<close>, \<open>parts\<close>, \<open>inlineData\<close>, \<open>data\<close>): none of them is a property of an array,
  a string, a number, a boolean or of \<open>Object.prototype\<close>. \<open>index0 v\<close> is \<open>v[0]\<close>, and
  \<open>opt_chain f v\<close> is the optional chaining \<open>v?.f\<close>.
\<close>

fun truthy_opt :: "json option \<Rightarrow> bool" where
  "truthy_opt None = False"
| "truthy_opt (Some v) = truthy v"

fun get_prop :: "json \<Rightarrow> jsstring \<Rightarrow> json option" where
  "get_prop (JObj kvs) k = map_of kvs k"
| "get_prop v k = None"

fun index0 :: "json \<Rightarrow> json option" where
  "index0 (JArr xs) = (case xs of [] \<Rightarrow> None | x # rest \<Rightarrow> Some x)"
| "index0 (JStr s) = (case s of [] \<Rightarrow> None | c # rest \<Rightarrow> Some (JStr [c]))"
| "index0 (JObj kvs) = map_of kvs (js ''0'')"
| "index0 v = None"

fun opt_chain :: "(json \<Rightarrow> json option) \<Rightarrow> json option \<Rightarrow> json option" where
  "opt_chain f None = None"
| "opt_chain f (Some JNull) = None"
| "opt_chain f (Some v) = f v"

text \<open>
  What \<open>fetch\<close> gives: a rejection (the network failed) with its message, or a response.
  \<open>response.ok\<close> is true for the statuses 200 to 299. \<open>body_text\<close> is what
  \<open>response.text()\<close> resolves to and \<open>body_json\<close> what \<open>response.json()\<close> does: the parsed
  body, or the message of the syntax error when the body is not JSON.
\<close>

record response =
  status :: nat
  body_text :: jsstring
  body_json :: "jsstring + json"

definition ok :: "response \<Rightarrow> bool" where
  "ok r = (200 \<le> status r \<and> status r \<le> 299)"

datatype fetch_outcome = Rejected jsstring | Responded response

record request =
  url :: jsstring
  api_key :: "jsstring option"
  prompt :: jsstring

datatype script = GenerateBatch | RegenerateSpecific

definition IMAGEN_API_URL :: jsstring where
  "IMAGEN_API_URL =
     js ''https://generativelanguage.googleapis.com/v1beta/models/gemini-2.5-flash-image:generateContent''"

definition prompt_of :: "script \<Rightarrow> jsstring \<Rightarrow> jsstring" where
  "prompt_of sc authorName =
     js ''Portrait of '' @ authorName
     @ js '', detailed pen and ink sketch style, classical engraving technique, ''
     @ js ''cross-hatching shading, pure white background, black and white only, ''
     @ js ''historical figure portrait, Renaissance engraving style, ''
     @ js ''highly detailed facial features, traditional illustration, etching art style, ''
     @ js ''no color, monochrome, professional historical portrait, ''
     @ (case sc of
          GenerateBatch \<Rightarrow> js ''1024x1024''
        | RegenerateSpecific \<Rightarrow>
            js ''NO BORDERS, NO FRAMES, no decorative elements, seamless edge to edge, ''
            @ js ''clean portrait only, full bleed to canvas edges, 1024x1024'')"

section \<open>The runtime and the world\<close>

text \<open>
  What the scripts take from their surroundings: the directory they are installed in,
  the credential, the runtime's Unicode lowercasing, the answer of the service to the
  n-th request, \<open>Buffer.from(value, 'base64')\<close> (the bytes, or the message of the
  \<open>TypeError\<close> it throws), and the error, if any, that a write to a path raises.
  Appending to the log file is taken to succeed, and the catalogue and the manifest on
  disk to be well-formed documents.
\<close>

record env =
  dirname :: jsstring
  GEMINI_API_KEY :: "jsstring option"
  unicodeLower :: "jsstring \<Rightarrow> jsstring"
  fetch :: "nat \<Rightarrow> request \<Rightarrow> fetch_outcome"
  Buffer_from :: "json \<Rightarrow> jsstring + bytes"
  writeError :: "jsstring \<Rightarrow> jsstring option"

record manifest_entry =
  filename :: jsstring
  entry_generated_at :: nat
  regenerated :: bool

record manifest =
  generated_at :: nat
  updated_at :: "nat option"
  total_avatars :: nat
  avatars :: "(jsstring \<times> manifest_entry) list"

text \<open>
  A log message is kept as the pieces of its template literal: literal text, a string
  value, a number, an amount of money in cents (printed with two decimals). A log line
  is the time it was written at and its message.
\<close>

datatype piece = Txt string | Str jsstring | Numb jsnum | Cents nat

record world =
  files :: "jsstring \<rightharpoonup> bytes"
  manifestFile :: "manifest option"
  logFile :: "script \<Rightarrow> (nat \<times> piece list) list"
  now :: nat
  calls :: "request list"

definition AVATARS_DIR :: "env \<Rightarrow> jsstring" where
  "AVATARS_DIR e = path_join (dirname e) (js ''avatars'')"

definition MANIFEST_FILE :: "env \<Rightarrow> jsstring" where
  "MANIFEST_FILE e = path_join (dirname e) (js ''manifest.json'')"

definition log_msg :: "script \<Rightarrow> piece list \<Rightarrow> world \<Rightarrow> world" where
  "log_msg sc message w = w\<lparr>logFile := (logFile w)(sc := logFile w sc @ [(now w, message)])\<rparr>"

definition existsSync :: "world \<Rightarrow> jsstring \<Rightarrow> bool" where
  "existsSync w p = (files w p \<noteq> None)"

definition writeFileSync :: "env \<Rightarrow> jsstring \<Rightarrow> bytes \<Rightarrow> world \<Rightarrow> (jsstring + unit) \<times> world" where
  "writeFileSync e p buffer w =
     (case writeError e p of
        Some msg \<Rightarrow> (Inl msg, w)
      | None \<Rightarrow> (Inr (), w\<lparr>files := (files w)(p \<mapsto> buffer)\<rparr>))"

definition copyFileSync :: "env \<Rightarrow> jsstring \<Rightarrow> jsstring \<Rightarrow> world \<Rightarrow> (jsstring + unit) \<times> world" where
  "copyFileSync e src dest w =
     (case files w src of
        None \<Rightarrow> (Inl (js ''ENOENT: no such file or directory''), w)
      | Some buffer \<Rightarrow> writeFileSync e dest buffer w)"

text \<open>
  \<open>setTimeout\<close> runs a delay that is not between 1 and 2147483647 as 1 ms. The clock of
  the world moves when a script sleeps, and only then.
\<close>

definition timeout_ms :: "jsnum \<Rightarrow> nat" where
  "timeout_ms d =
     (case d of
        Num n \<Rightarrow> if 1 \<le> n \<and> n \<le> 2147483647 then nat n else 1
      | _ \<Rightarrow> 1)"

definition sleep :: "jsnum \<Rightarrow> world \<Rightarrow> world" where
  "sleep ms w = w\<lparr>now := now w + timeout_ms ms\<rparr>"

section \<open>generateAvatar\<close>

definition typeError_null :: "string \<Rightarrow> jsstring" where
  "typeError_null p =
     js ''Cannot read properties of null (reading '' @ [0x27] @ js p @ [0x27] @ js '')''"

text \<open>\<open>parts.find(part => part.inlineData)\<close>: reading a property of \<open>null\<close> throws.\<close>

fun find_inlineData :: "json list \<Rightarrow> jsstring + json option" where
  "find_inlineData [] = Inr None"
| "find_inlineData (part # rest) =
     (if part = JNull then Inl (typeError_null ''inlineData'')
      else if truthy_opt (get_prop part (js ''inlineData'')) then Inr (Some part)
      else find_inlineData rest)"

text \<open>\<open>data.candidates?.[0]?.content?.parts\<close>, for \<open>data\<close> that is not \<open>null\<close>.\<close>

definition read_parts :: "json \<Rightarrow> json option" where
  "read_parts data =
     opt_chain (\<lambda>v. get_prop v (js ''parts''))
       (opt_chain (\<lambda>v. get_prop v (js ''content''))
          (opt_chain index0 (get_prop data (js ''candidates''))))"

definition no_image_data :: jsstring where
  "no_image_data = js ''No image data in response''"

text \<open>The body of the \<open>try\<close> block: the message of the error thrown, or the value returned.\<close>

definition response_data :: "fetch_outcome \<Rightarrow> jsstring + json" where
  "response_data out =
     (case out of
        Rejected msg \<Rightarrow> Inl msg
      | Responded r \<Rightarrow>
          if \<not> ok r then
            Inl (js ''API error: '' @ decimal (status r) @ js '' - '' @ body_text r)
          else
            (case body_json r of
               Inl msg \<Rightarrow> Inl msg
             | Inr data \<Rightarrow>
                 if data = JNull then Inl (typeError_null ''candidates'')
                 else if \<not> truthy_opt (read_parts data) then Inl (js ''No parts in response'')
                 else
                   (case read_parts data of
                      Some (JArr ps) \<Rightarrow>
                        (case find_inlineData ps of
                           Inl msg \<Rightarrow> Inl msg
                         | Inr None \<Rightarrow> Inl no_image_data
                         | Inr (Some imagePart) \<Rightarrow>
                             (case get_prop imagePart (js ''inlineData'') of
                                None \<Rightarrow> Inl no_image_data
                              | Some inlineData \<Rightarrow>
                                  if \<not> truthy inlineData then Inl no_image_data
                                  else
                                    (case get_prop inlineData (js ''data'') of
                                       None \<Rightarrow> Inl no_image_data
                                     | Some d \<Rightarrow> if truthy d then Inr d else Inl no_image_data)))
                    | _ \<Rightarrow> Inl (js ''parts.find is not a function''))))"

text \<open>The request that \<open>generateAvatar\<close> sends, and the outcome of \<open>fetch\<close> for it.\<close>

definition sent_request :: "script \<Rightarrow> env \<Rightarrow> jsstring \<Rightarrow> request" where
  "sent_request sc e authorName =
     \<lparr>url = IMAGEN_API_URL, api_key = GEMINI_API_KEY e, prompt = prompt_of sc authorName\<rparr>"

definition fetch_result :: "script \<Rightarrow> env \<Rightarrow> jsstring \<Rightarrow> world \<Rightarrow> fetch_outcome" where
  "fetch_result sc e authorName w = fetch e (length (calls w)) (sent_request sc e authorName)"

definition generateAvatar ::
  "script \<Rightarrow> env \<Rightarrow> jsstring \<Rightarrow> world \<Rightarrow> (jsstring + json) \<times> world" where
  "generateAvatar sc e authorName w =
     (let w' = w\<lparr>calls := calls w @ [sent_request sc e authorName]\<rparr>
      in (case response_data (fetch_result sc e authorName w) of
            Inl msg \<Rightarrow> (Inl (js ''Generation failed: '' @ msg), w')
          | Inr d \<Rightarrow> (Inr d, w')))"

section \<open>saveAvatar\<close>

text \<open>
  \<open>saveAvatar\<close> of \<open>generate-batch.js\<close>: the message of the error thrown, or the filename.
\<close>

definition batch_saveAvatar ::
  "env \<Rightarrow> jsstring \<Rightarrow> json \<Rightarrow> world \<Rightarrow> (jsstring + jsstring) \<times> world" where
  "batch_saveAvatar e authorName base64Data w =
     (let filename = normalizeFilename (unicodeLower e) authorName;
          filepath = path_join (AVATARS_DIR e) filename
      in (case Buffer_from e base64Data of
            Inl msg \<Rightarrow> (Inl msg, w)
          | Inr buffer \<Rightarrow>
              (case writeFileSync e filepath buffer w of
                 (Inl msg, w') \<Rightarrow> (Inl msg, w')
               | (Inr u, w') \<Rightarrow> (Inr filename, w'))))"

text \<open>
  \<open>saveAvatar\<close> of the regeneration script: an existing file is copied to the backup path
  first. The backup path is the file path with its first \<open>.png\<close> replaced.
\<close>

definition backupPath_of :: "jsstring \<Rightarrow> jsstring" where
  "backupPath_of filepath = replace_first (js ''.png'') (js ''.backup.png'') filepath"

definition backup_old_file :: "env \<Rightarrow> jsstring \<Rightarrow> world \<Rightarrow> (jsstring + unit) \<times> world" where
  "backup_old_file e filepath w =
     (if existsSync w filepath then
        (case copyFileSync e filepath (backupPath_of filepath) w of
           (Inl msg, w') \<Rightarrow> (Inl msg, w')
         | (Inr u, w') \<Rightarrow>
             (Inr (), log_msg RegenerateSpecific
                        [Txt ''  Backed up old file to: '', Str (basename (backupPath_of filepath))] w'))
      else (Inr (), w))"

definition regen_saveAvatar ::
  "env \<Rightarrow> jsstring \<Rightarrow> json \<Rightarrow> world \<Rightarrow> (jsstring + jsstring) \<times> world" where
  "regen_saveAvatar e authorName base64Data w =
     (let filename = normalizeFilename (unicodeLower e) authorName;
          filepath = path_join (AVATARS_DIR e) filename
      in (case backup_old_file e filepath w of
            (Inl msg, w1) \<Rightarrow> (Inl msg, w1)
          | (Inr u, w1) \<Rightarrow>
              (case Buffer_from e base64Data of
                 Inl msg \<Rightarrow> (Inl msg, w1)
               | Inr buffer \<Rightarrow>
                   (case writeFileSync e filepath buffer w1 of
                      (Inl msg, w2) \<Rightarrow> (Inl msg, w2)
                    | (Inr u', w2) \<Rightarrow> (Inr filename, w2)))))"

definition saveAvatar ::
  "script \<Rightarrow> env \<Rightarrow> jsstring \<Rightarrow> json \<Rightarrow> world \<Rightarrow> (jsstring + jsstring) \<times> world" where
  "saveAvatar sc = (case sc of GenerateBatch \<Rightarrow> batch_saveAvatar | RegenerateSpecific \<Rightarrow> regen_saveAvatar)"

section \<open>The manifest\<close>

definition loadManifest :: "world \<Rightarrow> manifest" where
  "loadManifest w =
     (case manifestFile w of
        Some m \<Rightarrow> m
      | None \<Rightarrow> \<lparr>generated_at = now w, updated_at = None, total_avatars = 0, avatars = []\<rparr>)"

text \<open>
  The \<open>avatars\<close> object is the list of its own properties, read as a map (the first
  binding of a key counts). \<open>Object.keys(o).length\<close> is the number of its keys.
  \<open>o[author] = entry\<close> rebinds the key or adds it at the end; for the name \<open>__proto__\<close>
  that is not an own property it runs the setter of \<open>Object.prototype\<close> instead, which
  changes no own property.
\<close>

definition Object_keys_length :: "(jsstring \<times> 'v) list \<Rightarrow> nat" where
  "Object_keys_length kvs = length (remdups (map fst kvs))"

definition assign_avatar :: "jsstring \<Rightarrow> manifest_entry \<Rightarrow> manifest \<Rightarrow> manifest" where
  "assign_avatar author entry m =
     (if author = js ''__proto__'' \<and> map_of (avatars m) author = None then m
      else m\<lparr>avatars := AList.update author entry (avatars m)\<rparr>)"

text \<open>
  \<open>saveManifest\<close> changes the manifest object before it writes: the object it returns is
  the changed one also when the write fails.
\<close>

definition saveManifest :: "env \<Rightarrow> manifest \<Rightarrow> world \<Rightarrow> (jsstring + unit) \<times> manifest \<times> world" where
  "saveManifest e m w =
     (let m' = m\<lparr>updated_at := Some (now w),
                 total_avatars := Object_keys_length (avatars m)\<rparr>
      in (case writeError e (MANIFEST_FILE e) of
            Some msg \<Rightarrow> (Inl msg, m', w)
          | None \<Rightarrow> (Inr (), m', w\<lparr>manifestFile := Some m'\<rparr>)))"

section \<open>The batch drivers\<close>

text \<open>
  The variables of \<open>main\<close> that the loop changes (the regeneration script has no
  \<open>skipCount\<close>: it stays 0 there), and the outcome of one item.
\<close>

record run_state =
  manifest :: manifest
  successCount :: nat
  skipCount :: nat
  errorCount :: nat
  errors :: "(jsstring \<times> jsstring) list"

datatype outcome = Success jsstring | Failure jsstring | Skipped

record config =
  startIndex :: jsnum
  limit :: jsnum
  delay :: jsnum

text \<open>
  The statements of the \<open>try\<close> block up to \<open>saveManifest\<close>, in either script: the message
  of the error thrown or the saved filename, with the manifest object and the world as
  they are at that point.
\<close>

definition try_item ::
  "script \<Rightarrow> env \<Rightarrow> jsstring \<Rightarrow> manifest \<Rightarrow> world \<Rightarrow> (jsstring + jsstring) \<times> manifest \<times> world" where
  "try_item sc e author m w =
     (case generateAvatar sc e author w of
        (Inl msg, w1) \<Rightarrow> (Inl msg, m, w1)
      | (Inr base64Data, w1) \<Rightarrow>
          (case saveAvatar sc e author base64Data w1 of
             (Inl msg, w2) \<Rightarrow> (Inl msg, m, w2)
           | (Inr savedFilename, w2) \<Rightarrow>
               (case saveManifest e
                       (assign_avatar author
                          \<lparr>filename = savedFilename, entry_generated_at = now w2,
                           regenerated = (sc = RegenerateSpecific)\<rparr> m) w2 of
                  (Inl msg, m', w3) \<Rightarrow> (Inl msg, m', w3)
                | (Inr u, m', w3) \<Rightarrow> (Inr savedFilename, m', w3))))"

definition record_error :: "jsstring \<Rightarrow> jsstring \<Rightarrow> manifest \<Rightarrow> run_state \<Rightarrow> run_state" where
  "record_error author msg m st =
     st\<lparr>manifest := m, errorCount := errorCount st + 1, errors := errors st @ [(author, msg)]\<rparr>"

definition position :: "jsnum \<Rightarrow> nat \<Rightarrow> piece list" where
  "position current ntotal =
     [Txt ''['', Numb (num_add current (Num 1)), Txt ''/'', Numb (Num (int ntotal)), Txt '']'']"

text \<open>One turn of the loop of \<open>generate-batch.js\<close>, for the item at index \<open>i\<close> of \<open>n\<close>.\<close>

definition batch_item ::
  "env \<Rightarrow> config \<Rightarrow> nat \<Rightarrow> nat \<Rightarrow> nat \<Rightarrow> jsstring \<Rightarrow> run_state \<Rightarrow> world
     \<Rightarrow> outcome \<times> run_state \<times> world" where
  "batch_item e cfg ntotal n i author st w =
     (let currentIndex = num_add (startIndex cfg) (Num (int i));
          filename = normalizeFilename (unicodeLower e) author;
          filepath = path_join (AVATARS_DIR e) filename
      in if existsSync w filepath then
           (Skipped, st\<lparr>skipCount := skipCount st + 1\<rparr>,
            log_msg GenerateBatch
              (position currentIndex ntotal @ [Txt '' SKIP: '', Str author, Txt '' (already exists)'']) w)
         else
           (case try_item GenerateBatch e author (manifest st)
                   (log_msg GenerateBatch
                      (position currentIndex ntotal @ [Txt '' Generating: '', Str author, Txt ''...'']) w) of
              (Inr savedFilename, m, w1) \<Rightarrow>
                (let w2 = log_msg GenerateBatch
                            (position currentIndex ntotal
                             @ [Txt '' SUCCESS: '', Str author, Txt '' -> '', Str savedFilename]) w1
                 in (Success savedFilename,
                     st\<lparr>manifest := m, successCount := successCount st + 1\<rparr>,
                     if i < n - 1 then sleep (delay cfg) w2 else w2))
            | (Inl msg, m, w1) \<Rightarrow>
                (Failure msg, record_error author msg m st,
                 log_msg GenerateBatch
                   (position currentIndex ntotal @ [Txt '' ERROR: '', Str author, Txt '' - '', Str msg]) w1)))"

fun batch_loop ::
  "env \<Rightarrow> config \<Rightarrow> nat \<Rightarrow> nat \<Rightarrow> nat \<Rightarrow> jsstring list \<Rightarrow> run_state \<Rightarrow> world
     \<Rightarrow> run_state \<times> world" where
  "batch_loop e cfg ntotal n i [] st w = (st, w)"
| "batch_loop e cfg ntotal n i (author # rest) st w =
     (case batch_item e cfg ntotal n i author st w of
        (out, st', w') \<Rightarrow> batch_loop e cfg ntotal n (i + 1) rest st' w')"

text \<open>The outcomes of the items of a run of that loop, in order.\<close>

fun batch_outcomes ::
  "env \<Rightarrow> config \<Rightarrow> nat \<Rightarrow> nat \<Rightarrow> nat \<Rightarrow> jsstring list \<Rightarrow> run_state \<Rightarrow> world
     \<Rightarrow> outcome list" where
  "batch_outcomes e cfg ntotal n i [] st w = []"
| "batch_outcomes e cfg ntotal n i (author # rest) st w =
     (case batch_item e cfg ntotal n i author st w of
        (out, st', w') \<Rightarrow> out # batch_outcomes e cfg ntotal n (i + 1) rest st' w')"

text \<open>One turn of the loop of the regeneration script.\<close>

definition regen_item ::
  "env \<Rightarrow> nat \<Rightarrow> nat \<Rightarrow> jsstring \<Rightarrow> run_state \<Rightarrow> world \<Rightarrow> outcome \<times> run_state \<times> world" where
  "regen_item e n i author st w =
     (case try_item RegenerateSpecific e author (manifest st)
             (log_msg RegenerateSpecific
                (position (Num (int i)) n @ [Txt '' Regenerating: '', Str author, Txt ''...'']) w) of
        (Inr savedFilename, m, w1) \<Rightarrow>
          (let w2 = log_msg RegenerateSpecific
                      (position (Num (int i)) n
                       @ [Txt '' SUCCESS: '', Str author, Txt '' -> '', Str savedFilename]) w1
           in (Success savedFilename,
               st\<lparr>manifest := m, successCount := successCount st + 1\<rparr>,
               if i < n - 1 then
                 sleep (Num 1000)
                   (log_msg RegenerateSpecific [Txt ''  Waiting 1 second before next request...''] w2)
               else w2))
      | (Inl msg, m, w1) \<Rightarrow>
          (Failure msg, record_error author msg m st,
           log_msg RegenerateSpecific
             (position (Num (int i)) n @ [Txt '' ERROR: '', Str author, Txt '' - '', Str msg]) w1))"

fun regen_loop ::
  "env \<Rightarrow> nat \<Rightarrow> nat \<Rightarrow> jsstring list \<Rightarrow> run_state \<Rightarrow> world \<Rightarrow> run_state \<times> world" where
  "regen_loop e n i [] st w = (st, w)"
| "regen_loop e n i (author # rest) st w =
     (case regen_item e n i author st w of
        (out, st', w') \<Rightarrow> regen_loop e n (i + 1) rest st' w')"

fun regen_outcomes ::
  "env \<Rightarrow> nat \<Rightarrow> nat \<Rightarrow> jsstring list \<Rightarrow> run_state \<Rightarrow> world \<Rightarrow> outcome list" where
  "regen_outcomes e n i [] st w = []"
| "regen_outcomes e n i (author # rest) st w =
     (case regen_item e n i author st w of
        (out, st', w') \<Rightarrow> out # regen_outcomes e n (i + 1) rest st' w')"

section \<open>main\<close>

text \<open>\<open>!GEMINI_API_KEY\<close>: the variable is unset or empty.\<close>

definition no_credential :: "env \<Rightarrow> bool" where
  "no_credential e = (case GEMINI_API_KEY e of None \<Rightarrow> True | Some k \<Rightarrow> k = [])"

definition endIndex :: "config \<Rightarrow> nat \<Rightarrow> jsnum" where
  "endIndex cfg ntotal =
     (if num_gt0 (limit cfg) then Math_min (num_add (startIndex cfg) (limit cfg)) (Num (int ntotal))
      else Num (int ntotal))"

definition authorsToProcess :: "config \<Rightarrow> jsstring list \<Rightarrow> jsstring list" where
  "authorsToProcess cfg authors =
     array_slice authors (startIndex cfg) (endIndex cfg (length authors))"

definition initial_state :: "world \<Rightarrow> run_state" where
  "initial_state w =
     \<lparr>manifest = loadManifest w, successCount = 0, skipCount = 0, errorCount = 0, errors = []\<rparr>"

definition log_errors :: "script \<Rightarrow> (jsstring \<times> jsstring) list \<Rightarrow> world \<Rightarrow> world" where
  "log_errors sc errs w =
     (if 0 < length errs then
        fold (\<lambda>(author, error). log_msg sc [Txt ''  - '', Str author, Txt '': '', Str error]) errs
          (log_msg sc [Txt ''Errors:''] w)
      else w)"

definition batch_banner :: "config \<Rightarrow> jsstring list \<Rightarrow> world \<Rightarrow> world" where
  "batch_banner cfg authors w =
     log_msg GenerateBatch [Txt ''Delay: '', Numb (delay cfg), Txt ''ms'']
       (log_msg GenerateBatch
          [Txt ''Limit: '',
           if limit cfg = NaN \<or> limit cfg = Num 0 then Txt ''all'' else Numb (limit cfg)]
          (log_msg GenerateBatch [Txt ''Start index: '', Numb (startIndex cfg)]
             (log_msg GenerateBatch [Txt ''Total authors: '', Numb (Num (int (length authors)))]
                (log_msg GenerateBatch [Txt ''=== Batch Avatar Generation Started ===''] w))))"

definition batch_summary :: "run_state \<Rightarrow> world \<Rightarrow> world" where
  "batch_summary st w =
     log_msg GenerateBatch [Txt ''All done!'']
       (log_msg GenerateBatch
          [Txt ''Estimated cost: $'', Cents (successCount st), Txt '' ('',
           Numb (Num (int (successCount st))), Txt '' API calls @ $0.01 each)'']
          (log_errors GenerateBatch (errors st)
             (log_msg GenerateBatch [Txt ''Total in manifest: '', Numb (Num (int (total_avatars (manifest st))))]
                (log_msg GenerateBatch [Txt ''Errors: '', Numb (Num (int (errorCount st)))]
                   (log_msg GenerateBatch [Txt ''Skipped: '', Numb (Num (int (skipCount st)))]
                      (log_msg GenerateBatch [Txt ''Success: '', Numb (Num (int (successCount st)))]
                         (log_msg GenerateBatch [Txt ''=== Generation Complete ===''] w)))))))"

text \<open>
  \<open>generate-batch.js\<close>, from the parsed options and the catalogue: the exit code of the
  process, the variables of \<open>main\<close> when its loop has run, and the world it leaves.
\<close>

definition batch_main ::
  "env \<Rightarrow> config \<Rightarrow> jsstring list \<Rightarrow> world \<Rightarrow> nat \<times> run_state option \<times> world" where
  "batch_main e cfg authors w =
     (if no_credential e then (1, None, w)
      else
        (let w1 = batch_banner cfg authors w;
             st0 = initial_state w1;
             todo = authorsToProcess cfg authors;
             w2 = log_msg GenerateBatch
                    [Txt ''Processing '', Numb (Num (int (length todo))), Txt '' authors ('',
                     Numb (startIndex cfg), Txt '' to '',
                     Numb (num_add (endIndex cfg (length authors)) (Num (- 1))), Txt '')''] w1
         in (case batch_loop e cfg (length authors) (length todo) 0 todo st0 w2 of
               (st, w3) \<Rightarrow> (0, Some st, batch_summary st w3))))"

definition regen_banner :: "jsstring list \<Rightarrow> world \<Rightarrow> world" where
  "regen_banner names w =
     log_msg RegenerateSpecific []
       (fold (\<lambda>(i, author). log_msg RegenerateSpecific
                 [Txt ''  '', Numb (Num (int i + 1)), Txt ''. '', Str author])
          (enumerate 0 names)
          (log_msg RegenerateSpecific
             [Txt ''Authors to regenerate: '', Numb (Num (int (length names)))]
             (log_msg RegenerateSpecific [Txt ''=== Regenerating Specific Avatars ===''] w)))"

definition regen_summary :: "env \<Rightarrow> run_state \<Rightarrow> world \<Rightarrow> world" where
  "regen_summary e st w =
     log_msg RegenerateSpecific [Txt ''  3. Avatars will be available via CDN immediately after push'']
       (log_msg RegenerateSpecific [Txt ''  2. If satisfied, commit and push to youth-wisdom-avatars repo'']
          (log_msg RegenerateSpecific [Txt ''  1. Review the regenerated avatars in: '', Str (AVATARS_DIR e)]
             (log_msg RegenerateSpecific [Txt ''Next steps:'']
                (log_msg RegenerateSpecific [Txt ''Done! You can now upload these avatars to the CDN.'']
                   (log_msg RegenerateSpecific
                      [Txt ''Estimated cost: $'', Cents (successCount st), Txt '' ('',
                       Numb (Num (int (successCount st))), Txt '' API calls @ $0.01 each)'']
                      (log_errors RegenerateSpecific (errors st)
                         (log_msg RegenerateSpecific [Txt ''Errors: '', Numb (Num (int (errorCount st)))]
                            (log_msg RegenerateSpecific [Txt ''Success: '', Numb (Num (int (successCount st)))]
                               (log_msg RegenerateSpecific [Txt ''=== Regeneration Complete ===''] w)))))))))"

definition regen_main ::
  "env \<Rightarrow> jsstring list \<Rightarrow> world \<Rightarrow> nat \<times> run_state option \<times> world" where
  "regen_main e authorsToRegenerate w =
     (if no_credential e then (1, None, w)
      else
        (let w1 = regen_banner authorsToRegenerate w in
         (case regen_loop e (length authorsToRegenerate) 0 authorsToRegenerate (initial_state w1) w1 of
            (st, w2) \<Rightarrow> (0, Some st, regen_summary e st w2))))"

text \<open>
  The regeneration script, from its command-line arguments: it checks them at the top
  level, before \<open>main\<close> runs.
\<close>

definition regen_script ::
  "env \<Rightarrow> jsstring list \<Rightarrow> world \<Rightarrow> nat \<times> run_state option \<times> world" where
  "regen_script e authorsToRegenerate w =
     (if length authorsToRegenerate = 0 then (1, None, w)
      else regen_main e authorsToRegenerate w)"

section \<open>Notions of the specification and example inputs\<close>

text \<open>
  The inline image data that a content part carries: the truthy \<open>data\<close> of its
  \<open>inlineData\<close>, if it has one.
\<close>

definition inline_image_data :: "json \<Rightarrow> json option" where
  "inline_image_data part =
     (case opt_chain (\<lambda>v. get_prop v (js ''data'')) (get_prop part (js ''inlineData'')) of
        Some d \<Rightarrow> if truthy d then Some d else None
      | None \<Rightarrow> None)"

text \<open>
  Example inputs: a service response with the given content parts, parts with and without
  data, an error response, a runtime whose service always gives the same outcome, and a
  world with no file. The example \<open>Buffer.from\<close> accepts strings only and yields the low
  bytes of the text (the decoding itself is the runtime's).
\<close>

definition candidates_with :: "json list \<Rightarrow> json" where
  "candidates_with ps =
     JObj [(js ''candidates'', JArr [JObj [(js ''content'', JObj [(js ''parts'', JArr ps)])]])]"

definition part_without_data :: json where
  "part_without_data = JObj [(js ''inlineData'', JObj [(js ''mimeType'', JStr (js ''image/png''))])]"

definition part_with_data :: json where
  "part_with_data = JObj [(js ''inlineData'', JObj [(js ''data'', JStr (js ''QUJD''))])]"

definition success_response :: "json \<Rightarrow> response" where
  "success_response data = \<lparr>status = 200, body_text = [], body_json = Inr data\<rparr>"

definition not_found_response :: response where
  "not_found_response =
     \<lparr>status = 404, body_text = js ''Not Found'', body_json = Inl (js ''Unexpected token'')\<rparr>"

definition example_Buffer_from :: "json \<Rightarrow> jsstring + bytes" where
  "example_Buffer_from v =
     (case v of
        JStr s \<Rightarrow> Inr (map ucast s)
      | _ \<Rightarrow> Inl (js ''The first argument must be of type string or an instance of Buffer''))"

definition always :: "fetch_outcome \<Rightarrow> nat \<Rightarrow> request \<Rightarrow> fetch_outcome" where
  "always out n req = out"

definition example_env :: "(nat \<Rightarrow> request \<Rightarrow> fetch_outcome) \<Rightarrow> env" where
  "example_env service =
     \<lparr>dirname = js ''/srv/app'', GEMINI_API_KEY = Some (js ''secret''), unicodeLower = id,
      fetch = service, Buffer_from = example_Buffer_from, writeError = (\<lambda>p. None)\<rparr>"

definition empty_world :: world where
  "empty_world =
     \<lparr>files = Map.empty, manifestFile = None, logFile = (\<lambda>sc. []), now = 0, calls = []\<rparr>"

definition example_config :: "int \<Rightarrow> int \<Rightarrow> config" where
  "example_config s l = \<lparr>startIndex = Num s, limit = Num l, delay = Num 1000\<rparr>"

definition no_key_env :: env where
  "no_key_env = (example_env (always (Rejected [])))\<lparr>GEMINI_API_KEY := None\<rparr>"

section \<open>Notions used in the statements\<close>

text \<open>The path of the content file of an item.\<close>

definition item_path :: "env \<Rightarrow> jsstring \<Rightarrow> jsstring" where
  "item_path e author = path_join (AVATARS_DIR e) (normalizeFilename (unicodeLower e) author)"

text \<open>
  The generation call of an item raises, or it returns and saving its result raises
  (from the world in which the generation call is made).
\<close>

definition generation_or_save_fails :: "script \<Rightarrow> env \<Rightarrow> jsstring \<Rightarrow> world \<Rightarrow> bool" where
  "generation_or_save_fails sc e author w =
     (case fst (generateAvatar sc e author w) of
        Inl msg \<Rightarrow> True
      | Inr d \<Rightarrow> isl (fst (saveAvatar sc e author d (snd (generateAvatar sc e author w)))))"

text \<open>
  What the end of a turn makes of the result of its \<open>try\<close> block: the outcome of the item
  and the variables of \<open>main\<close>.
\<close>

definition settle :: "jsstring \<Rightarrow> jsstring + jsstring \<Rightarrow> manifest \<Rightarrow> run_state \<Rightarrow> outcome \<times> run_state" where
  "settle a r m st =
     (case r of
        Inr f \<Rightarrow> (Success f, st\<lparr>manifest := m, successCount := successCount st + 1\<rparr>)
      | Inl msg \<Rightarrow> (Failure msg, record_error a msg m st))"

fun succeeded :: "outcome \<Rightarrow> bool" where
  "succeeded (Success f) = True"
| "succeeded out = False"

fun failed :: "outcome \<Rightarrow> bool" where
  "failed (Failure msg) = True"
| "failed out = False"

fun skipped :: "outcome \<Rightarrow> bool" where
  "skipped Skipped = True"
| "skipped out = False"

text \<open>The failing items of a run, with their messages, in order.\<close>

fun failures_of :: "(jsstring \<times> outcome) list \<Rightarrow> (jsstring \<times> jsstring) list" where
  "failures_of [] = []"
| "failures_of ((author, Failure msg) # rest) = (author, msg) # failures_of rest"
| "failures_of (other # rest) = failures_of rest"

text \<open>
  Saving one payload after the other for the same name with the \<open>saveAvatar\<close> of the
  regeneration script, as long as each call returns; and the bytes that \<open>Buffer.from\<close>
  makes of a payload.
\<close>

fun regen_saves :: "env \<Rightarrow> jsstring \<Rightarrow> json list \<Rightarrow> world \<Rightarrow> world option" where
  "regen_saves e author [] w = Some w"
| "regen_saves e author (d # ds) w =
     (case regen_saveAvatar e author d w of
        (Inl msg, w') \<Rightarrow> None
      | (Inr f, w') \<Rightarrow> regen_saves e author ds w')"

definition decoded :: "env \<Rightarrow> json \<Rightarrow> bytes" where
  "decoded e d = (case Buffer_from e d of Inr buffer \<Rightarrow> buffer | Inl msg \<Rightarrow> [])"

text \<open>A runtime whose service always answers with image data and whose writes succeed.\<close>

definition reliable :: "env \<Rightarrow> bool" where
  "reliable e = ((\<forall>p. writeError e p = None)
     \<and> (\<forall>sc a w. \<exists>d buffer. fst (generateAvatar sc e a w) = Inr d \<and> Buffer_from e d = Inr buffer))"

definition world_after :: "nat \<times> run_state option \<times> world \<Rightarrow> world" where
  "world_after r = snd (snd r)"

text \<open>
  More example inputs: a service that is down, one that answers with image data, one whose
  first answer fails, one whose data is a number; the scripts installed in a directory
  whose name holds \<open>.png\<close>, there with every write allowed or with writes allowed under
  that directory only; and a world with an earlier version of one content file.
\<close>

definition service_down :: env where
  "service_down = example_env (always (Rejected (js ''down'')))"

definition service_up :: env where
  "service_up = example_env (always (Responded (success_response (candidates_with [part_with_data]))))"

definition fail_first :: "nat \<Rightarrow> request \<Rightarrow> fetch_outcome" where
  "fail_first k req =
     (if k = 0 then Rejected (js ''down'')
      else Responded (success_response (candidates_with [part_with_data])))"

definition first_fails :: env where
  "first_fails = example_env fail_first"

definition part_with_number :: json where
  "part_with_number = JObj [(js ''inlineData'', JObj [(js ''data'', JNum 5)])]"

definition service_bad_data :: env where
  "service_bad_data =
     example_env (always (Responded (success_response (candidates_with [part_with_number]))))"

definition dotted_dir_env :: env where
  "dotted_dir_env = service_up\<lparr>dirname := js ''/srv/a.png''\<rparr>"

definition old_file_world :: world where
  "old_file_world = empty_world\<lparr>files := [js ''/srv/a.png/avatars/plato.png'' \<mapsto> [1, 2, 3]]\<rparr>"

definition dotted_dir_strict_env :: env where
  "dotted_dir_strict_env =
     dotted_dir_env\<lparr>writeError :=
       (\<lambda>p. if prefix (js ''/srv/a.png/'') p then None
            else Some (js ''ENOENT: no such file or directory''))\<rparr>"

text \<open>
  The range of the catalogue as the specification words it, for an integer start offset
  \<open>s\<close>: the items whose index is from \<open>s\<close> to \<open>endIndex - 1\<close>, where \<open>endIndex\<close> is
  \<open>min (s + limit) total\<close> when a limit (a positive number) is given and \<open>total\<close> when
  none is; an index that the catalogue does not have selects nothing.
\<close>

definition selected_by_spec :: "int \<Rightarrow> jsnum \<Rightarrow> 'a list \<Rightarrow> 'a list" where
  "selected_by_spec s lmt authors =
     (let ntotal = int (length authors);
          e = (case lmt of Num l \<Rightarrow> if 0 < l then min (s + l) ntotal else ntotal | _ \<Rightarrow> ntotal)
      in map (\<lambda>i. authors ! nat i) (filter (\<lambda>i. 0 \<le> i \<and> i < ntotal) [s .. e - 1]))"

text \<open>
  A run of \<open>main\<close> at its loop. In \<open>generate-batch.js\<close> the loop starts in the world left
  by the banner and the \<open>Processing\<close> line, with the manifest loaded after the banner and
  the counters at 0; in the regeneration script it starts in the world left by the banner.
  \<open>batch_run_loop\<close> and \<open>regen_run_loop\<close> are the variables and the world at the end of
  that loop, \<open>batch_run_outcomes\<close> and \<open>regen_run_outcomes\<close> the outcomes of its items.
\<close>

definition batch_loop_entry :: "config \<Rightarrow> jsstring list \<Rightarrow> world \<Rightarrow> world" where
  "batch_loop_entry cfg authors w =
     log_msg GenerateBatch
       [Txt ''Processing '', Numb (Num (int (length (authorsToProcess cfg authors)))),
        Txt '' authors ('', Numb (startIndex cfg), Txt '' to '',
        Numb (num_add (endIndex cfg (length authors)) (Num (- 1))), Txt '')'']
       (batch_banner cfg authors w)"

definition batch_run_loop :: "env \<Rightarrow> config \<Rightarrow> jsstring list \<Rightarrow> world \<Rightarrow> run_state \<times> world" where
  "batch_run_loop e cfg authors w =
     batch_loop e cfg (length authors) (length (authorsToProcess cfg authors)) 0
       (authorsToProcess cfg authors) (initial_state (batch_banner cfg authors w))
       (batch_loop_entry cfg authors w)"

definition batch_run_outcomes :: "env \<Rightarrow> config \<Rightarrow> jsstring list \<Rightarrow> world \<Rightarrow> outcome list" where
  "batch_run_outcomes e cfg authors w =
     batch_outcomes e cfg (length authors) (length (authorsToProcess cfg authors)) 0
       (authorsToProcess cfg authors) (initial_state (batch_banner cfg authors w))
       (batch_loop_entry cfg authors w)"

definition regen_run_loop :: "env \<Rightarrow> jsstring list \<Rightarrow> world \<Rightarrow> run_state \<times> world" where
  "regen_run_loop e names w =
     regen_loop e (length names) 0 names (initial_state (regen_banner names w))
       (regen_banner names w)"

definition regen_run_outcomes :: "env \<Rightarrow> jsstring list \<Rightarrow> world \<Rightarrow> outcome list" where
  "regen_run_outcomes e names w =
     regen_outcomes e (length names) 0 names (initial_state (regen_banner names w))
       (regen_banner names w)"

text \<open>The lines that the log of a script has in \<open>w'\<close> beyond those it has in \<open>w\<close>.\<close>

definition printed_after :: "script \<Rightarrow> world \<Rightarrow> world \<Rightarrow> piece list list" where
  "printed_after sc w w' = map snd (drop (length (logFile w sc)) (logFile w' sc))"

section \<open>Filename normalisation\<close>

lemma replaceNonAlnum_map:
  "replaceNonAlnum s = map (\<lambda>c. if isLowerAlnum c then c else separator) s"
  by (induction s) (simp_all add: js_def separator_def)

text \<open>
  Claim C4. \<open>normalizeFilename\<close> is a function of its argument (and of the runtime's
  lowercasing) alone. Its result is the lowercased name with every code unit outside
  \<open>[a-z0-9]\<close> replaced by \<open>-\<close>, followed by \<open>.png\<close>: it is as long as the lowercased name plus
  four, at each position of the lowercased name it holds that code unit when it is in
  \<open>[a-z0-9]\<close> and the separator otherwise, and the rest is the extension. The name
  \<open>Marcus Aurelius\<close> becomes \<open>marcus-aurelius.png\<close>.
\<close>

theorem normalizeFilename_refines_spec:
  "normalizeFilename uni name = normalized_by_spec uni name
   \<and> length (normalizeFilename uni name) = length (toLowerCase uni name) + 4
   \<and> (\<forall>i < length (toLowerCase uni name).
         normalizeFilename uni name ! i
           = (if isLowerAlnum (toLowerCase uni name ! i) then toLowerCase uni name ! i
              else separator))
   \<and> drop (length (toLowerCase uni name)) (normalizeFilename uni name) = js ''.png''
   \<and> normalizeFilename uni (js ''Marcus Aurelius'') = js ''marcus-aurelius.png''"
proof -
  have a: "normalizeFilename uni name = normalized_by_spec uni name"
    by (simp add: normalizeFilename_def normalized_by_spec_def replaceNonAlnum_map)
  have b: "length (normalizeFilename uni name) = length (toLowerCase uni name) + 4"
    by (simp add: normalizeFilename_def replaceNonAlnum_map js_def)
  have c: "normalizeFilename uni (js ''Marcus Aurelius'') = js ''marcus-aurelius.png''"
    by (simp add: normalizeFilename_def toLowerCase_def js_def lowerAscii_def isLowerAlnum_def)
  have d: "\<forall>i < length (toLowerCase uni name).
         normalizeFilename uni name ! i
           = (if isLowerAlnum (toLowerCase uni name ! i) then toLowerCase uni name ! i
              else separator)"
    by (simp add: normalizeFilename_def replaceNonAlnum_map nth_append)
  have e: "drop (length (toLowerCase uni name)) (normalizeFilename uni name) = js ''.png''"
    by (simp add: normalizeFilename_def replaceNonAlnum_map)
  from a b c d e show ?thesis by simp
qed

theorem normalizeFilename_refines_spec_witness:
  "normalizeFilename id (js ''Plato'') = js ''plato.png''
   \<and> normalized_by_spec id (js ''Plato'') = js ''plato.png''
   \<and> (0::nat) < length (toLowerCase id (js ''Plato''))
   \<and> normalizeFilename id (js ''Plato'') ! 0 = 0x70"
proof -
  have l: "toLowerCase id (js ''Plato'') = js ''plato''"
    by (simp add: toLowerCase_def js_def lowerAscii_def)
  have n: "(0::nat) < length (toLowerCase id (js ''Plato''))"
    unfolding l by (simp add: js_def)
  have p: "isLowerAlnum (js ''plato'' ! 0) \<and> js ''plato'' ! 0 = 0x70"
    by (simp add: js_def isLowerAlnum_def)
  from normalizeFilename_refines_spec [of id "js ''Plato''"] n
  have "normalizeFilename id (js ''Plato'') ! 0
      = (if isLowerAlnum (toLowerCase id (js ''Plato'') ! 0) then toLowerCase id (js ''Plato'') ! 0
         else separator)"
    by blast
  with p have z: "normalizeFilename id (js ''Plato'') ! 0 = 0x70"
    unfolding l by (simp add: isLowerAlnum_def)
  have f: "normalizeFilename id (js ''Plato'') = js ''plato.png''"
    unfolding normalizeFilename_def l by (simp add: js_def isLowerAlnum_def)
  from normalizeFilename_refines_spec [of id "js ''Plato''"] f
  have g: "normalized_by_spec id (js ''Plato'') = js ''plato.png''" by simp
  from z f g n show ?thesis by simp
qed

section \<open>The generator client\<close>

lemma find_skip:
  "\<forall>q\<in>set pre. q \<noteq> JNull \<and> \<not> truthy_opt (get_prop q (js ''inlineData'')) \<Longrightarrow>
   find_inlineData (pre @ rest) = find_inlineData rest"
  by (induction pre) auto

lemma find_Some_iff:
  "find_inlineData ps = Inr (Some p) \<longleftrightarrow>
   (\<exists>pre post. ps = pre @ p # post
      \<and> (\<forall>q\<in>set pre. q \<noteq> JNull \<and> \<not> truthy_opt (get_prop q (js ''inlineData'')))
      \<and> truthy_opt (get_prop p (js ''inlineData'')))"
proof
  show "find_inlineData ps = Inr (Some p) \<Longrightarrow>
   (\<exists>pre post. ps = pre @ p # post
      \<and> (\<forall>q\<in>set pre. q \<noteq> JNull \<and> \<not> truthy_opt (get_prop q (js ''inlineData'')))
      \<and> truthy_opt (get_prop p (js ''inlineData'')))"
  proof (induction ps)
    case Nil
    then show ?case by simp
  next
    case (Cons a ps)
    show ?case
    proof (cases "a \<noteq> JNull \<and> \<not> truthy_opt (get_prop a (js ''inlineData''))")
      case True
      with Cons.prems have "find_inlineData ps = Inr (Some p)" by simp
      from Cons.IH [OF this] obtain pre post where
        h: "ps = pre @ p # post"
           "\<forall>q\<in>set pre. q \<noteq> JNull \<and> \<not> truthy_opt (get_prop q (js ''inlineData''))"
           "truthy_opt (get_prop p (js ''inlineData''))"
        by blast
      from h True have "a # ps = (a # pre) @ p # post
          \<and> (\<forall>q\<in>set (a # pre). q \<noteq> JNull \<and> \<not> truthy_opt (get_prop q (js ''inlineData'')))
          \<and> truthy_opt (get_prop p (js ''inlineData''))"
        by simp
      then show ?thesis by blast
    next
      case False
      with Cons.prems have "a = p \<and> truthy_opt (get_prop p (js ''inlineData''))"
        by (auto split: if_splits)
      then have "a # ps = [] @ p # ps
          \<and> (\<forall>q\<in>set []. q \<noteq> JNull \<and> \<not> truthy_opt (get_prop q (js ''inlineData'')))
          \<and> truthy_opt (get_prop p (js ''inlineData''))"
        by simp
      then show ?thesis by blast
    qed
  qed
next
  assume "\<exists>pre post. ps = pre @ p # post
      \<and> (\<forall>q\<in>set pre. q \<noteq> JNull \<and> \<not> truthy_opt (get_prop q (js ''inlineData'')))
      \<and> truthy_opt (get_prop p (js ''inlineData''))"
  then obtain pre post where
    h: "ps = pre @ p # post"
       "\<forall>q\<in>set pre. q \<noteq> JNull \<and> \<not> truthy_opt (get_prop q (js ''inlineData''))"
       "truthy_opt (get_prop p (js ''inlineData''))"
    by blast
  from h(3) have "p \<noteq> JNull" by auto
  with h show "find_inlineData ps = Inr (Some p)"
    by (simp add: find_skip)
qed

lemma find_None_iff:
  "find_inlineData ps = Inr None \<longleftrightarrow>
   (\<forall>q\<in>set ps. q \<noteq> JNull \<and> \<not> truthy_opt (get_prop q (js ''inlineData'')))"
  by (induction ps) auto

lemma read_parts_null [simp]: "read_parts JNull = None"
  by (simp add: read_parts_def)

lemma get_prop_Some_obj: "get_prop v k = Some x \<Longrightarrow> \<exists>kvs. v = JObj kvs"
  by (cases v) simp_all

lemma inline_image_data_Some:
  "inline_image_data p = Some d \<longleftrightarrow>
   (\<exists>inl. get_prop p (js ''inlineData'') = Some inl \<and> truthy inl
      \<and> get_prop inl (js ''data'') = Some d \<and> truthy d)"
  unfolding inline_image_data_def
  apply (cases "get_prop p (js ''inlineData'')")
   apply simp
  subgoal for inl
    by (cases inl) (auto split: option.splits if_splits)
  done

lemma response_data_parts:
  assumes "ok r" "body_json r = Inr data" "read_parts data = Some (JArr ps)"
  shows "response_data (Responded r) =
     (case find_inlineData ps of
        Inl m \<Rightarrow> Inl m
      | Inr None \<Rightarrow> Inl no_image_data
      | Inr (Some p) \<Rightarrow>
          (case inline_image_data p of None \<Rightarrow> Inl no_image_data | Some d \<Rightarrow> Inr d))"
proof -
  from assms(3) have nn: "data \<noteq> JNull" by auto
  show ?thesis
  proof (cases "find_inlineData ps")
    case (Inl m)
    with assms nn show ?thesis by (simp add: response_data_def)
  next
    case (Inr o1)
    show ?thesis
    proof (cases o1)
      case None
      with Inr assms nn show ?thesis by (simp add: response_data_def)
    next
      case (Some p)
      show ?thesis
      proof (cases "inline_image_data p")
        case None
        then have "\<not> (\<exists>inl. get_prop p (js ''inlineData'') = Some inl \<and> truthy inl
            \<and> (\<exists>d. get_prop inl (js ''data'') = Some d \<and> truthy d))"
          using inline_image_data_Some [of p] by auto
        with None Some Inr assms nn show ?thesis
          by (auto simp add: response_data_def split: option.splits)
      next
        case (Some d)
        note d = this
        then obtain inl where "get_prop p (js ''inlineData'') = Some inl" "truthy inl"
            "get_prop inl (js ''data'') = Some d" "truthy d"
          using inline_image_data_Some [of p d] by auto
        with d \<open>o1 = Some p\<close> Inr assms nn show ?thesis
          by (simp add: response_data_def)
      qed
    qed
  qed
qed

lemma fst_generateAvatar:
  "fst (generateAvatar sc e author w) =
     (case response_data (fetch_result sc e author w) of
        Inl msg \<Rightarrow> Inl (js ''Generation failed: '' @ msg)
      | Inr d \<Rightarrow> Inr d)"
  by (simp add: generateAvatar_def Let_def split: sum.splits)

lemma response_data_Inr:
  assumes "response_data out = Inr d"
  shows "\<exists>r data ps. out = Responded r \<and> ok r \<and> body_json r = Inr data
           \<and> read_parts data = Some (JArr ps)"
proof (cases out)
  case (Rejected m)
  with assms show ?thesis by (simp add: response_data_def)
next
  case (Responded r)
  with assms have okr: "ok r" by (auto simp add: response_data_def split: if_splits)
  from assms Responded okr obtain data where dj: "body_json r = Inr data"
    by (cases "body_json r") (auto simp add: response_data_def)
  from assms Responded okr dj have nn: "data \<noteq> JNull" and tp: "truthy_opt (read_parts data)"
    by (auto simp add: response_data_def split: if_splits)
  from tp obtain parts where rp: "read_parts data = Some parts"
    by (cases "read_parts data") auto
  from assms Responded okr dj nn tp rp obtain ps where "parts = JArr ps"
    by (cases parts) (auto simp add: response_data_def)
  with Responded okr dj rp show ?thesis by blast
qed

text \<open>
  Claim C7, as amended. \<open>generateAvatar\<close> returns a value exactly when \<open>fetch\<close> gave a
  response with a success status whose body is JSON with an array of parts at
  \<open>candidates[0].content.parts\<close>, no part before the first part with a truthy
  \<open>inlineData\<close> is \<open>null\<close>, and that first part carries inline image data; the value is
  that data as received (the base64 text). In every other case it throws one error whose
  message is \<open>Generation failed: \<close> followed by a cause.
  For a status that is not a success the cause names the status code and the response
  body. For a success status with a JSON body that is not \<open>null\<close> and has no truthy parts
  list the cause is \<open>No parts in response\<close>. For a success status with a JSON body whose
  parts are an array, the cause is \<open>No image data in response\<close> when no part is \<open>null\<close>
  and none has a truthy \<open>inlineData\<close>, and also when the first part with a truthy
  \<open>inlineData\<close> carries no data and no part before it is \<open>null\<close>.
\<close>

theorem generateAvatar_contract:
  "(fst (generateAvatar sc e author w) = Inr d \<longleftrightarrow>
      (\<exists>r data pre p post.
          fetch_result sc e author w = Responded r \<and> ok r \<and> body_json r = Inr data
          \<and> read_parts data = Some (JArr (pre @ p # post))
          \<and> (\<forall>q\<in>set pre. q \<noteq> JNull \<and> \<not> truthy_opt (get_prop q (js ''inlineData'')))
          \<and> truthy_opt (get_prop p (js ''inlineData''))
          \<and> inline_image_data p = Some d))
   \<and> ((\<exists>d'. fst (generateAvatar sc e author w) = Inr d')
        \<or> (\<exists>cause. fst (generateAvatar sc e author w) = Inl (js ''Generation failed: '' @ cause)))
   \<and> (\<forall>r. fetch_result sc e author w = Responded r \<and> \<not> ok r \<longrightarrow>
          fst (generateAvatar sc e author w) =
            Inl (js ''Generation failed: API error: '' @ decimal (status r) @ js '' - '' @ body_text r))
   \<and> (\<forall>r data. fetch_result sc e author w = Responded r \<and> ok r \<and> body_json r = Inr data
          \<and> data \<noteq> JNull \<and> \<not> truthy_opt (read_parts data) \<longrightarrow>
          fst (generateAvatar sc e author w) = Inl (js ''Generation failed: No parts in response''))
   \<and> (\<forall>r data ps. fetch_result sc e author w = Responded r \<and> ok r \<and> body_json r = Inr data
          \<and> read_parts data = Some (JArr ps)
          \<and> (\<forall>q\<in>set ps. q \<noteq> JNull \<and> \<not> truthy_opt (get_prop q (js ''inlineData''))) \<longrightarrow>
          fst (generateAvatar sc e author w) = Inl (js ''Generation failed: No image data in response''))
   \<and> (\<forall>r data pre p post. fetch_result sc e author w = Responded r \<and> ok r
          \<and> body_json r = Inr data \<and> read_parts data = Some (JArr (pre @ p # post))
          \<and> (\<forall>q\<in>set pre. q \<noteq> JNull \<and> \<not> truthy_opt (get_prop q (js ''inlineData'')))
          \<and> truthy_opt (get_prop p (js ''inlineData'')) \<and> inline_image_data p = None \<longrightarrow>
          fst (generateAvatar sc e author w) = Inl (js ''Generation failed: No image data in response''))"
  (is "?A \<and> ?B \<and> ?C \<and> ?D \<and> ?E \<and> ?F")
proof -
  let ?res = "fst (generateAvatar sc e author w)"
  let ?out = "fetch_result sc e author w"
  have A: ?A
  proof
    assume "?res = Inr d"
    then have rd: "response_data ?out = Inr d"
      by (simp add: fst_generateAvatar split: sum.splits)
    from response_data_Inr [OF rd] obtain r data ps where
      h: "?out = Responded r" "ok r" "body_json r = Inr data" "read_parts data = Some (JArr ps)"
      by blast
    from rd h response_data_parts [OF h(2) h(3) h(4)]
    obtain p where fp: "find_inlineData ps = Inr (Some p)" and ip: "inline_image_data p = Some d"
      by (auto split: sum.splits option.splits)
    from fp obtain pre post where
      d: "ps = pre @ p # post"
         "\<forall>q\<in>set pre. q \<noteq> JNull \<and> \<not> truthy_opt (get_prop q (js ''inlineData''))"
         "truthy_opt (get_prop p (js ''inlineData''))"
      unfolding find_Some_iff by blast
    from h d ip show "\<exists>r data pre p post.
          ?out = Responded r \<and> ok r \<and> body_json r = Inr data
          \<and> read_parts data = Some (JArr (pre @ p # post))
          \<and> (\<forall>q\<in>set pre. q \<noteq> JNull \<and> \<not> truthy_opt (get_prop q (js ''inlineData'')))
          \<and> truthy_opt (get_prop p (js ''inlineData''))
          \<and> inline_image_data p = Some d"
      by blast
  next
    assume "\<exists>r data pre p post.
          ?out = Responded r \<and> ok r \<and> body_json r = Inr data
          \<and> read_parts data = Some (JArr (pre @ p # post))
          \<and> (\<forall>q\<in>set pre. q \<noteq> JNull \<and> \<not> truthy_opt (get_prop q (js ''inlineData'')))
          \<and> truthy_opt (get_prop p (js ''inlineData''))
          \<and> inline_image_data p = Some d"
    then obtain r data pre p post where
      h: "?out = Responded r" "ok r" "body_json r = Inr data"
         "read_parts data = Some (JArr (pre @ p # post))"
         "\<forall>q\<in>set pre. q \<noteq> JNull \<and> \<not> truthy_opt (get_prop q (js ''inlineData''))"
         "truthy_opt (get_prop p (js ''inlineData''))"
         "inline_image_data p = Some d"
      by blast
    from h(5) h(6) have "find_inlineData (pre @ p # post) = Inr (Some p)"
      unfolding find_Some_iff by blast
    with h(7) response_data_parts [OF h(2) h(3) h(4)] have "response_data (Responded r) = Inr d"
      by simp
    with h(1) show "?res = Inr d" by (simp add: fst_generateAvatar)
  qed
  have B: ?B
    by (cases "response_data ?out") (simp_all add: fst_generateAvatar)
  have C: ?C
    by (simp add: fst_generateAvatar response_data_def js_def)
  have D: ?D
    by (simp add: fst_generateAvatar response_data_def js_def)
  have E: ?E
  proof (intro allI impI)
    fix r data ps
    assume a: "?out = Responded r \<and> ok r \<and> body_json r = Inr data
          \<and> read_parts data = Some (JArr ps)
          \<and> (\<forall>q\<in>set ps. q \<noteq> JNull \<and> \<not> truthy_opt (get_prop q (js ''inlineData'')))"
    then have "find_inlineData ps = Inr None" by (simp add: find_None_iff)
    with a response_data_parts [of r data ps] show
      "?res = Inl (js ''Generation failed: No image data in response'')"
      by (simp add: fst_generateAvatar no_image_data_def js_def)
  qed
  have F: ?F
  proof (intro allI impI)
    fix r data pre p post
    assume a: "?out = Responded r \<and> ok r
          \<and> body_json r = Inr data \<and> read_parts data = Some (JArr (pre @ p # post))
          \<and> (\<forall>q\<in>set pre. q \<noteq> JNull \<and> \<not> truthy_opt (get_prop q (js ''inlineData'')))
          \<and> truthy_opt (get_prop p (js ''inlineData'')) \<and> inline_image_data p = None"
    then have "find_inlineData (pre @ p # post) = Inr (Some p)"
      unfolding find_Some_iff by blast
    with a response_data_parts [of r data "pre @ p # post"] show
      "?res = Inl (js ''Generation failed: No image data in response'')"
      by (simp add: fst_generateAvatar no_image_data_def js_def)
  qed
  from A B C D E F show ?thesis by blast
qed

lemma decimal_404: "decimal 404 = js ''404''"
  by (simp add: decimal.simps js_def)

lemma ok_success_response: "ok (success_response (candidates_with [part_without_data, part_with_data]))"
  by (simp add: ok_def success_response_def)

lemma read_parts_two: "read_parts (candidates_with [part_without_data, part_with_data])
       = Some (JArr [part_without_data, part_with_data])"
  by (simp add: candidates_with_def read_parts_def js_def)

lemma inline_image_data_part_with_data: "inline_image_data part_with_data = Some (JStr (js ''QUJD''))"
  by (simp add: part_with_data_def inline_image_data_def js_def)

lemma body_json_success: "body_json (success_response data) = Inr data"
  by (simp add: success_response_def)

lemma fetch_result_always:
  "fetch_result sc (example_env (always out)) author w = out"
  by (simp add: fetch_result_def example_env_def always_def)

lemma find_two: "find_inlineData [part_without_data, part_with_data] = Inr (Some part_without_data)"
  by (simp add: part_without_data_def part_with_data_def js_def)

lemma inline_image_data_part_without_data: "inline_image_data part_without_data = None"
  by (simp add: part_without_data_def inline_image_data_def js_def)

text \<open>
  Claim C7 as stated fails: a success response whose second part carries inline image
  data, behind a first part whose \<open>inlineData\<close> has no data, makes \<open>generateAvatar\<close> throw.
\<close>

theorem generateAvatar_first_carrier_counterexample:
  "ok (success_response (candidates_with [part_without_data, part_with_data]))
   \<and> read_parts (candidates_with [part_without_data, part_with_data])
       = Some (JArr [part_without_data, part_with_data])
   \<and> inline_image_data part_with_data = Some (JStr (js ''QUJD''))
   \<and> fst (generateAvatar GenerateBatch
        (example_env (always (Responded
           (success_response (candidates_with [part_without_data, part_with_data])))))
        (js ''Plato'') empty_world)
       = Inl (js ''Generation failed: No image data in response'')"
proof -
  have "response_data (Responded (success_response (candidates_with [part_without_data, part_with_data])))
        = Inl no_image_data"
    unfolding response_data_parts [OF ok_success_response body_json_success read_parts_two] find_two by (simp add: inline_image_data_part_without_data)
  then have "fst (generateAvatar GenerateBatch
        (example_env (always (Responded
           (success_response (candidates_with [part_without_data, part_with_data])))))
        (js ''Plato'') empty_world)
       = Inl (js ''Generation failed: No image data in response'')"
    by (simp add: fst_generateAvatar fetch_result_always no_image_data_def js_def)
  with ok_success_response read_parts_two inline_image_data_part_with_data show ?thesis
    by simp
qed

theorem generateAvatar_contract_witness:
  "fst (generateAvatar GenerateBatch
        (example_env (always (Responded (success_response (candidates_with [part_with_data])))))
        (js ''Plato'') empty_world) = Inr (JStr (js ''QUJD''))
   \<and> fst (generateAvatar RegenerateSpecific
        (example_env (always (Responded not_found_response))) (js ''Plato'') empty_world)
       = Inl (js ''Generation failed: API error: 404 - Not Found'')"
proof -
  let ?e = "example_env (always (Responded (success_response (candidates_with [part_with_data]))))"
  let ?r = "success_response (candidates_with [part_with_data])"
  have h1: "fetch_result GenerateBatch ?e (js ''Plato'') empty_world = Responded ?r"
    by (simp add: fetch_result_always)
  have h2: "ok ?r" by (simp add: ok_def success_response_def)
  have h3: "read_parts (candidates_with [part_with_data]) = Some (JArr ([] @ part_with_data # []))"
    by (simp add: candidates_with_def read_parts_def js_def)
  have h4: "\<forall>q\<in>set []. q \<noteq> JNull \<and> \<not> truthy_opt (get_prop q (js ''inlineData''))"
    by simp
  have h5: "truthy_opt (get_prop part_with_data (js ''inlineData''))"
    by (simp add: part_with_data_def js_def)
  have a: "fst (generateAvatar GenerateBatch ?e (js ''Plato'') empty_world) = Inr (JStr (js ''QUJD''))"
    using generateAvatar_contract [of GenerateBatch ?e "js ''Plato''" empty_world "JStr (js ''QUJD'')"]
      h1 h2 body_json_success h3 h4 h5 inline_image_data_part_with_data
    by blast
  have n: "fetch_result RegenerateSpecific (example_env (always (Responded not_found_response)))
             (js ''Plato'') empty_world = Responded not_found_response
           \<and> \<not> ok not_found_response"
    by (simp add: fetch_result_always ok_def not_found_response_def)
  have b: "fst (generateAvatar RegenerateSpecific
        (example_env (always (Responded not_found_response))) (js ''Plato'') empty_world)
       = Inl (js ''Generation failed: API error: '' @ decimal (status not_found_response)
              @ js '' - '' @ body_text not_found_response)"
    using generateAvatar_contract [of RegenerateSpecific
        "example_env (always (Responded not_found_response))" "js ''Plato''" empty_world JNull] n
    by blast
  have c: "js ''Generation failed: API error: '' @ decimal (status not_found_response)
              @ js '' - '' @ body_text not_found_response
           = js ''Generation failed: API error: 404 - Not Found''"
    by (simp add: not_found_response_def decimal_404) (simp add: js_def)
  from a b c show ?thesis by simp
qed

section \<open>Fatal conditions at start\<close>

lemma log_msg_calls [simp]: "calls (log_msg sc p w) = calls w"
  by (simp add: log_msg_def)

lemma log_msg_files [simp]: "files (log_msg sc p w) = files w"
  by (simp add: log_msg_def)

lemma log_msg_manifestFile [simp]: "manifestFile (log_msg sc p w) = manifestFile w"
  by (simp add: log_msg_def)

lemma log_msg_now [simp]: "now (log_msg sc p w) = now w"
  by (simp add: log_msg_def)

lemma fold_log_preserves:
  "calls (fold (\<lambda>x. log_msg sc (f x)) xs w) = calls w
   \<and> files (fold (\<lambda>x. log_msg sc (f x)) xs w) = files w
   \<and> manifestFile (fold (\<lambda>x. log_msg sc (f x)) xs w) = manifestFile w
   \<and> now (fold (\<lambda>x. log_msg sc (f x)) xs w) = now w"
  by (induction xs arbitrary: w) simp_all

lemma log_errors_preserves [simp]:
  "calls (log_errors sc errs w) = calls w"
  "files (log_errors sc errs w) = files w"
  "manifestFile (log_errors sc errs w) = manifestFile w"
  "now (log_errors sc errs w) = now w"
  using fold_log_preserves [of sc "\<lambda>(author, error). [Txt ''  - '', Str author, Txt '': '', Str error]" errs
      "log_msg sc [Txt ''Errors:''] w"]
  by (simp_all add: log_errors_def case_prod_unfold)

lemma batch_banner_preserves [simp]:
  "calls (batch_banner cfg authors w) = calls w"
  "files (batch_banner cfg authors w) = files w"
  "manifestFile (batch_banner cfg authors w) = manifestFile w"
  "now (batch_banner cfg authors w) = now w"
  by (simp_all add: batch_banner_def)

lemma batch_summary_preserves [simp]:
  "calls (batch_summary st w) = calls w"
  "files (batch_summary st w) = files w"
  "manifestFile (batch_summary st w) = manifestFile w"
  "now (batch_summary st w) = now w"
  by (simp_all add: batch_summary_def)

lemma regen_banner_preserves [simp]:
  "calls (regen_banner names w) = calls w"
  "files (regen_banner names w) = files w"
  "manifestFile (regen_banner names w) = manifestFile w"
  "now (regen_banner names w) = now w"
  using fold_log_preserves [of RegenerateSpecific
      "\<lambda>(i, author). [Txt ''  '', Numb (Num (int i + 1)), Txt ''. '', Str author]" "enumerate 0 names"
      "log_msg RegenerateSpecific [Txt ''Authors to regenerate: '', Numb (Num (int (length names)))]
         (log_msg RegenerateSpecific [Txt ''=== Regenerating Specific Avatars ===''] w)"]
  by (simp_all add: regen_banner_def case_prod_unfold)

lemma regen_summary_preserves [simp]:
  "calls (regen_summary e st w) = calls w"
  "files (regen_summary e st w) = files w"
  "manifestFile (regen_summary e st w) = manifestFile w"
  "now (regen_summary e st w) = now w"
  by (simp_all add: regen_summary_def)

text \<open>
  Claim C9. With no credential (the variable unset or empty) either script exits with
  code 1 and leaves the world as it found it: no request has been sent.
\<close>

theorem missing_credential_is_fatal:
  assumes "no_credential e"
  shows "batch_main e cfg authors w = (1, None, w)
         \<and> regen_script e names w = (1, None, w)
         \<and> calls (snd (snd (batch_main e cfg authors w))) = calls w
         \<and> calls (snd (snd (regen_script e names w))) = calls w"
  using assms by (simp add: batch_main_def regen_script_def regen_main_def)

theorem missing_credential_is_fatal_witness:
  "no_credential no_key_env
   \<and> fst (batch_main no_key_env (example_config 0 0) [js ''Plato''] empty_world) = 1
   \<and> fst (regen_script no_key_env [js ''Plato''] empty_world) = 1
   \<and> calls (snd (snd (batch_main no_key_env (example_config 0 0) [js ''Plato''] empty_world))) = []
   \<and> calls (snd (snd (regen_script no_key_env [js ''Plato''] empty_world))) = []"
proof -
  have h: "no_credential no_key_env"
    by (simp add: no_credential_def no_key_env_def example_env_def)
  have c: "calls empty_world = []" by (simp add: empty_world_def)
  from missing_credential_is_fatal [OF h, of "example_config 0 0" "[js ''Plato'']" empty_world "[js ''Plato'']"]
    h c show ?thesis by simp
qed

text \<open>
  Claim C8 as stated fails for the batch script: with a credential and an empty catalogue
  range it runs its empty loop and ends with exit code 0.
\<close>

theorem batch_empty_range_counterexample:
  "authorsToProcess (example_config 0 0) [] = []
   \<and> \<not> no_credential (example_env (always (Rejected [])))
   \<and> fst (batch_main (example_env (always (Rejected []))) (example_config 0 0) [] empty_world) = 0"
  by (simp add: authorsToProcess_def array_slice_def batch_main_def no_credential_def
      example_env_def js_def Let_def)

text \<open>
  Claim C8, as amended. The regeneration script given no name exits with code 1 before
  any work. The batch script with a credential and an empty range sends no request,
  writes no file and no manifest, and ends with exit code 0.
\<close>

theorem empty_work_set:
  "regen_script e [] w = (1, None, w)
   \<and> (\<not> no_credential e \<and> authorsToProcess cfg authors = [] \<longrightarrow>
        fst (batch_main e cfg authors w) = 0
        \<and> calls (snd (snd (batch_main e cfg authors w))) = calls w
        \<and> files (snd (snd (batch_main e cfg authors w))) = files w
        \<and> manifestFile (snd (snd (batch_main e cfg authors w))) = manifestFile w)"
  by (simp add: regen_script_def batch_main_def Let_def)

theorem empty_work_set_witness:
  "fst (regen_script (example_env (always (Rejected []))) [] empty_world) = 1
   \<and> fst (batch_main (example_env (always (Rejected []))) (example_config 5 0) [js ''Plato''] empty_world) = 0
   \<and> calls (snd (snd (batch_main (example_env (always (Rejected []))) (example_config 5 0)
        [js ''Plato''] empty_world))) = []"
proof -
  have a: "\<not> no_credential (example_env (always (Rejected [])))"
    by (simp add: no_credential_def example_env_def js_def)
  have b: "authorsToProcess (example_config 5 0) [js ''Plato''] = []"
    by (simp add: authorsToProcess_def array_slice_def endIndex_def example_config_def)
  have c: "calls empty_world = []" by (simp add: empty_world_def)
  from empty_work_set [of "example_env (always (Rejected []))" empty_world "example_config 5 0" "[js ''Plato'']"]
    a b c show ?thesis by simp
qed

section \<open>Files and the manifest\<close>

lemma generateAvatar_world:
  "snd (generateAvatar sc e a w) = w\<lparr>calls := calls w @ [sent_request sc e a]\<rparr>"
  by (simp add: generateAvatar_def Let_def split: sum.splits)

lemma writeFileSync_cases:
  "writeFileSync e p b w = (r, w') \<Longrightarrow>
     (r = Inr () \<and> writeError e p = None \<and> w' = w\<lparr>files := (files w)(p \<mapsto> b)\<rparr>)
     \<or> (\<exists>msg. r = Inl msg \<and> writeError e p = Some msg \<and> w' = w)"
  by (auto simp add: writeFileSync_def split: option.splits)

lemma batch_saveAvatar_Inr:
  "batch_saveAvatar e a d w = (Inr f, w') \<Longrightarrow>
     f = normalizeFilename (unicodeLower e) a
     \<and> (\<exists>buffer. Buffer_from e d = Inr buffer
           \<and> w' = w\<lparr>files := (files w)(item_path e a \<mapsto> buffer)\<rparr>)"
  by (auto simp add: batch_saveAvatar_def Let_def item_path_def
      split: sum.splits prod.splits dest!: writeFileSync_cases)

lemma batch_saveAvatar_Inl:
  "batch_saveAvatar e a d w = (Inl msg, w') \<Longrightarrow> w' = w"
  by (auto simp add: batch_saveAvatar_def Let_def
      split: sum.splits prod.splits dest!: writeFileSync_cases)

lemma backup_old_file_frame:
  "backup_old_file e p w = (r, w') \<Longrightarrow>
     manifestFile w' = manifestFile w \<and> calls w' = calls w \<and> now w' = now w
     \<and> (\<forall>q. q \<noteq> backupPath_of p \<longrightarrow> files w' q = files w q)
     \<and> files w' p = files w p
     \<and> dom (files w) \<subseteq> dom (files w')"
  by (auto simp add: backup_old_file_def copyFileSync_def existsSync_def log_msg_def
      split: if_splits option.splits prod.splits sum.splits dest!: writeFileSync_cases)

lemma regen_saveAvatar_frame:
  "regen_saveAvatar e a d w = (r, w') \<Longrightarrow>
     manifestFile w' = manifestFile w \<and> calls w' = calls w \<and> now w' = now w
     \<and> dom (files w) \<subseteq> dom (files w')"
  by (auto simp add: regen_saveAvatar_def Let_def
      split: sum.splits prod.splits dest!: writeFileSync_cases backup_old_file_frame)

lemma regen_saveAvatar_Inr:
  "regen_saveAvatar e a d w = (Inr f, w') \<Longrightarrow>
     f = normalizeFilename (unicodeLower e) a \<and> files w' (item_path e a) \<noteq> None"
  by (auto simp add: regen_saveAvatar_def Let_def item_path_def
      split: sum.splits prod.splits dest!: writeFileSync_cases)

lemma saveAvatar_frame:
  "saveAvatar sc e a d w = (r, w') \<Longrightarrow>
     manifestFile w' = manifestFile w \<and> calls w' = calls w \<and> now w' = now w
     \<and> dom (files w) \<subseteq> dom (files w')"
  apply (cases sc)
   apply (cases r)
    apply (auto simp add: saveAvatar_def dest!: batch_saveAvatar_Inl batch_saveAvatar_Inr regen_saveAvatar_frame)
  done

lemma saveAvatar_Inr:
  "saveAvatar sc e a d w = (Inr f, w') \<Longrightarrow>
     f = normalizeFilename (unicodeLower e) a \<and> files w' (item_path e a) \<noteq> None"
  by (cases sc) (auto simp add: saveAvatar_def dest!: batch_saveAvatar_Inr regen_saveAvatar_Inr)

lemma Object_keys_length_card:
  "Object_keys_length kvs = card (dom (map_of kvs))"
  by (simp add: Object_keys_length_def dom_map_of_conv_image_fst length_remdups_card_conv)

lemma saveManifest_cases:
  "saveManifest e m w = (r, m', w') \<Longrightarrow>
     m' = m\<lparr>updated_at := Some (now w), total_avatars := card (dom (map_of (avatars m)))\<rparr>
     \<and> ((r = Inr () \<and> writeError e (MANIFEST_FILE e) = None \<and> w' = w\<lparr>manifestFile := Some m'\<rparr>)
        \<or> (\<exists>msg. r = Inl msg \<and> writeError e (MANIFEST_FILE e) = Some msg \<and> w' = w))"
  by (auto simp add: saveManifest_def Let_def Object_keys_length_card split: option.splits)

lemma fst_generateAvatar_cong:
  "calls w1 = calls w2 \<Longrightarrow> fst (generateAvatar sc e a w1) = fst (generateAvatar sc e a w2)"
  by (simp add: generateAvatar_def Let_def fetch_result_def split: sum.splits)

lemma fst_batch_saveAvatar_cong:
  "fst (batch_saveAvatar e a d w1) = fst (batch_saveAvatar e a d w2)"
  by (simp add: batch_saveAvatar_def Let_def writeFileSync_def split: sum.splits prod.splits option.splits)

lemma fst_backup_old_file_cong:
  "files w1 = files w2 \<Longrightarrow> fst (backup_old_file e p w1) = fst (backup_old_file e p w2)"
  by (simp add: backup_old_file_def existsSync_def copyFileSync_def writeFileSync_def
      split: sum.splits prod.splits option.splits)

lemma fst_regen_saveAvatar_cong:
  "files w1 = files w2 \<Longrightarrow> fst (regen_saveAvatar e a d w1) = fst (regen_saveAvatar e a d w2)"
  using fst_backup_old_file_cong [of w1 w2 e "path_join (AVATARS_DIR e) (normalizeFilename (unicodeLower e) a)"]
  by (auto simp add: regen_saveAvatar_def Let_def writeFileSync_def
      split: sum.splits prod.splits option.splits)

lemma fst_saveAvatar_cong:
  "files w1 = files w2 \<Longrightarrow> fst (saveAvatar sc e a d w1) = fst (saveAvatar sc e a d w2)"
proof (cases sc)
  case GenerateBatch
  then show ?thesis
    using fst_batch_saveAvatar_cong [of e a d w1 w2] by (simp add: saveAvatar_def)
next
  case RegenerateSpecific
  assume "files w1 = files w2"
  from fst_regen_saveAvatar_cong [OF this, of e a d] RegenerateSpecific show ?thesis
    by (simp add: saveAvatar_def)
qed

lemma generation_or_save_fails_cong:
  assumes "calls w1 = calls w2" "files w1 = files w2"
  shows "generation_or_save_fails sc e a w1 = generation_or_save_fails sc e a w2"
proof -
  have g: "fst (generateAvatar sc e a w1) = fst (generateAvatar sc e a w2)"
    using assms(1) by (rule fst_generateAvatar_cong)
  have f: "files (snd (generateAvatar sc e a w1)) = files (snd (generateAvatar sc e a w2))"
    using assms(2) by (simp add: generateAvatar_world)
  show ?thesis
    unfolding generation_or_save_fails_def g
    using fst_saveAvatar_cong [OF f] by (auto split: sum.splits)
qed

section \<open>The try block\<close>

lemma try_item_frame:
  assumes "try_item sc e a m w = (r, m', w')"
  shows "calls w' = calls w @ [sent_request sc e a] \<and> now w' = now w
         \<and> dom (files w) \<subseteq> dom (files w')"
proof -
  obtain g w1 where g: "generateAvatar sc e a w = (g, w1)" by (cases "generateAvatar sc e a w")
  then have w1: "w1 = w\<lparr>calls := calls w @ [sent_request sc e a]\<rparr>"
    using generateAvatar_world [of sc e a w] by simp
  show ?thesis
  proof (cases g)
    case (Inl msg)
    with assms g have "w' = w1" by (simp add: try_item_def)
    then show ?thesis by (simp add: w1)
  next
    case (Inr d)
    obtain s w2 where s: "saveAvatar sc e a d w1 = (s, w2)" by (cases "saveAvatar sc e a d w1")
    note fr = saveAvatar_frame [OF s]
    show ?thesis
    proof (cases s)
      case (Inl msg)
      with assms g Inr s have "w' = w2" by (simp add: try_item_def)
      with fr show ?thesis by (simp add: w1)
    next
      case (Inr f)
      obtain r3 m3 w3 where sm: "saveManifest e
             (assign_avatar a \<lparr>filename = f, entry_generated_at = now w2,
                                regenerated = (sc = RegenerateSpecific)\<rparr> m) w2 = (r3, m3, w3)"
        by (rule prod_cases3)
      from saveManifest_cases [OF sm] have "calls w3 = calls w2 \<and> now w3 = now w2 \<and> files w3 = files w2"
        by auto
      moreover from assms g \<open>g = Inr d\<close> s Inr sm have "w' = w3"
        by (cases r3) (simp_all add: try_item_def)
      ultimately show ?thesis using fr by (simp add: w1)
    qed
  qed
qed

lemma try_item_fails:
  assumes "generation_or_save_fails sc e a w"
  shows "\<exists>msg w'. try_item sc e a m w = (Inl msg, m, w') \<and> manifestFile w' = manifestFile w"
proof -
  obtain g w1 where g: "generateAvatar sc e a w = (g, w1)" by (cases "generateAvatar sc e a w")
  then have w1: "w1 = w\<lparr>calls := calls w @ [sent_request sc e a]\<rparr>"
    using generateAvatar_world [of sc e a w] by simp
  show ?thesis
  proof (cases g)
    case (Inl msg)
    with g have "try_item sc e a m w = (Inl msg, m, w1)" by (simp add: try_item_def)
    then show ?thesis by (simp add: w1)
  next
    case (Inr d)
    obtain s w2 where s: "saveAvatar sc e a d w1 = (s, w2)" by (cases "saveAvatar sc e a d w1")
    from assms g Inr s obtain msg where "s = Inl msg"
      by (cases s) (simp_all add: generation_or_save_fails_def)
    with g Inr s have "try_item sc e a m w = (Inl msg, m, w2)" by (simp add: try_item_def)
    with saveAvatar_frame [OF s] show ?thesis by (simp add: w1)
  qed
qed

lemma try_item_Inr:
  assumes "try_item sc e a m w = (Inr f, m', w')"
  shows "f = normalizeFilename (unicodeLower e) a
         \<and> files w' (item_path e a) \<noteq> None
         \<and> manifestFile w' = Some m'
         \<and> m' = (assign_avatar a \<lparr>filename = f, entry_generated_at = now w,
                                  regenerated = (sc = RegenerateSpecific)\<rparr> m)
                 \<lparr>updated_at := Some (now w),
                  total_avatars := card (dom (map_of (avatars
                     (assign_avatar a \<lparr>filename = f, entry_generated_at = now w,
                                  regenerated = (sc = RegenerateSpecific)\<rparr> m))))\<rparr>"
proof -
  obtain g w1 where g: "generateAvatar sc e a w = (g, w1)" by (cases "generateAvatar sc e a w")
  then have w1: "w1 = w\<lparr>calls := calls w @ [sent_request sc e a]\<rparr>"
    using generateAvatar_world [of sc e a w] by simp
  from assms g obtain d where d: "g = Inr d" by (cases g) (simp_all add: try_item_def)
  obtain s w2 where s: "saveAvatar sc e a d w1 = (s, w2)" by (cases "saveAvatar sc e a d w1")
  from assms g d s obtain f2 where f2: "s = Inr f2" by (cases s) (simp_all add: try_item_def)
  note fr = saveAvatar_frame [OF s] and sv = saveAvatar_Inr [OF s [unfolded f2]]
  obtain r3 m3 w3 where sm: "saveManifest e
         (assign_avatar a \<lparr>filename = f2, entry_generated_at = now w2,
                            regenerated = (sc = RegenerateSpecific)\<rparr> m) w2 = (r3, m3, w3)"
    by (rule prod_cases3)
  from assms g d s f2 sm have r3: "r3 = Inr () \<and> f = f2 \<and> m' = m3 \<and> w' = w3"
    by (cases r3) (simp_all add: try_item_def)
  from saveManifest_cases [OF sm] r3 have
    "m' = (assign_avatar a \<lparr>filename = f, entry_generated_at = now w2,
                            regenerated = (sc = RegenerateSpecific)\<rparr> m)
          \<lparr>updated_at := Some (now w2),
           total_avatars := card (dom (map_of (avatars
              (assign_avatar a \<lparr>filename = f, entry_generated_at = now w2,
                                 regenerated = (sc = RegenerateSpecific)\<rparr> m))))\<rparr>"
    and "w' = w2\<lparr>manifestFile := Some m'\<rparr>"
    by auto
  moreover from fr have "now w2 = now w" by (simp add: w1)
  ultimately show ?thesis using sv r3 by simp
qed

lemma try_item_generation_fails:
  assumes "fst (generateAvatar sc e a w) = Inl msg"
  shows "try_item sc e a m w = (Inl msg, m, snd (generateAvatar sc e a w))"
proof -
  obtain g w1 where g: "generateAvatar sc e a w = (g, w1)" by (cases "generateAvatar sc e a w")
  with assms show ?thesis by (simp add: try_item_def)
qed

lemma assign_avatar_lookup:
  "a \<noteq> js ''__proto__'' \<Longrightarrow> map_of (avatars (assign_avatar a entry m)) a = Some entry"
  by (simp add: assign_avatar_def update_conv')

lemma try_item_Inr_manifest:
  assumes "try_item sc e a m w = (Inr f, m', w')"
  shows "manifestFile w' = Some m'
     \<and> total_avatars m' = card (dom (map_of (avatars m')))
     \<and> updated_at m' = Some (now w)
     \<and> (a \<noteq> js ''__proto__'' \<longrightarrow>
          map_of (avatars m') a
            = Some \<lparr>filename = f, entry_generated_at = now w, regenerated = (sc = RegenerateSpecific)\<rparr>)"
proof -
  let ?m1 = "assign_avatar a \<lparr>filename = f, entry_generated_at = now w,
                                  regenerated = (sc = RegenerateSpecific)\<rparr> m"
  from try_item_Inr [OF assms] have mf: "manifestFile w' = Some m'"
    and m': "m' = ?m1\<lparr>updated_at := Some (now w),
                       total_avatars := card (dom (map_of (avatars ?m1)))\<rparr>"
    by simp_all
  from m' have av: "avatars m' = avatars ?m1" and ta: "total_avatars m' = card (dom (map_of (avatars ?m1)))"
    and up: "updated_at m' = Some (now w)"
    by simp_all
  from mf av ta up assign_avatar_lookup [of a _ m] show ?thesis by simp
qed

lemma saveAvatar_succeeds:
  assumes "Buffer_from e d = Inr buffer" "\<forall>p. writeError e p = None"
  shows "fst (saveAvatar sc e a d w) = Inr (normalizeFilename (unicodeLower e) a)"
proof (cases sc)
  case GenerateBatch
  with assms show ?thesis
    by (simp add: saveAvatar_def batch_saveAvatar_def Let_def writeFileSync_def)
next
  case RegenerateSpecific
  let ?p = "path_join (AVATARS_DIR e) (normalizeFilename (unicodeLower e) a)"
  from assms(2) have "fst (backup_old_file e ?p w) = Inr ()"
    by (simp add: backup_old_file_def copyFileSync_def writeFileSync_def existsSync_def
        split: option.splits)
  then obtain w1 where "backup_old_file e ?p w = (Inr (), w1)"
    by (cases "backup_old_file e ?p w") simp
  with RegenerateSpecific assms show ?thesis
    by (simp add: saveAvatar_def regen_saveAvatar_def Let_def writeFileSync_def)
qed

lemma try_item_succeeds:
  assumes "fst (generateAvatar sc e a w) = Inr d" "Buffer_from e d = Inr buffer"
    "\<forall>p. writeError e p = None"
  shows "fst (try_item sc e a m w) = Inr (normalizeFilename (unicodeLower e) a)"
proof -
  obtain w1 where g: "generateAvatar sc e a w = (Inr d, w1)"
    using assms(1) by (cases "generateAvatar sc e a w") simp
  obtain s w2 where s: "saveAvatar sc e a d w1 = (s, w2)" by (cases "saveAvatar sc e a d w1")
  from saveAvatar_succeeds [OF assms(2) assms(3), of sc a w1] s
  have s': "s = Inr (normalizeFilename (unicodeLower e) a)" by simp
  from assms(3) g s s' show ?thesis
    by (simp add: try_item_def saveManifest_def Let_def)
qed

section \<open>One turn of a loop\<close>

lemma sleep_frame [simp]:
  "calls (sleep d w) = calls w" "files (sleep d w) = files w"
  "manifestFile (sleep d w) = manifestFile w"
  by (simp_all add: sleep_def)

lemma batch_item_skip:
  assumes "existsSync w (item_path e a)"
  shows "fst (batch_item e cfg t n i a st w) = Skipped
         \<and> fst (snd (batch_item e cfg t n i a st w)) = st\<lparr>skipCount := skipCount st + 1\<rparr>
         \<and> calls (snd (snd (batch_item e cfg t n i a st w))) = calls w
         \<and> files (snd (snd (batch_item e cfg t n i a st w))) = files w
         \<and> manifestFile (snd (snd (batch_item e cfg t n i a st w))) = manifestFile w"
  using assms by (simp add: batch_item_def Let_def item_path_def)

lemma batch_item_try:
  assumes "\<not> existsSync w (item_path e a)"
  shows "\<exists>w0 r m wt. files w0 = files w \<and> calls w0 = calls w
           \<and> manifestFile w0 = manifestFile w \<and> now w0 = now w
           \<and> try_item GenerateBatch e a (manifest st) w0 = (r, m, wt)
           \<and> (fst (batch_item e cfg t n i a st w), fst (snd (batch_item e cfg t n i a st w)))
               = settle a r m st
           \<and> files (snd (snd (batch_item e cfg t n i a st w))) = files wt
           \<and> calls (snd (snd (batch_item e cfg t n i a st w))) = calls wt
           \<and> manifestFile (snd (snd (batch_item e cfg t n i a st w))) = manifestFile wt"
proof -
  let ?w0 = "log_msg GenerateBatch
      (position (num_add (startIndex cfg) (Num (int i))) t @ [Txt '' Generating: '', Str a, Txt ''...'']) w"
  have fr: "files ?w0 = files w \<and> calls ?w0 = calls w \<and> manifestFile ?w0 = manifestFile w
           \<and> now ?w0 = now w"
    by simp
  obtain r m wt where tr: "try_item GenerateBatch e a (manifest st) ?w0 = (r, m, wt)"
    by (rule prod_cases3)
  from assms have ne: "\<not> existsSync w (path_join (AVATARS_DIR e) (normalizeFilename (unicodeLower e) a))"
    by (simp add: item_path_def)
  have "(fst (batch_item e cfg t n i a st w), fst (snd (batch_item e cfg t n i a st w)))
               = settle a r m st
           \<and> files (snd (snd (batch_item e cfg t n i a st w))) = files wt
           \<and> calls (snd (snd (batch_item e cfg t n i a st w))) = calls wt
           \<and> manifestFile (snd (snd (batch_item e cfg t n i a st w))) = manifestFile wt"
  proof (cases r)
    case (Inl msg)
    have "batch_item e cfg t n i a st w =
        (Failure msg, record_error a msg m st,
         log_msg GenerateBatch
           (position (num_add (startIndex cfg) (Num (int i))) t
            @ [Txt '' ERROR: '', Str a, Txt '' - '', Str msg]) wt)"
      unfolding batch_item_def Let_def using ne tr Inl by simp
    with Inl show ?thesis by (simp add: settle_def)
  next
    case (Inr f)
    have "batch_item e cfg t n i a st w =
        (Success f, st\<lparr>manifest := m, successCount := successCount st + 1\<rparr>,
         if i < n - 1 then
           sleep (delay cfg) (log_msg GenerateBatch
             (position (num_add (startIndex cfg) (Num (int i))) t
              @ [Txt '' SUCCESS: '', Str a, Txt '' -> '', Str f]) wt)
         else log_msg GenerateBatch
             (position (num_add (startIndex cfg) (Num (int i))) t
              @ [Txt '' SUCCESS: '', Str a, Txt '' -> '', Str f]) wt)"
      unfolding batch_item_def Let_def using ne tr Inr by simp
    with Inr show ?thesis by (simp add: settle_def)
  qed
  with fr tr show ?thesis by blast
qed

lemma regen_item_try:
  "\<exists>w0 r m wt. files w0 = files w \<and> calls w0 = calls w
           \<and> manifestFile w0 = manifestFile w \<and> now w0 = now w
           \<and> try_item RegenerateSpecific e a (manifest st) w0 = (r, m, wt)
           \<and> (fst (regen_item e n i a st w), fst (snd (regen_item e n i a st w)))
               = settle a r m st
           \<and> files (snd (snd (regen_item e n i a st w))) = files wt
           \<and> calls (snd (snd (regen_item e n i a st w))) = calls wt
           \<and> manifestFile (snd (snd (regen_item e n i a st w))) = manifestFile wt"
proof -
  let ?w0 = "log_msg RegenerateSpecific
      (position (Num (int i)) n @ [Txt '' Regenerating: '', Str a, Txt ''...'']) w"
  have fr: "files ?w0 = files w \<and> calls ?w0 = calls w \<and> manifestFile ?w0 = manifestFile w
           \<and> now ?w0 = now w"
    by simp
  obtain r m wt where tr: "try_item RegenerateSpecific e a (manifest st) ?w0 = (r, m, wt)"
    by (rule prod_cases3)
  have "(fst (regen_item e n i a st w), fst (snd (regen_item e n i a st w)))
               = settle a r m st
           \<and> files (snd (snd (regen_item e n i a st w))) = files wt
           \<and> calls (snd (snd (regen_item e n i a st w))) = calls wt
           \<and> manifestFile (snd (snd (regen_item e n i a st w))) = manifestFile wt"
  proof (cases r)
    case (Inl msg)
    have "regen_item e n i a st w =
        (Failure msg, record_error a msg m st,
         log_msg RegenerateSpecific
           (position (Num (int i)) n @ [Txt '' ERROR: '', Str a, Txt '' - '', Str msg]) wt)"
      unfolding regen_item_def Let_def using tr Inl by simp
    with Inl show ?thesis by (simp add: settle_def)
  next
    case (Inr f)
    have "regen_item e n i a st w =
        (Success f, st\<lparr>manifest := m, successCount := successCount st + 1\<rparr>,
         if i < n - 1 then
           sleep (Num 1000)
             (log_msg RegenerateSpecific [Txt ''  Waiting 1 second before next request...'']
                (log_msg RegenerateSpecific
                   (position (Num (int i)) n
                    @ [Txt '' SUCCESS: '', Str a, Txt '' -> '', Str f]) wt))
         else log_msg RegenerateSpecific
             (position (Num (int i)) n
              @ [Txt '' SUCCESS: '', Str a, Txt '' -> '', Str f]) wt)"
      unfolding regen_item_def Let_def using tr Inr by simp
    with Inr show ?thesis by (simp add: settle_def)
  qed
  with fr tr show ?thesis by blast
qed

lemma settle_counts:
  assumes "(out, st') = settle a r m st"
  shows "successCount st' = successCount st + (if succeeded out then 1 else 0)
   \<and> skipCount st' = skipCount st \<and> \<not> skipped out
   \<and> errorCount st' = errorCount st + (if failed out then 1 else 0)
   \<and> errors st' = errors st @ failures_of [(a, out)]"
  using assms by (cases r) (simp_all add: settle_def record_error_def)

lemma batch_item_counts:
  "successCount (fst (snd (batch_item e cfg t n i a st w)))
     = successCount st + (if succeeded (fst (batch_item e cfg t n i a st w)) then 1 else 0)
   \<and> skipCount (fst (snd (batch_item e cfg t n i a st w)))
     = skipCount st + (if skipped (fst (batch_item e cfg t n i a st w)) then 1 else 0)
   \<and> errorCount (fst (snd (batch_item e cfg t n i a st w)))
     = errorCount st + (if failed (fst (batch_item e cfg t n i a st w)) then 1 else 0)
   \<and> errors (fst (snd (batch_item e cfg t n i a st w)))
     = errors st @ failures_of [(a, fst (batch_item e cfg t n i a st w))]"
proof (cases "existsSync w (item_path e a)")
  case True
  from batch_item_skip [OF True, where cfg=cfg and t=t and n=n and i=i and st=st] show ?thesis by simp
next
  case False
  from batch_item_try [OF False, where cfg=cfg and t=t and n=n and i=i and st=st]
  obtain r m where
    "(fst (batch_item e cfg t n i a st w), fst (snd (batch_item e cfg t n i a st w)))
               = settle a r m st"
    by blast
  from settle_counts [OF this] show ?thesis by simp
qed

lemma regen_item_counts:
  "successCount (fst (snd (regen_item e n i a st w)))
     = successCount st + (if succeeded (fst (regen_item e n i a st w)) then 1 else 0)
   \<and> skipCount (fst (snd (regen_item e n i a st w))) = skipCount st
   \<and> \<not> skipped (fst (regen_item e n i a st w))
   \<and> errorCount (fst (snd (regen_item e n i a st w)))
     = errorCount st + (if failed (fst (regen_item e n i a st w)) then 1 else 0)
   \<and> errors (fst (snd (regen_item e n i a st w)))
     = errors st @ failures_of [(a, fst (regen_item e n i a st w))]"
proof -
  from regen_item_try [where w=w and e=e and a=a and st=st and n=n and i=i]
  obtain r m where
    "(fst (regen_item e n i a st w), fst (snd (regen_item e n i a st w))) = settle a r m st"
    by blast
  from settle_counts [OF this] show ?thesis by simp
qed

lemma settle_Inl: "settle a (Inl msg) (manifest st) st
    = (Failure msg, st\<lparr>errorCount := errorCount st + 1, errors := errors st @ [(a, msg)]\<rparr>)"
  by (simp add: settle_def record_error_def)

lemma batch_item_generation_fails:
  assumes "\<not> existsSync w (item_path e a)" "fst (generateAvatar GenerateBatch e a w) = Inl msg"
  shows "fst (batch_item e cfg t n i a st w) = Failure msg
      \<and> fst (snd (batch_item e cfg t n i a st w))
          = st\<lparr>errorCount := errorCount st + 1, errors := errors st @ [(a, msg)]\<rparr>"
proof -
  from batch_item_try [OF assms(1), where cfg=cfg and t=t and n=n and i=i and st=st]
  obtain w0 r m wt where h: "calls w0 = calls w"
      "try_item GenerateBatch e a (manifest st) w0 = (r, m, wt)"
      "(fst (batch_item e cfg t n i a st w), fst (snd (batch_item e cfg t n i a st w)))
               = settle a r m st"
    by blast
  from fst_generateAvatar_cong [OF h(1)] assms(2)
  have "fst (generateAvatar GenerateBatch e a w0) = Inl msg" by simp
  from try_item_generation_fails [OF this, of "manifest st"] h(2)
  have "r = Inl msg \<and> m = manifest st" by simp
  with h(3) show ?thesis by (simp add: settle_Inl)
qed

lemma regen_item_generation_fails:
  assumes "fst (generateAvatar RegenerateSpecific e a w) = Inl msg"
  shows "fst (regen_item e n i a st w) = Failure msg
      \<and> fst (snd (regen_item e n i a st w))
          = st\<lparr>errorCount := errorCount st + 1, errors := errors st @ [(a, msg)]\<rparr>"
proof -
  from regen_item_try [where w=w and e=e and a=a and st=st and n=n and i=i]
  obtain w0 r m wt where h: "calls w0 = calls w"
      "try_item RegenerateSpecific e a (manifest st) w0 = (r, m, wt)"
      "(fst (regen_item e n i a st w), fst (snd (regen_item e n i a st w))) = settle a r m st"
    by blast
  from fst_generateAvatar_cong [OF h(1)] assms
  have "fst (generateAvatar RegenerateSpecific e a w0) = Inl msg" by simp
  from try_item_generation_fails [OF this, of "manifest st"] h(2)
  have "r = Inl msg \<and> m = manifest st" by simp
  with h(3) show ?thesis by (simp add: settle_Inl)
qed

lemma settle_Success:
  assumes "(Success f, st') = settle a r m st"
  shows "r = Inr f \<and> st' = st\<lparr>manifest := m, successCount := successCount st + 1\<rparr>"
  using assms by (cases r) (simp_all add: settle_def)

lemma batch_item_Success:
  assumes "fst (batch_item e cfg t n i a st w) = Success f"
  shows "manifestFile (snd (snd (batch_item e cfg t n i a st w)))
           = Some (manifest (fst (snd (batch_item e cfg t n i a st w))))
     \<and> total_avatars (manifest (fst (snd (batch_item e cfg t n i a st w))))
           = card (dom (map_of (avatars (manifest (fst (snd (batch_item e cfg t n i a st w)))))))
     \<and> updated_at (manifest (fst (snd (batch_item e cfg t n i a st w)))) = Some (now w)
     \<and> (a \<noteq> js ''__proto__'' \<longrightarrow>
          map_of (avatars (manifest (fst (snd (batch_item e cfg t n i a st w))))) a
            = Some \<lparr>filename = f, entry_generated_at = now w, regenerated = False\<rparr>)"
proof (cases "existsSync w (item_path e a)")
  case True
  from batch_item_skip [OF True, where cfg=cfg and t=t and n=n and i=i and st=st] assms
  show ?thesis by simp
next
  case False
  from batch_item_try [OF False, where cfg=cfg and t=t and n=n and i=i and st=st]
  obtain w0 r m wt where h: "now w0 = now w"
      "try_item GenerateBatch e a (manifest st) w0 = (r, m, wt)"
      "(fst (batch_item e cfg t n i a st w), fst (snd (batch_item e cfg t n i a st w)))
               = settle a r m st"
      "manifestFile (snd (snd (batch_item e cfg t n i a st w))) = manifestFile wt"
    by blast
  from h(3) assms have "(Success f, fst (snd (batch_item e cfg t n i a st w))) = settle a r m st"
    by simp
  from settle_Success [OF this] have r: "r = Inr f"
    and s: "fst (snd (batch_item e cfg t n i a st w)) = st\<lparr>manifest := m, successCount := successCount st + 1\<rparr>"
    by simp_all
  from try_item_Inr_manifest [OF h(2) [unfolded r]] h(1) h(4) s show ?thesis by simp
qed

lemma regen_item_Success:
  assumes "fst (regen_item e n i a st w) = Success f"
  shows "manifestFile (snd (snd (regen_item e n i a st w)))
           = Some (manifest (fst (snd (regen_item e n i a st w))))
     \<and> total_avatars (manifest (fst (snd (regen_item e n i a st w))))
           = card (dom (map_of (avatars (manifest (fst (snd (regen_item e n i a st w)))))))
     \<and> updated_at (manifest (fst (snd (regen_item e n i a st w)))) = Some (now w)
     \<and> (a \<noteq> js ''__proto__'' \<longrightarrow>
          map_of (avatars (manifest (fst (snd (regen_item e n i a st w))))) a
            = Some \<lparr>filename = f, entry_generated_at = now w, regenerated = True\<rparr>)"
proof -
  from regen_item_try [where w=w and e=e and a=a and st=st and n=n and i=i]
  obtain w0 r m wt where h: "now w0 = now w"
      "try_item RegenerateSpecific e a (manifest st) w0 = (r, m, wt)"
      "(fst (regen_item e n i a st w), fst (snd (regen_item e n i a st w))) = settle a r m st"
      "manifestFile (snd (snd (regen_item e n i a st w))) = manifestFile wt"
    by blast
  from h(3) assms have "(Success f, fst (snd (regen_item e n i a st w))) = settle a r m st"
    by simp
  from settle_Success [OF this] have r: "r = Inr f"
    and s: "fst (snd (regen_item e n i a st w)) = st\<lparr>manifest := m, successCount := successCount st + 1\<rparr>"
    by simp_all
  from try_item_Inr_manifest [OF h(2) [unfolded r]] h(1) h(4) s show ?thesis by simp
qed

lemma batch_item_fails:
  assumes "\<not> existsSync w (item_path e a)" "generation_or_save_fails GenerateBatch e a w"
  shows "failed (fst (batch_item e cfg t n i a st w))
      \<and> manifest (fst (snd (batch_item e cfg t n i a st w))) = manifest st
      \<and> manifestFile (snd (snd (batch_item e cfg t n i a st w))) = manifestFile w"
proof -
  from batch_item_try [OF assms(1), where cfg=cfg and t=t and n=n and i=i and st=st]
  obtain w0 r m wt where h: "files w0 = files w" "calls w0 = calls w"
      "manifestFile w0 = manifestFile w"
      "try_item GenerateBatch e a (manifest st) w0 = (r, m, wt)"
      "(fst (batch_item e cfg t n i a st w), fst (snd (batch_item e cfg t n i a st w)))
               = settle a r m st"
      "manifestFile (snd (snd (batch_item e cfg t n i a st w))) = manifestFile wt"
    by blast
  from generation_or_save_fails_cong [OF h(2) h(1)] assms(2)
  have "generation_or_save_fails GenerateBatch e a w0" by simp
  from try_item_fails [OF this, of "manifest st"] h(4)
  obtain msg where "r = Inl msg" "m = manifest st" "manifestFile wt = manifestFile w0"
    by auto
  with h(3) h(5) h(6) show ?thesis by (simp add: settle_def record_error_def)
qed

lemma regen_item_fails:
  assumes "generation_or_save_fails RegenerateSpecific e a w"
  shows "failed (fst (regen_item e n i a st w))
      \<and> manifest (fst (snd (regen_item e n i a st w))) = manifest st
      \<and> manifestFile (snd (snd (regen_item e n i a st w))) = manifestFile w"
proof -
  from regen_item_try [where w=w and e=e and a=a and st=st and n=n and i=i]
  obtain w0 r m wt where h: "files w0 = files w" "calls w0 = calls w"
      "manifestFile w0 = manifestFile w"
      "try_item RegenerateSpecific e a (manifest st) w0 = (r, m, wt)"
      "(fst (regen_item e n i a st w), fst (snd (regen_item e n i a st w))) = settle a r m st"
      "manifestFile (snd (snd (regen_item e n i a st w))) = manifestFile wt"
    by blast
  from generation_or_save_fails_cong [OF h(2) h(1)] assms
  have "generation_or_save_fails RegenerateSpecific e a w0" by simp
  from try_item_fails [OF this, of "manifest st"] h(4)
  obtain msg where "r = Inl msg" "m = manifest st" "manifestFile wt = manifestFile w0"
    by auto
  with h(3) h(5) h(6) show ?thesis by (simp add: settle_def record_error_def)
qed

lemma existsSync_files: "files w1 = files w2 \<Longrightarrow> existsSync w1 p = existsSync w2 p"
  by (simp add: existsSync_def)

lemma batch_item_files:
  "dom (files w) \<subseteq> dom (files (snd (snd (batch_item e cfg t n i a st w))))
   \<and> (\<not> failed (fst (batch_item e cfg t n i a st w)) \<longrightarrow>
        existsSync (snd (snd (batch_item e cfg t n i a st w))) (item_path e a))"
proof (cases "existsSync w (item_path e a)")
  case True
  from batch_item_skip [OF True, where cfg=cfg and t=t and n=n and i=i and st=st] True
  show ?thesis by (simp add: existsSync_def)
next
  case False
  from batch_item_try [OF False, where cfg=cfg and t=t and n=n and i=i and st=st]
  obtain w0 r m wt where h: "files w0 = files w"
      "try_item GenerateBatch e a (manifest st) w0 = (r, m, wt)"
      "(fst (batch_item e cfg t n i a st w), fst (snd (batch_item e cfg t n i a st w)))
               = settle a r m st"
      "files (snd (snd (batch_item e cfg t n i a st w))) = files wt"
    by blast
  from try_item_frame [OF h(2)] h(1) h(4)
  have mono: "dom (files w) \<subseteq> dom (files (snd (snd (batch_item e cfg t n i a st w))))"
    by simp
  show ?thesis
  proof (cases r)
    case (Inl msg)
    with h(3) have "failed (fst (batch_item e cfg t n i a st w))" by (simp add: settle_def)
    with mono show ?thesis by simp
  next
    case (Inr f)
    from try_item_Inr [OF h(2) [unfolded Inr]] h(4)
    have "existsSync (snd (snd (batch_item e cfg t n i a st w))) (item_path e a)"
      by (simp add: existsSync_def)
    with mono show ?thesis by simp
  qed
qed

lemma batch_item_reliable:
  assumes "reliable e"
  shows "\<not> failed (fst (batch_item e cfg t n i a st w))"
proof (cases "existsSync w (item_path e a)")
  case True
  from batch_item_skip [OF True, where cfg=cfg and t=t and n=n and i=i and st=st]
  show ?thesis by simp
next
  case False
  from batch_item_try [OF False, where cfg=cfg and t=t and n=n and i=i and st=st]
  obtain w0 r m wt where h:
      "try_item GenerateBatch e a (manifest st) w0 = (r, m, wt)"
      "(fst (batch_item e cfg t n i a st w), fst (snd (batch_item e cfg t n i a st w)))
               = settle a r m st"
    by blast
  from assms obtain d buffer where "fst (generateAvatar GenerateBatch e a w0) = Inr d"
      "Buffer_from e d = Inr buffer" "\<forall>p. writeError e p = None"
    unfolding reliable_def by blast
  from try_item_succeeds [OF this, of "manifest st"] h(1)
  have "r = Inr (normalizeFilename (unicodeLower e) a)" by simp
  with h(2) show ?thesis by (simp add: settle_def)
qed

section \<open>The loops and main\<close>

lemma batch_loop_counts:
  "length (batch_outcomes e cfg t n i items st w) = length items
   \<and> successCount (fst (batch_loop e cfg t n i items st w))
     = successCount st + length (filter succeeded (batch_outcomes e cfg t n i items st w))
   \<and> skipCount (fst (batch_loop e cfg t n i items st w))
     = skipCount st + length (filter skipped (batch_outcomes e cfg t n i items st w))
   \<and> errorCount (fst (batch_loop e cfg t n i items st w))
     = errorCount st + length (filter failed (batch_outcomes e cfg t n i items st w))
   \<and> errors (fst (batch_loop e cfg t n i items st w))
     = errors st @ failures_of (zip items (batch_outcomes e cfg t n i items st w))"
proof (induction items arbitrary: i st w)
  case Nil
  show ?case by simp
next
  case (Cons a rest)
  obtain out st' w' where it: "batch_item e cfg t n i a st w = (out, st', w')"
    by (rule prod_cases3)
  from batch_item_counts [of e cfg t n i a st w] it have
    c: "successCount st' = successCount st + (if succeeded out then 1 else 0)"
       "skipCount st' = skipCount st + (if skipped out then 1 else 0)"
       "errorCount st' = errorCount st + (if failed out then 1 else 0)"
       "errors st' = errors st @ failures_of [(a, out)]"
    by simp_all
  from Cons.IH [of "i + 1" st' w'] it c show ?case
    by (cases out) simp_all
qed

lemma regen_loop_counts:
  "length (regen_outcomes e n i items st w) = length items
   \<and> successCount (fst (regen_loop e n i items st w))
     = successCount st + length (filter succeeded (regen_outcomes e n i items st w))
   \<and> skipCount (fst (regen_loop e n i items st w)) = skipCount st
   \<and> length (filter skipped (regen_outcomes e n i items st w)) = 0
   \<and> errorCount (fst (regen_loop e n i items st w))
     = errorCount st + length (filter failed (regen_outcomes e n i items st w))
   \<and> errors (fst (regen_loop e n i items st w))
     = errors st @ failures_of (zip items (regen_outcomes e n i items st w))"
proof (induction items arbitrary: i st w)
  case Nil
  show ?case by simp
next
  case (Cons a rest)
  obtain out st' w' where it: "regen_item e n i a st w = (out, st', w')"
    by (rule prod_cases3)
  from regen_item_counts [of e n i a st w] it have
    c: "successCount st' = successCount st + (if succeeded out then 1 else 0)"
       "skipCount st' = skipCount st" "\<not> skipped out"
       "errorCount st' = errorCount st + (if failed out then 1 else 0)"
       "errors st' = errors st @ failures_of [(a, out)]"
    by simp_all
  from Cons.IH [of "i + 1" st' w'] it c show ?case
    by (cases out) simp_all
qed

lemma outcome_partition:
  "length (filter succeeded os) + length (filter skipped os) + length (filter failed os) = length os"
proof (induction os)
  case Nil
  show ?case by simp
next
  case (Cons out os)
  then show ?case by (cases out) simp_all
qed

lemma length_failures_of:
  "length xs = length os \<Longrightarrow> length (failures_of (zip xs os)) = length (filter failed os)"
proof (induction xs os rule: list_induct2)
  case Nil
  show ?case by simp
next
  case (Cons x xs out os)
  then show ?case by (cases out) simp_all
qed

lemma initial_state_counters [simp]:
  "successCount (initial_state w) = 0" "skipCount (initial_state w) = 0"
  "errorCount (initial_state w) = 0" "errors (initial_state w) = []"
  by (simp_all add: initial_state_def)

lemma batch_main_summary:
  assumes "batch_main e cfg authors w = (code, Some st, w')"
  shows "code = 0
     \<and> successCount st + skipCount st + errorCount st = length (authorsToProcess cfg authors)
     \<and> length (errors st) = errorCount st"
proof -
  let ?todo = "authorsToProcess cfg authors"
  from assms have nc: "\<not> no_credential e" by (auto simp add: batch_main_def)
  obtain st0 w0 where
    r: "batch_main e cfg authors w =
          (0, Some (fst (batch_loop e cfg (length authors) (length ?todo) 0 ?todo st0 w0)),
           batch_summary (fst (batch_loop e cfg (length authors) (length ?todo) 0 ?todo st0 w0))
             (snd (batch_loop e cfg (length authors) (length ?todo) 0 ?todo st0 w0)))"
    and z: "successCount st0 = 0" "skipCount st0 = 0" "errorCount st0 = 0" "errors st0 = []"
    using nc by (simp add: batch_main_def Let_def case_prod_unfold)
  let ?os = "batch_outcomes e cfg (length authors) (length ?todo) 0 ?todo st0 w0"
  from r assms have st: "st = fst (batch_loop e cfg (length authors) (length ?todo) 0 ?todo st0 w0)"
    and c: "code = 0"
    by simp_all
  note k = batch_loop_counts [of e cfg "length authors" "length ?todo" 0 ?todo st0 w0]
  from k have len: "length ?os = length ?todo" by simp
  from k z st have cnt: "successCount st = length (filter succeeded ?os)"
      "skipCount st = length (filter skipped ?os)"
      "errorCount st = length (filter failed ?os)"
      "errors st = failures_of (zip ?todo ?os)"
    by simp_all
  from cnt outcome_partition [of ?os] len length_failures_of [of ?todo ?os] c
  show ?thesis by simp
qed

lemma regen_main_summary:
  assumes "regen_main e names w = (code, Some st, w')"
  shows "code = 0
     \<and> successCount st + errorCount st = length names \<and> skipCount st = 0
     \<and> length (errors st) = errorCount st"
proof -
  from assms have nc: "\<not> no_credential e" by (auto simp add: regen_main_def)
  obtain st0 w0 where
    r: "regen_main e names w =
          (0, Some (fst (regen_loop e (length names) 0 names st0 w0)),
           regen_summary e (fst (regen_loop e (length names) 0 names st0 w0))
             (snd (regen_loop e (length names) 0 names st0 w0)))"
    and z: "successCount st0 = 0" "skipCount st0 = 0" "errorCount st0 = 0" "errors st0 = []"
    using nc by (simp add: regen_main_def Let_def case_prod_unfold)
  let ?os = "regen_outcomes e (length names) 0 names st0 w0"
  from r assms have st: "st = fst (regen_loop e (length names) 0 names st0 w0)"
    and c: "code = 0"
    by simp_all
  note k = regen_loop_counts [of e "length names" 0 names st0 w0]
  from k have len: "length ?os = length names" by simp
  from k z st have cnt: "successCount st = length (filter succeeded ?os)"
      "skipCount st = 0" "length (filter skipped ?os) = 0"
      "errorCount st = length (filter failed ?os)"
      "errors st = failures_of (zip names ?os)"
    by simp_all
  from cnt outcome_partition [of ?os] len length_failures_of [of names ?os] c
  show ?thesis by simp
qed

lemma batch_loop_all_exist:
  assumes "\<forall>a\<in>set items. existsSync w (item_path e a)"
  shows "calls (snd (batch_loop e cfg t n i items st w)) = calls w
     \<and> files (snd (batch_loop e cfg t n i items st w)) = files w
     \<and> skipCount (fst (batch_loop e cfg t n i items st w)) = skipCount st + length items
     \<and> successCount (fst (batch_loop e cfg t n i items st w)) = successCount st
     \<and> errorCount (fst (batch_loop e cfg t n i items st w)) = errorCount st"
  using assms
proof (induction items arbitrary: i st w)
  case Nil
  show ?case by simp
next
  case (Cons a rest)
  obtain out st' w' where it: "batch_item e cfg t n i a st w = (out, st', w')"
    by (rule prod_cases3)
  from Cons.prems have ex: "existsSync w (item_path e a)" by simp
  from batch_item_skip [OF ex, where cfg=cfg and t=t and n=n and i=i and st=st] it
  have s: "st' = st\<lparr>skipCount := skipCount st + 1\<rparr>" "calls w' = calls w" "files w' = files w"
    by simp_all
  from Cons.prems existsSync_files [OF s(3)]
  have "\<forall>b\<in>set rest. existsSync w' (item_path e b)" by simp
  from Cons.IH [OF this, of "i + 1" st'] it s show ?case by simp
qed

lemma batch_loop_mono:
  "dom (files w) \<subseteq> dom (files (snd (batch_loop e cfg t n i items st w)))
   \<and> errorCount st \<le> errorCount (fst (batch_loop e cfg t n i items st w))"
proof (induction items arbitrary: i st w)
  case Nil
  show ?case by simp
next
  case (Cons a rest)
  obtain out st' w' where it: "batch_item e cfg t n i a st w = (out, st', w')"
    by (rule prod_cases3)
  from batch_item_files [of w e cfg t n i a st] it have "dom (files w) \<subseteq> dom (files w')" by simp
  moreover from batch_item_counts [of e cfg t n i a st w] it have "errorCount st \<le> errorCount st'"
    by simp
  ultimately show ?case using Cons.IH [of w' "i + 1" st'] it by fastforce
qed

lemma batch_loop_no_error_all_exist:
  assumes "errorCount (fst (batch_loop e cfg t n i items st w)) = errorCount st"
  shows "\<forall>a\<in>set items. existsSync (snd (batch_loop e cfg t n i items st w)) (item_path e a)"
  using assms
proof (induction items arbitrary: i st w)
  case Nil
  show ?case by simp
next
  case (Cons a rest)
  obtain out st' w' where it: "batch_item e cfg t n i a st w = (out, st', w')"
    by (rule prod_cases3)
  from batch_item_counts [of e cfg t n i a st w] it
  have c: "errorCount st' = errorCount st + (if failed out then 1 else 0)" by simp
  from batch_loop_mono [of w' e cfg t n "i + 1" rest st']
  have m: "dom (files w') \<subseteq> dom (files (snd (batch_loop e cfg t n (i + 1) rest st' w')))"
    "errorCount st' \<le> errorCount (fst (batch_loop e cfg t n (i + 1) rest st' w'))"
    by simp_all
  from Cons.prems it have fin: "errorCount (fst (batch_loop e cfg t n (i + 1) rest st' w')) = errorCount st"
    by simp
  with c m(2) have nf: "\<not> failed out" and eq: "errorCount (fst (batch_loop e cfg t n (i + 1) rest st' w')) = errorCount st'"
    by (auto split: if_splits)
  from batch_item_files [of w e cfg t n i a st] it nf have "existsSync w' (item_path e a)" by simp
  with m(1) have "existsSync (snd (batch_loop e cfg t n (i + 1) rest st' w')) (item_path e a)"
    by (auto simp add: existsSync_def)
  with Cons.IH [OF eq] it show ?case by simp
qed

lemma batch_main_unfold:
  assumes "\<not> no_credential e"
  shows "\<exists>st0 w0. files w0 = files w \<and> calls w0 = calls w
     \<and> successCount st0 = 0 \<and> skipCount st0 = 0 \<and> errorCount st0 = 0
     \<and> batch_main e cfg authors w =
          (0, Some (fst (batch_loop e cfg (length authors) (length (authorsToProcess cfg authors)) 0
                          (authorsToProcess cfg authors) st0 w0)),
           batch_summary (fst (batch_loop e cfg (length authors) (length (authorsToProcess cfg authors)) 0
                          (authorsToProcess cfg authors) st0 w0))
             (snd (batch_loop e cfg (length authors) (length (authorsToProcess cfg authors)) 0
                          (authorsToProcess cfg authors) st0 w0)))"
proof -
  let ?w1 = "batch_banner cfg authors w"
  let ?w0 = "log_msg GenerateBatch
                    [Txt ''Processing '', Numb (Num (int (length (authorsToProcess cfg authors)))),
                     Txt '' authors ('', Numb (startIndex cfg), Txt '' to '',
                     Numb (num_add (endIndex cfg (length authors)) (Num (- 1))), Txt '')''] ?w1"
  have "files ?w0 = files w \<and> calls ?w0 = calls w" by simp
  moreover have "batch_main e cfg authors w =
          (0, Some (fst (batch_loop e cfg (length authors) (length (authorsToProcess cfg authors)) 0
                          (authorsToProcess cfg authors) (initial_state ?w1) ?w0)),
           batch_summary (fst (batch_loop e cfg (length authors) (length (authorsToProcess cfg authors)) 0
                          (authorsToProcess cfg authors) (initial_state ?w1) ?w0))
             (snd (batch_loop e cfg (length authors) (length (authorsToProcess cfg authors)) 0
                          (authorsToProcess cfg authors) (initial_state ?w1) ?w0)))"
    using assms by (simp add: batch_main_def Let_def case_prod_unfold)
  ultimately show ?thesis
    using initial_state_counters [of ?w1] by blast
qed

lemma batch_main_Some:
  assumes "\<not> no_credential e"
  shows "\<exists>st w'. batch_main e cfg authors w = (0, Some st, w')"
  using batch_main_unfold [OF assms, of w cfg authors] by blast

lemma batch_outcomes_reliable:
  assumes "reliable e"
  shows "filter failed (batch_outcomes e cfg t n i items st w) = []"
proof (induction items arbitrary: i st w)
  case Nil
  show ?case by simp
next
  case (Cons a rest)
  obtain out st' w' where it: "batch_item e cfg t n i a st w = (out, st', w')"
    by (rule prod_cases3)
  from batch_item_reliable [OF assms, of cfg t n i a st w] it have "\<not> failed out" by simp
  with Cons.IH [of "i + 1" st' w'] it show ?case by simp
qed

lemma batch_main_reliable:
  assumes "reliable e" "batch_main e cfg authors w = (c, Some st, w')"
  shows "errorCount st = 0"
proof -
  from assms(2) have nc: "\<not> no_credential e" by (auto simp add: batch_main_def)
  from batch_main_unfold [OF nc, of w cfg authors] assms(2) obtain sa wa where
    r: "errorCount sa = 0"
       "st = fst (batch_loop e cfg (length authors) (length (authorsToProcess cfg authors)) 0
                    (authorsToProcess cfg authors) sa wa)"
    by auto
  from batch_loop_counts [of e cfg "length authors" "length (authorsToProcess cfg authors)" 0
      "authorsToProcess cfg authors" sa wa] r
    batch_outcomes_reliable [OF assms(1), of cfg "length authors"
      "length (authorsToProcess cfg authors)" 0 "authorsToProcess cfg authors" sa wa]
  show ?thesis by simp
qed

lemma batch_loop_single_failure:
  assumes "\<not> existsSync w (item_path e a)" "\<forall>w'. fst (generateAvatar GenerateBatch e a w') = Inl msg"
  shows "calls (snd (batch_loop e cfg t n i [a] st w)) = calls w @ [sent_request GenerateBatch e a]
     \<and> files (snd (batch_loop e cfg t n i [a] st w)) = files w"
proof -
  from batch_item_try [OF assms(1), where cfg=cfg and t=t and n=n and i=i and st=st]
  obtain w0 r m wt where h: "files w0 = files w" "calls w0 = calls w"
      "try_item GenerateBatch e a (manifest st) w0 = (r, m, wt)"
      "files (snd (snd (batch_item e cfg t n i a st w))) = files wt"
      "calls (snd (snd (batch_item e cfg t n i a st w))) = calls wt"
    by blast
  from assms(2) have "fst (generateAvatar GenerateBatch e a w0) = Inl msg" by simp
  from try_item_generation_fails [OF this, of "manifest st"] h(3)
  have "wt = snd (generateAvatar GenerateBatch e a w0)" by simp
  then have "calls wt = calls w0 @ [sent_request GenerateBatch e a] \<and> files wt = files w0"
    by (simp add: generateAvatar_world)
  with h show ?thesis by (simp add: case_prod_unfold)
qed

lemma batch_main_single_failure:
  assumes "\<not> no_credential e" "authorsToProcess cfg authors = [a]"
    "\<not> existsSync w (item_path e a)" "\<forall>w'. fst (generateAvatar GenerateBatch e a w') = Inl msg"
  shows "calls (world_after (batch_main e cfg authors w)) = calls w @ [sent_request GenerateBatch e a]
     \<and> files (world_after (batch_main e cfg authors w)) = files w"
proof -
  from batch_main_unfold [OF assms(1), of w cfg authors] obtain st0 w0 where
    h: "files w0 = files w" "calls w0 = calls w"
       "batch_main e cfg authors w =
          (0, Some (fst (batch_loop e cfg (length authors) (length [a]) 0 [a] st0 w0)),
           batch_summary (fst (batch_loop e cfg (length authors) (length [a]) 0 [a] st0 w0))
             (snd (batch_loop e cfg (length authors) (length [a]) 0 [a] st0 w0)))"
    unfolding assms(2) by blast
  from assms(3) h(1) have "\<not> existsSync w0 (item_path e a)" by (simp add: existsSync_def)
  from batch_loop_single_failure [OF this assms(4), of cfg "length authors" "length [a]" 0 st0] h
  show ?thesis by (simp add: world_after_def)
qed

lemma batch_main_run:
  assumes "\<not> no_credential e"
  shows "batch_main e cfg authors w =
           (0, Some (fst (batch_run_loop e cfg authors w)),
            batch_summary (fst (batch_run_loop e cfg authors w)) (snd (batch_run_loop e cfg authors w)))"
  using assms
  by (simp add: batch_main_def batch_run_loop_def batch_loop_entry_def Let_def case_prod_unfold)

lemma regen_main_run:
  assumes "\<not> no_credential e"
  shows "regen_main e names w =
           (0, Some (fst (regen_run_loop e names w)),
            regen_summary e (fst (regen_run_loop e names w)) (snd (regen_run_loop e names w)))"
  using assms
  by (simp add: regen_main_def regen_run_loop_def Let_def case_prod_unfold)

lemma log_msg_logFile:
  "logFile (log_msg sc p w) sc' = (if sc' = sc then logFile w sc @ [(now w, p)] else logFile w sc')"
  by (simp add: log_msg_def)

lemma fold_log_extends:
  "\<exists>ys. logFile (fold (\<lambda>x. log_msg sc (f x)) xs w) sc' = logFile w sc' @ ys"
proof (induction xs arbitrary: w)
  case Nil
  show ?case by simp
next
  case (Cons x xs)
  from Cons [of "log_msg sc (f x) w"] show ?case
    by (auto simp add: log_msg_logFile)
qed

lemma log_errors_extends:
  "\<exists>ys. logFile (log_errors sc errs w) sc' = logFile w sc' @ ys"
proof (cases "0 < length errs")
  case True
  from fold_log_extends [of sc "\<lambda>(author, error). [Txt ''  - '', Str author, Txt '': '', Str error]" errs
      "log_msg sc [Txt ''Errors:''] w" sc']
  obtain ys where "logFile (fold (\<lambda>x. log_msg sc (case x of (author, error) \<Rightarrow>
       [Txt ''  - '', Str author, Txt '': '', Str error])) errs (log_msg sc [Txt ''Errors:''] w)) sc'
     = logFile (log_msg sc [Txt ''Errors:''] w) sc' @ ys"
    by blast
  with True show ?thesis
    by (auto simp add: log_errors_def case_prod_unfold log_msg_logFile)
next
  case False
  then show ?thesis by (simp add: log_errors_def)
qed

lemma printed_after_append:
  "logFile w' sc = logFile w sc @ map (Pair t) ls @ ys \<Longrightarrow>
   take (length ls) (printed_after sc w w') = ls"
  by (simp add: printed_after_def comp_def)

lemma batch_summary_printed:
  "take 4 (printed_after GenerateBatch w (batch_summary st w))
     = [[Txt ''=== Generation Complete ===''],
        [Txt ''Success: '', Numb (Num (int (successCount st)))],
        [Txt ''Skipped: '', Numb (Num (int (skipCount st)))],
        [Txt ''Errors: '', Numb (Num (int (errorCount st)))]]"
proof -
  let ?w5 = "log_msg GenerateBatch [Txt ''Total in manifest: '', Numb (Num (int (total_avatars (manifest st))))]
                (log_msg GenerateBatch [Txt ''Errors: '', Numb (Num (int (errorCount st)))]
                   (log_msg GenerateBatch [Txt ''Skipped: '', Numb (Num (int (skipCount st)))]
                      (log_msg GenerateBatch [Txt ''Success: '', Numb (Num (int (successCount st)))]
                         (log_msg GenerateBatch [Txt ''=== Generation Complete ===''] w))))"
  from log_errors_extends [of GenerateBatch "errors st" ?w5 GenerateBatch] obtain ys where
    ys: "logFile (log_errors GenerateBatch (errors st) ?w5) GenerateBatch
           = logFile ?w5 GenerateBatch @ ys"
    by blast
  have "\<exists>zs. logFile (batch_summary st w) GenerateBatch
      = logFile w GenerateBatch
        @ map (Pair (now w))
            [[Txt ''=== Generation Complete ===''],
             [Txt ''Success: '', Numb (Num (int (successCount st)))],
             [Txt ''Skipped: '', Numb (Num (int (skipCount st)))],
             [Txt ''Errors: '', Numb (Num (int (errorCount st)))]] @ zs"
    unfolding batch_summary_def
    by (simp add: log_msg_logFile ys)
  then obtain zs where "logFile (batch_summary st w) GenerateBatch
      = logFile w GenerateBatch
        @ map (Pair (now w))
            [[Txt ''=== Generation Complete ===''],
             [Txt ''Success: '', Numb (Num (int (successCount st)))],
             [Txt ''Skipped: '', Numb (Num (int (skipCount st)))],
             [Txt ''Errors: '', Numb (Num (int (errorCount st)))]] @ zs"
    by blast
  from printed_after_append [OF this] show ?thesis by (simp add: eval_nat_numeral)
qed

lemma regen_summary_printed:
  "take 3 (printed_after RegenerateSpecific w (regen_summary e st w))
     = [[Txt ''=== Regeneration Complete ===''],
        [Txt ''Success: '', Numb (Num (int (successCount st)))],
        [Txt ''Errors: '', Numb (Num (int (errorCount st)))]]"
proof -
  let ?w3 = "log_msg RegenerateSpecific [Txt ''Errors: '', Numb (Num (int (errorCount st)))]
                            (log_msg RegenerateSpecific [Txt ''Success: '', Numb (Num (int (successCount st)))]
                               (log_msg RegenerateSpecific [Txt ''=== Regeneration Complete ===''] w))"
  from log_errors_extends [of RegenerateSpecific "errors st" ?w3 RegenerateSpecific] obtain ys where
    ys: "logFile (log_errors RegenerateSpecific (errors st) ?w3) RegenerateSpecific
           = logFile ?w3 RegenerateSpecific @ ys"
    by blast
  have "\<exists>zs. logFile (regen_summary e st w) RegenerateSpecific
      = logFile w RegenerateSpecific
        @ map (Pair (now w))
            [[Txt ''=== Regeneration Complete ===''],
             [Txt ''Success: '', Numb (Num (int (successCount st)))],
             [Txt ''Errors: '', Numb (Num (int (errorCount st)))]] @ zs"
    unfolding regen_summary_def
    by (simp add: log_msg_logFile ys)
  then obtain zs where "logFile (regen_summary e st w) RegenerateSpecific
      = logFile w RegenerateSpecific
        @ map (Pair (now w))
            [[Txt ''=== Regeneration Complete ===''],
             [Txt ''Success: '', Numb (Num (int (successCount st)))],
             [Txt ''Errors: '', Numb (Num (int (errorCount st)))]] @ zs"
    by blast
  from printed_after_append [OF this] show ?thesis by (simp add: eval_nat_numeral)
qed

lemma batch_outcomes_nth:
  "j < length items \<Longrightarrow>
   batch_outcomes e cfg t n i items st w ! j
     = fst (batch_item e cfg t n (i + j) (items ! j)
              (fst (batch_loop e cfg t n i (take j items) st w))
              (snd (batch_loop e cfg t n i (take j items) st w)))"
proof (induction items arbitrary: i st w j)
  case Nil
  then show ?case by simp
next
  case (Cons a rest)
  obtain out st' w' where it: "batch_item e cfg t n i a st w = (out, st', w')"
    by (rule prod_cases3)
  show ?case
  proof (cases j)
    case 0
    with it show ?thesis by simp
  next
    case (Suc k)
    with Cons.prems have "k < length rest" by simp
    from Cons.IH [OF this, of "i + 1" st' w'] it Suc show ?thesis by simp
  qed
qed

lemma regen_outcomes_nth:
  "j < length items \<Longrightarrow>
   regen_outcomes e n i items st w ! j
     = fst (regen_item e n (i + j) (items ! j)
              (fst (regen_loop e n i (take j items) st w))
              (snd (regen_loop e n i (take j items) st w)))"
proof (induction items arbitrary: i st w j)
  case Nil
  then show ?case by simp
next
  case (Cons a rest)
  obtain out st' w' where it: "regen_item e n i a st w = (out, st', w')"
    by (rule prod_cases3)
  show ?case
  proof (cases j)
    case 0
    with it show ?thesis by simp
  next
    case (Suc k)
    with Cons.prems have "k < length rest" by simp
    from Cons.IH [OF this, of "i + 1" st' w'] it Suc show ?thesis by simp
  qed
qed

lemma batch_run_counts:
  assumes "batch_main e cfg authors w = (code, Some final, w')"
  shows "code = 0 \<and> final = fst (batch_run_loop e cfg authors w)
     \<and> w' = batch_summary final (snd (batch_run_loop e cfg authors w))
     \<and> length (batch_run_outcomes e cfg authors w) = length (authorsToProcess cfg authors)
     \<and> errorCount final = length (filter failed (batch_run_outcomes e cfg authors w))
     \<and> skipCount final = length (filter skipped (batch_run_outcomes e cfg authors w))
     \<and> successCount final = length (filter succeeded (batch_run_outcomes e cfg authors w))
     \<and> errors final
         = failures_of (zip (authorsToProcess cfg authors) (batch_run_outcomes e cfg authors w))"
proof -
  from assms have nc: "\<not> no_credential e" by (auto simp add: batch_main_def)
  from batch_main_run [OF nc, of cfg authors w] assms have
    f: "code = 0" "final = fst (batch_run_loop e cfg authors w)"
      "w' = batch_summary final (snd (batch_run_loop e cfg authors w))"
    by simp_all
  note k = batch_loop_counts [of e cfg "length authors" "length (authorsToProcess cfg authors)" 0
        "authorsToProcess cfg authors" "initial_state (batch_banner cfg authors w)"
        "batch_loop_entry cfg authors w"]
  from k f show ?thesis
    unfolding batch_run_outcomes_def batch_run_loop_def by simp
qed

lemma regen_run_counts:
  assumes "regen_main e names w = (code, Some final, w')"
  shows "code = 0 \<and> final = fst (regen_run_loop e names w)
     \<and> w' = regen_summary e final (snd (regen_run_loop e names w))
     \<and> length (regen_run_outcomes e names w) = length names
     \<and> errorCount final = length (filter failed (regen_run_outcomes e names w))
     \<and> skipCount final = 0
     \<and> length (filter skipped (regen_run_outcomes e names w)) = 0
     \<and> successCount final = length (filter succeeded (regen_run_outcomes e names w))
     \<and> errors final = failures_of (zip names (regen_run_outcomes e names w))"
proof -
  from assms have nc: "\<not> no_credential e" by (auto simp add: regen_main_def)
  from regen_main_run [OF nc, of names w] assms have
    f: "code = 0" "final = fst (regen_run_loop e names w)"
      "w' = regen_summary e final (snd (regen_run_loop e names w))"
    by simp_all
  note k = regen_loop_counts [of e "length names" 0 names "initial_state (regen_banner names w)"
        "regen_banner names w"]
  from k f show ?thesis
    unfolding regen_run_outcomes_def regen_run_loop_def by simp
qed


section \<open>The range of the catalogue\<close>

lemma map_nth_upt_take_drop:
  "b \<le> length xs \<Longrightarrow> map ((!) xs) [a ..< b] = take (b - a) (drop a xs)"
  by (rule nth_equalityI) auto

lemma array_slice_nonneg:
  assumes "0 \<le> s" "0 \<le> t"
  shows "array_slice xs (Num s) (Num t) = map ((!) xs) [nat s ..< min (nat t) (length xs)]"
proof (cases "s \<le> int (length xs)")
  case True
  with assms have k: "relative_index (int (length xs)) (Num s) = nat s"
    by (simp add: min_def)
  from assms have f: "relative_index (int (length xs)) (Num t) = min (nat t) (length xs)"
    by (auto simp add: min_def)
  show ?thesis
    unfolding array_slice_def Let_def k f by (simp add: map_nth_upt_take_drop)
next
  case False
  with assms have k: "relative_index (int (length xs)) (Num s) = length xs"
    by (simp add: min_def)
  from False assms have "min (nat t) (length xs) \<le> nat s" by linarith
  then show ?thesis
    unfolding array_slice_def Let_def k by simp
qed

lemma map_nat_upto:
  assumes "0 \<le> s"
  shows "map nat [s .. e - 1] = [nat s ..< nat e]"
proof (rule nth_equalityI)
  show "length (map nat [s .. e - 1]) = length [nat s ..< nat e]"
    using assms by auto
next
  fix i
  assume "i < length (map nat [s .. e - 1])"
  then have i: "s + int i \<le> e - 1" by auto
  then have "i < nat e - nat s" using assms by linarith
  with i assms show "map nat [s .. e - 1] ! i = [nat s ..< nat e] ! i"
    by (simp add: nat_add_distrib)
qed

lemma selected_nonneg:
  assumes "0 \<le> s" "e \<le> int (length authors)"
  shows "map (\<lambda>i. authors ! nat i) (filter (\<lambda>i. 0 \<le> i \<and> i < int (length authors)) [s .. e - 1])
           = map ((!) authors) [nat s ..< nat e]"
proof -
  have "filter (\<lambda>i. 0 \<le> i \<and> i < int (length authors)) [s .. e - 1] = [s .. e - 1]"
    using assms by (intro filter_True) auto
  moreover have "map (\<lambda>i. authors ! nat i) [s .. e - 1] = map ((!) authors) (map nat [s .. e - 1])"
    by simp
  ultimately show ?thesis using map_nat_upto [OF assms(1), of e] by simp
qed

lemma authorsToProcess_selected:
  assumes "startIndex cfg = Num s" "0 \<le> s"
  shows "authorsToProcess cfg authors = selected_by_spec s (limit cfg) authors"
proof (cases "limit cfg")
  case NaN
  with assms selected_nonneg [OF assms(2), of "int (length authors)" authors] show ?thesis
    by (simp add: authorsToProcess_def endIndex_def selected_by_spec_def array_slice_nonneg)
next
  case (Num l)
  show ?thesis
  proof (cases "0 < l")
    case True
    have "min (s + l) (int (length authors)) \<le> int (length authors)" by simp
    from selected_nonneg [OF assms(2) this] Num True assms show ?thesis
      by (simp add: authorsToProcess_def endIndex_def selected_by_spec_def array_slice_nonneg
          Let_def min_def)
  next
    case False
    with Num assms selected_nonneg [OF assms(2), of "int (length authors)" authors] show ?thesis
      by (simp add: authorsToProcess_def endIndex_def selected_by_spec_def array_slice_nonneg)
  qed
next
  case Infinity
  with assms selected_nonneg [OF assms(2), of "int (length authors)" authors] show ?thesis
    by (simp add: authorsToProcess_def endIndex_def selected_by_spec_def array_slice_nonneg)
next
  case NegInfinity
  with assms selected_nonneg [OF assms(2), of "int (length authors)" authors] show ?thesis
    by (simp add: authorsToProcess_def endIndex_def selected_by_spec_def array_slice_nonneg)
qed

text \<open>
  Options that \<open>parseInt\<close> reads as infinities: with start \<open>-Infinity\<close> and limit
  \<open>Infinity\<close> the end index is \<open>NaN\<close> and nothing is selected.
\<close>

lemma infinite_options_select_nothing:
  "endIndex \<lparr>startIndex = NegInfinity, limit = Infinity, delay = Num 1000\<rparr> 2 = NaN
   \<and> authorsToProcess \<lparr>startIndex = NegInfinity, limit = Infinity, delay = Num 1000\<rparr>
         [js ''Plato'', js ''Kant''] = []"
  by (simp add: endIndex_def authorsToProcess_def array_slice_def)

text \<open>
  Claim C5 as stated fails for a negative start offset, which the script hands to
  \<open>slice\<close> unchecked: \<open>slice\<close> counts it from the end of the catalogue, while \<open>endIndex\<close>
  is computed from the negative number. With two items, start \<open>-1\<close> and no limit only the
  last item is selected, not the remainder up to \<open>total - 1\<close>; with three items, start
  \<open>-2\<close> and limit 1 the end index is \<open>-1\<close> and the item at index 1 is selected, which is
  not between the start and \<open>endIndex - 1\<close>; with two items, start \<open>-1\<close> and limit 1 the
  end index is 0 and nothing is selected.
\<close>

theorem negative_start_counterexample:
  "authorsToProcess (example_config (- 1) 0) [js ''Plato'', js ''Kant''] = [js ''Kant'']
   \<and> selected_by_spec (- 1) (Num 0) [js ''Plato'', js ''Kant''] = [js ''Plato'', js ''Kant'']
   \<and> endIndex (example_config (- 2) 1) 3 = Num (- 1)
   \<and> authorsToProcess (example_config (- 2) 1) [js ''Plato'', js ''Kant'', js ''Hume''] = [js ''Kant'']
   \<and> selected_by_spec (- 2) (Num 1) [js ''Plato'', js ''Kant'', js ''Hume''] = []
   \<and> endIndex (example_config (- 1) 1) 2 = Num 0
   \<and> authorsToProcess (example_config (- 1) 1) [js ''Plato'', js ''Kant''] = []"
  by code_simp

text \<open>
  Claim C5, as amended. For a start offset \<open>s\<close> that is an integer and not negative: with
  a limit \<open>l > 0\<close> the end index is \<open>min (s + l) total\<close> and the items to process are those
  at the indices \<open>s\<close> to \<open>endIndex - 1\<close>; with no limit (0, a negative number, or not a
  number) the end index is the size of the catalogue and the items are those at the
  indices \<open>s\<close> to \<open>total - 1\<close>; for every limit the items to process are those that the
  specification selects. A run of \<open>main\<close> with a credential is its loop over exactly these
  items, from the counters at 0, followed by the summary; the loop gives each of them one
  outcome, and at the end the three counters add up to their number.
\<close>

theorem authorsToProcess_range:
  assumes "startIndex cfg = Num s" "0 \<le> s"
  shows "(limit cfg = Num l \<and> 0 < l \<longrightarrow>
            endIndex cfg (length authors) = Num (min (s + l) (int (length authors)))
            \<and> authorsToProcess cfg authors
                = map ((!) authors) [nat s ..< nat (min (s + l) (int (length authors)))])
         \<and> (\<not> num_gt0 (limit cfg) \<longrightarrow>
            endIndex cfg (length authors) = Num (int (length authors))
            \<and> authorsToProcess cfg authors = map ((!) authors) [nat s ..< length authors])
         \<and> authorsToProcess cfg authors = selected_by_spec s (limit cfg) authors
         \<and> (\<not> no_credential e \<longrightarrow>
              batch_main e cfg authors w =
                (0,
                 Some (fst (batch_loop e cfg (length authors)
                              (length (selected_by_spec s (limit cfg) authors)) 0
                              (selected_by_spec s (limit cfg) authors)
                              (initial_state (batch_banner cfg authors w))
                              (batch_loop_entry cfg authors w))),
                 batch_summary
                   (fst (batch_loop e cfg (length authors)
                              (length (selected_by_spec s (limit cfg) authors)) 0
                              (selected_by_spec s (limit cfg) authors)
                              (initial_state (batch_banner cfg authors w))
                              (batch_loop_entry cfg authors w)))
                   (snd (batch_loop e cfg (length authors)
                              (length (selected_by_spec s (limit cfg) authors)) 0
                              (selected_by_spec s (limit cfg) authors)
                              (initial_state (batch_banner cfg authors w))
                              (batch_loop_entry cfg authors w))))
              \<and> length (batch_run_outcomes e cfg authors w)
                  = length (selected_by_spec s (limit cfg) authors))
         \<and> (batch_main e cfg authors w = (code, Some final, w') \<longrightarrow>
            successCount final + skipCount final + errorCount final
              = length (authorsToProcess cfg authors))"
proof -
  have a: "limit cfg = Num l \<and> 0 < l \<longrightarrow>
            endIndex cfg (length authors) = Num (min (s + l) (int (length authors)))
            \<and> authorsToProcess cfg authors
                = map ((!) authors) [nat s ..< nat (min (s + l) (int (length authors)))]"
    using assms
    by (auto simp add: endIndex_def authorsToProcess_def array_slice_nonneg min_def)
  have b: "\<not> num_gt0 (limit cfg) \<longrightarrow>
            endIndex cfg (length authors) = Num (int (length authors))
            \<and> authorsToProcess cfg authors = map ((!) authors) [nat s ..< length authors]"
    using assms
    by (auto simp add: endIndex_def authorsToProcess_def array_slice_nonneg min_def)
  have c: "batch_main e cfg authors w = (code, Some final, w') \<longrightarrow>
            successCount final + skipCount final + errorCount final
              = length (authorsToProcess cfg authors)"
    using batch_main_summary [of e cfg authors w code final w'] by simp
  note d = authorsToProcess_selected [OF assms, of authors]
  have f: "length (batch_run_outcomes e cfg authors w) = length (authorsToProcess cfg authors)"
    unfolding batch_run_outcomes_def
    using batch_loop_counts [of e cfg "length authors" "length (authorsToProcess cfg authors)" 0
        "authorsToProcess cfg authors" "initial_state (batch_banner cfg authors w)"
        "batch_loop_entry cfg authors w"]
    by simp
  have g: "\<not> no_credential e \<longrightarrow>
      batch_main e cfg authors w =
           (0, Some (fst (batch_run_loop e cfg authors w)),
            batch_summary (fst (batch_run_loop e cfg authors w)) (snd (batch_run_loop e cfg authors w)))"
    using batch_main_run [of e cfg authors w] by simp
  from a b c f g show ?thesis
    unfolding batch_run_loop_def d by simp
qed

theorem authorsToProcess_range_witness:
  "authorsToProcess (example_config 0 1) [js ''Plato'', js ''Kant''] = [js ''Plato'']
   \<and> selected_by_spec 0 (Num 1) [js ''Plato'', js ''Kant''] = [js ''Plato'']
   \<and> authorsToProcess (example_config 1 0) [js ''Plato'', js ''Kant''] = [js ''Kant'']
   \<and> length (batch_run_outcomes service_down (example_config 0 1) [js ''Plato'', js ''Kant''] empty_world) = 1
   \<and> (\<exists>final w'.
         batch_main service_down (example_config 0 1) [js ''Plato'', js ''Kant''] empty_world
           = (0, Some final, w')
         \<and> final = fst (batch_loop service_down (example_config 0 1) 2 1 0 [js ''Plato'']
                       (initial_state (batch_banner (example_config 0 1) [js ''Plato'', js ''Kant''] empty_world))
                       (batch_loop_entry (example_config 0 1) [js ''Plato'', js ''Kant''] empty_world))
         \<and> successCount final + skipCount final + errorCount final = 1)"
proof -
  have nc: "\<not> no_credential service_down"
    by (simp add: no_credential_def service_down_def example_env_def js_def)
  from batch_main_Some [OF nc] obtain final w' where
    m: "batch_main service_down (example_config 0 1) [js ''Plato'', js ''Kant''] empty_world
          = (0, Some final, w')"
    by blast
  have s0: "startIndex (example_config 0 1) = Num 0" "limit (example_config 0 1) = Num 1"
    and s1: "startIndex (example_config 1 0) = Num 1" "\<not> num_gt0 (limit (example_config 1 0))"
    by (simp_all add: example_config_def)
  note t0 = authorsToProcess_range [OF s0(1), of 1 "[js ''Plato'', js ''Kant'']" service_down empty_world
      0 final w']
  from t0 s0(2) have a: "authorsToProcess (example_config 0 1) [js ''Plato'', js ''Kant''] = [js ''Plato'']"
    by simp
  from t0 a s0(2) have sel: "selected_by_spec 0 (Num 1) [js ''Plato'', js ''Kant''] = [js ''Plato'']"
    by simp
  from t0 m a have c: "successCount final + skipCount final + errorCount final = 1"
    by simp
  from t0 nc sel s0(2) have
    run: "batch_main service_down (example_config 0 1) [js ''Plato'', js ''Kant''] empty_world =
       (0, Some (fst (batch_loop service_down (example_config 0 1) 2 1 0 [js ''Plato'']
                       (initial_state (batch_banner (example_config 0 1) [js ''Plato'', js ''Kant''] empty_world))
                       (batch_loop_entry (example_config 0 1) [js ''Plato'', js ''Kant''] empty_world))),
        batch_summary (fst (batch_loop service_down (example_config 0 1) 2 1 0 [js ''Plato'']
                       (initial_state (batch_banner (example_config 0 1) [js ''Plato'', js ''Kant''] empty_world))
                       (batch_loop_entry (example_config 0 1) [js ''Plato'', js ''Kant''] empty_world)))
          (snd (batch_loop service_down (example_config 0 1) 2 1 0 [js ''Plato'']
                       (initial_state (batch_banner (example_config 0 1) [js ''Plato'', js ''Kant''] empty_world))
                       (batch_loop_entry (example_config 0 1) [js ''Plato'', js ''Kant''] empty_world))))"
    and len: "length (batch_run_outcomes service_down (example_config 0 1) [js ''Plato'', js ''Kant''] empty_world) = 1"
    by (simp_all add: numeral_2_eq_2)
  from authorsToProcess_range [OF s1(1), of 0 "[js ''Plato'', js ''Kant'']" service_down empty_world
      0 final w'] s1(2)
  have b: "authorsToProcess (example_config 1 0) [js ''Plato'', js ''Kant''] = [js ''Kant'']"
    by simp
  from m run have fin: "final = fst (batch_loop service_down (example_config 0 1) 2 1 0 [js ''Plato'']
                       (initial_state (batch_banner (example_config 0 1) [js ''Plato'', js ''Kant''] empty_world))
                       (batch_loop_entry (example_config 0 1) [js ''Plato'', js ''Kant''] empty_world))"
    by simp
  from a sel b len m fin c show ?thesis by blast
qed

section \<open>Example runs\<close>

lemma service_up_reliable: "reliable service_up"
proof -
  have a: "\<forall>p. writeError service_up p = None"
    by (simp add: service_up_def example_env_def)
  have r: "response_data (Responded (success_response (candidates_with [part_with_data])))
      = Inr (JStr (js ''QUJD''))"
  proof -
    have ok1: "ok (success_response (candidates_with [part_with_data]))"
      by (simp add: ok_def success_response_def)
    have rp: "read_parts (candidates_with [part_with_data]) = Some (JArr [part_with_data])"
      by (simp add: candidates_with_def read_parts_def js_def)
    have fi: "find_inlineData [part_with_data] = Inr (Some part_with_data)"
      by (simp add: part_with_data_def js_def)
    show ?thesis
      unfolding response_data_parts [OF ok1 body_json_success rp] fi
      by (simp add: inline_image_data_part_with_data)
  qed
  have g: "fst (generateAvatar sc service_up a w) = Inr (JStr (js ''QUJD''))" for sc a w
    by (simp add: fst_generateAvatar service_up_def fetch_result_always r)
  have b: "Buffer_from service_up (JStr (js ''QUJD'')) = Inr (map ucast (js ''QUJD''))"
    by (simp add: service_up_def example_env_def example_Buffer_from_def)
  from a g b show ?thesis unfolding reliable_def by blast
qed

lemma service_down_fails:
  "fst (generateAvatar sc service_down a w) = Inl (js ''Generation failed: down'')"
  by (simp add: fst_generateAvatar service_down_def fetch_result_always response_data_def js_def)

lemma has_credential:
  "\<not> no_credential service_up" "\<not> no_credential service_down" "\<not> no_credential first_fails"
  by (simp_all add: no_credential_def service_up_def service_down_def first_fails_def
      example_env_def js_def)

lemma todo_plato: "authorsToProcess (example_config 0 0) [js ''Plato''] = [js ''Plato'']"
  by (simp add: authorsToProcess_def array_slice_def endIndex_def example_config_def)

lemma nothing_exists: "\<not> existsSync empty_world p"
  by (simp add: existsSync_def empty_world_def)

lemma first_fails_outcomes:
  "batch_outcomes first_fails (example_config 0 0) 2 2 0 [js ''Plato'', js ''Kant'']
     (initial_state empty_world) empty_world
   = [Failure (js ''Generation failed: down''), Success (js ''kant.png'')]"
  by code_simp

lemma first_fails_generation:
  "fst (generateAvatar sc first_fails a empty_world) = Inl (js ''Generation failed: down'')"
  by (simp add: fst_generateAvatar first_fails_def fetch_result_def example_env_def fail_first_def
      empty_world_def response_data_def js_def)

lemma service_up_item:
  "fst (batch_item service_up (example_config 0 0) 1 1 0 (js ''Plato'')
     (initial_state empty_world) empty_world) = Success (js ''plato.png'')"
  by code_simp

lemma service_up_regen_item:
  "fst (regen_item service_up 1 0 (js ''Plato'') (initial_state empty_world) empty_world)
     = Success (js ''plato.png'')"
  by code_simp

lemma service_down_fails_item:
  "generation_or_save_fails sc service_down a w"
  by (simp add: generation_or_save_fails_def service_down_fails)

lemma service_bad_data_fails:
  "generation_or_save_fails RegenerateSpecific service_bad_data (js ''Plato'') empty_world"
  by code_simp

lemma todo_two:
  "authorsToProcess (example_config 0 0) [js ''Plato'', js ''Kant''] = [js ''Plato'', js ''Kant'']"
  by (simp add: authorsToProcess_def array_slice_def endIndex_def example_config_def)

lemma first_fails_batch_run:
  "batch_run_outcomes first_fails (example_config 0 0) [js ''Plato'', js ''Kant''] empty_world
   = [Failure (js ''Generation failed: down''), Success (js ''kant.png'')]"
  by code_simp

lemma first_fails_regen_run:
  "regen_run_outcomes first_fails [js ''Plato'', js ''Kant''] empty_world
   = [Failure (js ''Generation failed: down''), Success (js ''kant.png'')]"
  by code_simp

lemma first_fails_regen_outcomes:
  "regen_outcomes first_fails 2 0 [js ''Plato'', js ''Kant''] (initial_state empty_world) empty_world
   = [Failure (js ''Generation failed: down''), Success (js ''kant.png'')]"
  by code_simp

section \<open>Failure of one item\<close>

text \<open>
  Claim C1. In either script, when the generation call of an item raises (and, in the
  batch script, its file does not exist yet), the turn ends with the outcome \<open>Failure\<close>,
  adds one to \<open>errorCount\<close> and appends the author and the message to \<open>errors\<close>; it
  changes nothing else of the variables of \<open>main\<close>. The loop gives every item of the list
  an outcome whatever the outcomes of the others: the outcome of the item at position \<open>j\<close>
  is that of its own turn, taken from the variables and the world that the turns of the
  items before it have left. At the end of the loop \<open>errorCount\<close>, \<open>skipCount\<close> and
  \<open>successCount\<close> have grown by the numbers of failed, skipped and succeeded items, and
  \<open>errors\<close> by the failed items in order. A run of \<open>main\<close> with a credential is that loop
  over the selected items, from the counters at 0, followed by the summary, and ends with
  exit code 0. At the end of every run that reaches its loop, \<open>errorCount\<close> is the number
  of items of the run that failed, \<open>skipCount\<close> the number skipped (0 in the regeneration
  script), \<open>successCount\<close> the number that succeeded, which is the number of items minus
  the errors minus the skips, \<open>errors\<close> lists the failed items with their messages in
  order, and the summary that the run prints after the loop starts with these counts.
\<close>

theorem partial_failure_isolation:
  "(\<not> existsSync w (item_path e a) \<and> fst (generateAvatar GenerateBatch e a w) = Inl msg \<longrightarrow>
      fst (batch_item e cfg t n i a st w) = Failure msg
      \<and> fst (snd (batch_item e cfg t n i a st w))
          = st\<lparr>errorCount := errorCount st + 1, errors := errors st @ [(a, msg)]\<rparr>)
   \<and> (fst (generateAvatar RegenerateSpecific e a w) = Inl msg \<longrightarrow>
      fst (regen_item e n i a st w) = Failure msg
      \<and> fst (snd (regen_item e n i a st w))
          = st\<lparr>errorCount := errorCount st + 1, errors := errors st @ [(a, msg)]\<rparr>)
   \<and> (length (batch_outcomes e cfg t n i items st w) = length items
      \<and> errorCount (fst (batch_loop e cfg t n i items st w))
          = errorCount st + length (filter failed (batch_outcomes e cfg t n i items st w))
      \<and> skipCount (fst (batch_loop e cfg t n i items st w))
          = skipCount st + length (filter skipped (batch_outcomes e cfg t n i items st w))
      \<and> successCount (fst (batch_loop e cfg t n i items st w))
          = successCount st + length (filter succeeded (batch_outcomes e cfg t n i items st w))
      \<and> errors (fst (batch_loop e cfg t n i items st w))
          = errors st @ failures_of (zip items (batch_outcomes e cfg t n i items st w)))
   \<and> (length (regen_outcomes e n i items st w) = length items
      \<and> errorCount (fst (regen_loop e n i items st w))
          = errorCount st + length (filter failed (regen_outcomes e n i items st w))
      \<and> successCount (fst (regen_loop e n i items st w))
          = successCount st + length (filter succeeded (regen_outcomes e n i items st w))
      \<and> errors (fst (regen_loop e n i items st w))
          = errors st @ failures_of (zip items (regen_outcomes e n i items st w)))
   \<and> (j < length items \<longrightarrow>
        batch_outcomes e cfg t n i items st w ! j
          = fst (batch_item e cfg t n (i + j) (items ! j)
                   (fst (batch_loop e cfg t n i (take j items) st w))
                   (snd (batch_loop e cfg t n i (take j items) st w)))
        \<and> regen_outcomes e n i items st w ! j
          = fst (regen_item e n (i + j) (items ! j)
                   (fst (regen_loop e n i (take j items) st w))
                   (snd (regen_loop e n i (take j items) st w))))
   \<and> (\<not> no_credential e \<longrightarrow>
        batch_main e cfg authors w
          = (0, Some (fst (batch_run_loop e cfg authors w)),
             batch_summary (fst (batch_run_loop e cfg authors w))
               (snd (batch_run_loop e cfg authors w)))
        \<and> regen_main e names w
          = (0, Some (fst (regen_run_loop e names w)),
             regen_summary e (fst (regen_run_loop e names w)) (snd (regen_run_loop e names w))))
   \<and> (batch_main e cfg authors w = (code, Some final, wfin) \<longrightarrow>
        code = 0
        \<and> final = fst (batch_run_loop e cfg authors w)
        \<and> length (batch_run_outcomes e cfg authors w) = length (authorsToProcess cfg authors)
        \<and> errorCount final = length (filter failed (batch_run_outcomes e cfg authors w))
        \<and> skipCount final = length (filter skipped (batch_run_outcomes e cfg authors w))
        \<and> successCount final = length (filter succeeded (batch_run_outcomes e cfg authors w))
        \<and> errors final
            = failures_of (zip (authorsToProcess cfg authors) (batch_run_outcomes e cfg authors w))
        \<and> length (errors final) = errorCount final
        \<and> successCount final + skipCount final + errorCount final
            = length (authorsToProcess cfg authors)
        \<and> successCount final
            = length (authorsToProcess cfg authors) - errorCount final - skipCount final
        \<and> take 4 (printed_after GenerateBatch (snd (batch_run_loop e cfg authors w)) wfin)
            = [[Txt ''=== Generation Complete ===''],
               [Txt ''Success: '',
                Numb (Num (int (length (filter succeeded (batch_run_outcomes e cfg authors w)))))],
               [Txt ''Skipped: '',
                Numb (Num (int (length (filter skipped (batch_run_outcomes e cfg authors w)))))],
               [Txt ''Errors: '',
                Numb (Num (int (length (filter failed (batch_run_outcomes e cfg authors w)))))]])
   \<and> (regen_main e names w = (rcode, Some rfinal, rwfin) \<longrightarrow>
        rcode = 0
        \<and> rfinal = fst (regen_run_loop e names w)
        \<and> length (regen_run_outcomes e names w) = length names
        \<and> errorCount rfinal = length (filter failed (regen_run_outcomes e names w))
        \<and> skipCount rfinal = 0
        \<and> successCount rfinal = length (filter succeeded (regen_run_outcomes e names w))
        \<and> errors rfinal = failures_of (zip names (regen_run_outcomes e names w))
        \<and> length (errors rfinal) = errorCount rfinal
        \<and> successCount rfinal + errorCount rfinal = length names
        \<and> successCount rfinal = length names - errorCount rfinal - skipCount rfinal
        \<and> take 3 (printed_after RegenerateSpecific (snd (regen_run_loop e names w)) rwfin)
            = [[Txt ''=== Regeneration Complete ===''],
               [Txt ''Success: '',
                Numb (Num (int (length (filter succeeded (regen_run_outcomes e names w)))))],
               [Txt ''Errors: '',
                Numb (Num (int (length (filter failed (regen_run_outcomes e names w)))))]])"
  (is "?A \<and> ?B \<and> ?C \<and> ?D \<and> ?N \<and> ?R \<and> ?E \<and> ?F")
proof -
  have A: ?A using batch_item_generation_fails [of w e a msg cfg t n i st] by blast
  have B: ?B using regen_item_generation_fails [of e a w msg n i st] by blast
  have C: ?C using batch_loop_counts [of e cfg t n i items st w] by simp
  have D: ?D using regen_loop_counts [of e n i items st w] by simp
  have N: ?N
    using batch_outcomes_nth [of j items e cfg t n i st w] regen_outcomes_nth [of j items e n i st w]
    by blast
  have R: ?R using batch_main_run [of e cfg authors w] regen_main_run [of e names w] by blast
  have E: ?E
  proof
    assume m: "batch_main e cfg authors w = (code, Some final, wfin)"
    note c = batch_run_counts [OF m]
    from c have wfin: "wfin = batch_summary final (snd (batch_run_loop e cfg authors w))" by blast
    from c have cnt:
      "length (batch_run_outcomes e cfg authors w) = length (authorsToProcess cfg authors)"
      "errorCount final = length (filter failed (batch_run_outcomes e cfg authors w))"
      "skipCount final = length (filter skipped (batch_run_outcomes e cfg authors w))"
      "successCount final = length (filter succeeded (batch_run_outcomes e cfg authors w))"
      by blast+
    from c have er: "errors final
        = failures_of (zip (authorsToProcess cfg authors) (batch_run_outcomes e cfg authors w))"
      by blast
    from er cnt(1) length_failures_of [of "authorsToProcess cfg authors" "batch_run_outcomes e cfg authors w"]
      cnt(2)
    have le: "length (errors final) = errorCount final" by simp
    from outcome_partition [of "batch_run_outcomes e cfg authors w"] cnt
    have sum: "successCount final + skipCount final + errorCount final
            = length (authorsToProcess cfg authors)"
      by simp
    from sum have sub: "successCount final
            = length (authorsToProcess cfg authors) - errorCount final - skipCount final"
      by linarith
    have pr: "take 4 (printed_after GenerateBatch (snd (batch_run_loop e cfg authors w)) wfin)
            = [[Txt ''=== Generation Complete ===''],
               [Txt ''Success: '',
                Numb (Num (int (length (filter succeeded (batch_run_outcomes e cfg authors w)))))],
               [Txt ''Skipped: '',
                Numb (Num (int (length (filter skipped (batch_run_outcomes e cfg authors w)))))],
               [Txt ''Errors: '',
                Numb (Num (int (length (filter failed (batch_run_outcomes e cfg authors w)))))]]"
      unfolding wfin batch_summary_printed cnt(2-4) [symmetric] by (rule refl)
    from c cnt er le sum sub pr show "code = 0
        \<and> final = fst (batch_run_loop e cfg authors w)
        \<and> length (batch_run_outcomes e cfg authors w) = length (authorsToProcess cfg authors)
        \<and> errorCount final = length (filter failed (batch_run_outcomes e cfg authors w))
        \<and> skipCount final = length (filter skipped (batch_run_outcomes e cfg authors w))
        \<and> successCount final = length (filter succeeded (batch_run_outcomes e cfg authors w))
        \<and> errors final
            = failures_of (zip (authorsToProcess cfg authors) (batch_run_outcomes e cfg authors w))
        \<and> length (errors final) = errorCount final
        \<and> successCount final + skipCount final + errorCount final
            = length (authorsToProcess cfg authors)
        \<and> successCount final
            = length (authorsToProcess cfg authors) - errorCount final - skipCount final
        \<and> take 4 (printed_after GenerateBatch (snd (batch_run_loop e cfg authors w)) wfin)
            = [[Txt ''=== Generation Complete ===''],
               [Txt ''Success: '',
                Numb (Num (int (length (filter succeeded (batch_run_outcomes e cfg authors w)))))],
               [Txt ''Skipped: '',
                Numb (Num (int (length (filter skipped (batch_run_outcomes e cfg authors w)))))],
               [Txt ''Errors: '',
                Numb (Num (int (length (filter failed (batch_run_outcomes e cfg authors w)))))]]"
      by blast
  qed
  have F: ?F
  proof
    assume m: "regen_main e names w = (rcode, Some rfinal, rwfin)"
    note c = regen_run_counts [OF m]
    from c have wfin: "rwfin = regen_summary e rfinal (snd (regen_run_loop e names w))" by blast
    from c have cnt:
      "length (regen_run_outcomes e names w) = length names"
      "errorCount rfinal = length (filter failed (regen_run_outcomes e names w))"
      "successCount rfinal = length (filter succeeded (regen_run_outcomes e names w))"
      "skipCount rfinal = 0"
      "length (filter skipped (regen_run_outcomes e names w)) = 0"
      by blast+
    from c have er: "errors rfinal = failures_of (zip names (regen_run_outcomes e names w))"
      by blast
    from er cnt(1) length_failures_of [of names "regen_run_outcomes e names w"] cnt(2)
    have le: "length (errors rfinal) = errorCount rfinal" by simp
    from outcome_partition [of "regen_run_outcomes e names w"] cnt
    have sum: "successCount rfinal + errorCount rfinal = length names"
      by simp
    from sum cnt(4) have sub: "successCount rfinal = length names - errorCount rfinal - skipCount rfinal"
      by linarith
    have pr: "take 3 (printed_after RegenerateSpecific (snd (regen_run_loop e names w)) rwfin)
            = [[Txt ''=== Regeneration Complete ===''],
               [Txt ''Success: '',
                Numb (Num (int (length (filter succeeded (regen_run_outcomes e names w)))))],
               [Txt ''Errors: '',
                Numb (Num (int (length (filter failed (regen_run_outcomes e names w)))))]]"
      unfolding wfin regen_summary_printed cnt(2-3) [symmetric] by (rule refl)
    from c cnt er le sum sub pr show "rcode = 0
        \<and> rfinal = fst (regen_run_loop e names w)
        \<and> length (regen_run_outcomes e names w) = length names
        \<and> errorCount rfinal = length (filter failed (regen_run_outcomes e names w))
        \<and> skipCount rfinal = 0
        \<and> successCount rfinal = length (filter succeeded (regen_run_outcomes e names w))
        \<and> errors rfinal = failures_of (zip names (regen_run_outcomes e names w))
        \<and> length (errors rfinal) = errorCount rfinal
        \<and> successCount rfinal + errorCount rfinal = length names
        \<and> successCount rfinal = length names - errorCount rfinal - skipCount rfinal
        \<and> take 3 (printed_after RegenerateSpecific (snd (regen_run_loop e names w)) rwfin)
            = [[Txt ''=== Regeneration Complete ===''],
               [Txt ''Success: '',
                Numb (Num (int (length (filter succeeded (regen_run_outcomes e names w)))))],
               [Txt ''Errors: '',
                Numb (Num (int (length (filter failed (regen_run_outcomes e names w)))))]]"
      by blast
  qed
  from A B C D N R E F show ?thesis by blast
qed

theorem partial_failure_isolation_witness:
  "\<not> existsSync empty_world (item_path first_fails (js ''Plato''))
   \<and> fst (generateAvatar GenerateBatch first_fails (js ''Plato'') empty_world)
       = Inl (js ''Generation failed: down'')
   \<and> fst (batch_item first_fails (example_config 0 0) 2 2 0 (js ''Plato'')
        (initial_state empty_world) empty_world) = Failure (js ''Generation failed: down'')
   \<and> fst (regen_item first_fails 2 0 (js ''Plato'') (initial_state empty_world) empty_world)
       = Failure (js ''Generation failed: down'')
   \<and> errorCount (fst (batch_loop first_fails (example_config 0 0) 2 2 0 [js ''Plato'', js ''Kant'']
        (initial_state empty_world) empty_world)) = 1
   \<and> successCount (fst (batch_loop first_fails (example_config 0 0) 2 2 0 [js ''Plato'', js ''Kant'']
        (initial_state empty_world) empty_world)) = 1
   \<and> errors (fst (batch_loop first_fails (example_config 0 0) 2 2 0 [js ''Plato'', js ''Kant'']
        (initial_state empty_world) empty_world))
       = [(js ''Plato'', js ''Generation failed: down'')]
   \<and> fst (batch_item first_fails (example_config 0 0) 2 2 1 (js ''Kant'')
          (fst (batch_loop first_fails (example_config 0 0) 2 2 0 [js ''Plato'']
                  (initial_state empty_world) empty_world))
          (snd (batch_loop first_fails (example_config 0 0) 2 2 0 [js ''Plato'']
                  (initial_state empty_world) empty_world)))
       = Success (js ''kant.png'')
   \<and> fst (regen_item first_fails 2 1 (js ''Kant'')
          (fst (regen_loop first_fails 2 0 [js ''Plato''] (initial_state empty_world) empty_world))
          (snd (regen_loop first_fails 2 0 [js ''Plato''] (initial_state empty_world) empty_world)))
       = Success (js ''kant.png'')
   \<and> \<not> no_credential first_fails
   \<and> (\<exists>final wfin.
         batch_main first_fails (example_config 0 0) [js ''Plato'', js ''Kant''] empty_world
           = (0, Some final, wfin)
         \<and> final = fst (batch_run_loop first_fails (example_config 0 0) [js ''Plato'', js ''Kant'']
                        empty_world)
         \<and> batch_run_outcomes first_fails (example_config 0 0) [js ''Plato'', js ''Kant''] empty_world
             = [Failure (js ''Generation failed: down''), Success (js ''kant.png'')]
         \<and> errorCount final = 1 \<and> skipCount final = 0 \<and> successCount final = 1
         \<and> errors final = [(js ''Plato'', js ''Generation failed: down'')]
         \<and> take 4 (printed_after GenerateBatch
                (snd (batch_run_loop first_fails (example_config 0 0) [js ''Plato'', js ''Kant'']
                        empty_world)) wfin)
            = [[Txt ''=== Generation Complete ===''],
               [Txt ''Success: '', Numb (Num 1)],
               [Txt ''Skipped: '', Numb (Num 0)],
               [Txt ''Errors: '', Numb (Num 1)]])
   \<and> (\<exists>rfinal rwfin.
         regen_main first_fails [js ''Plato'', js ''Kant''] empty_world = (0, Some rfinal, rwfin)
         \<and> rfinal = fst (regen_run_loop first_fails [js ''Plato'', js ''Kant''] empty_world)
         \<and> regen_run_outcomes first_fails [js ''Plato'', js ''Kant''] empty_world
             = [Failure (js ''Generation failed: down''), Success (js ''kant.png'')]
         \<and> errorCount rfinal = 1 \<and> skipCount rfinal = 0 \<and> successCount rfinal = 1
         \<and> errors rfinal = [(js ''Plato'', js ''Generation failed: down'')]
         \<and> take 3 (printed_after RegenerateSpecific
                (snd (regen_run_loop first_fails [js ''Plato'', js ''Kant''] empty_world)) rwfin)
            = [[Txt ''=== Regeneration Complete ===''],
               [Txt ''Success: '', Numb (Num 1)],
               [Txt ''Errors: '', Numb (Num 1)]])"
proof -
  let ?two = "[js ''Plato'', js ''Kant'']"
  let ?final = "fst (batch_run_loop first_fails (example_config 0 0) ?two empty_world)"
  let ?wfin = "batch_summary ?final
                 (snd (batch_run_loop first_fails (example_config 0 0) ?two empty_world))"
  let ?rfinal = "fst (regen_run_loop first_fails ?two empty_world)"
  let ?rwfin = "regen_summary first_fails ?rfinal (snd (regen_run_loop first_fails ?two empty_world))"
  note t = partial_failure_isolation [where w = empty_world and e = first_fails
      and a = "js ''Plato''" and msg = "js ''Generation failed: down''"
      and cfg = "example_config 0 0" and t = 2 and n = 2 and i = 0
      and st = "initial_state empty_world" and items = ?two and j = 1
      and authors = ?two and names = ?two
      and code = 0 and final = ?final and wfin = ?wfin
      and rcode = 0 and rfinal = ?rfinal and rwfin = ?rwfin]
  have h1: "\<not> existsSync empty_world (item_path first_fails (js ''Plato''))"
    by (rule nothing_exists)
  note h2 = first_fails_generation [of GenerateBatch "js ''Plato''"]
  note h3 = first_fails_generation [of RegenerateSpecific "js ''Plato''"]
  note nc = has_credential(3)
  from t h1 h2 have a: "fst (batch_item first_fails (example_config 0 0) 2 2 0 (js ''Plato'')
        (initial_state empty_world) empty_world) = Failure (js ''Generation failed: down'')"
    by blast
  from t h3 have b: "fst (regen_item first_fails 2 0 (js ''Plato'') (initial_state empty_world) empty_world)
       = Failure (js ''Generation failed: down'')"
    by blast
  from t have c0: "errorCount (fst (batch_loop first_fails (example_config 0 0) 2 2 0 ?two
        (initial_state empty_world) empty_world))
      = errorCount (initial_state empty_world) + length (filter failed
          (batch_outcomes first_fails (example_config 0 0) 2 2 0 ?two
             (initial_state empty_world) empty_world))"
    "successCount (fst (batch_loop first_fails (example_config 0 0) 2 2 0 ?two
        (initial_state empty_world) empty_world))
      = successCount (initial_state empty_world) + length (filter succeeded
          (batch_outcomes first_fails (example_config 0 0) 2 2 0 ?two
             (initial_state empty_world) empty_world))"
    "errors (fst (batch_loop first_fails (example_config 0 0) 2 2 0 ?two
        (initial_state empty_world) empty_world))
      = errors (initial_state empty_world) @ failures_of (zip ?two
          (batch_outcomes first_fails (example_config 0 0) 2 2 0 ?two
             (initial_state empty_world) empty_world))"
    by blast+
  have c: "errorCount (fst (batch_loop first_fails (example_config 0 0) 2 2 0 ?two
        (initial_state empty_world) empty_world)) = 1"
    "successCount (fst (batch_loop first_fails (example_config 0 0) 2 2 0 ?two
        (initial_state empty_world) empty_world)) = 1"
    "errors (fst (batch_loop first_fails (example_config 0 0) 2 2 0 ?two
        (initial_state empty_world) empty_world)) = [(js ''Plato'', js ''Generation failed: down'')]"
    unfolding c0 first_fails_outcomes by simp_all
  have lt: "(1::nat) < length ?two" by simp
  from t lt have n0:
    "batch_outcomes first_fails (example_config 0 0) 2 2 0 ?two (initial_state empty_world) empty_world ! 1
       = fst (batch_item first_fails (example_config 0 0) 2 2 (0 + 1) (?two ! 1)
                (fst (batch_loop first_fails (example_config 0 0) 2 2 0 (take 1 ?two)
                        (initial_state empty_world) empty_world))
                (snd (batch_loop first_fails (example_config 0 0) 2 2 0 (take 1 ?two)
                        (initial_state empty_world) empty_world)))"
    "regen_outcomes first_fails 2 0 ?two (initial_state empty_world) empty_world ! 1
       = fst (regen_item first_fails 2 (0 + 1) (?two ! 1)
                (fst (regen_loop first_fails 2 0 (take 1 ?two) (initial_state empty_world) empty_world))
                (snd (regen_loop first_fails 2 0 (take 1 ?two) (initial_state empty_world) empty_world)))"
    by blast+
  have n: "fst (batch_item first_fails (example_config 0 0) 2 2 1 (js ''Kant'')
          (fst (batch_loop first_fails (example_config 0 0) 2 2 0 [js ''Plato'']
                  (initial_state empty_world) empty_world))
          (snd (batch_loop first_fails (example_config 0 0) 2 2 0 [js ''Plato'']
                  (initial_state empty_world) empty_world)))
       = Success (js ''kant.png'')"
    "fst (regen_item first_fails 2 1 (js ''Kant'')
          (fst (regen_loop first_fails 2 0 [js ''Plato''] (initial_state empty_world) empty_world))
          (snd (regen_loop first_fails 2 0 [js ''Plato''] (initial_state empty_world) empty_world)))
       = Success (js ''kant.png'')"
    using n0 [unfolded first_fails_outcomes first_fails_regen_outcomes]
    by (simp_all del: batch_loop.simps regen_loop.simps)
  from t nc have m: "batch_main first_fails (example_config 0 0) ?two empty_world = (0, Some ?final, ?wfin)"
    and rm: "regen_main first_fails ?two empty_world = (0, Some ?rfinal, ?rwfin)"
    by blast+
  from t m have e0:
    "errorCount ?final = length (filter failed
        (batch_run_outcomes first_fails (example_config 0 0) ?two empty_world))"
    "skipCount ?final = length (filter skipped
        (batch_run_outcomes first_fails (example_config 0 0) ?two empty_world))"
    "successCount ?final = length (filter succeeded
        (batch_run_outcomes first_fails (example_config 0 0) ?two empty_world))"
    "errors ?final = failures_of (zip (authorsToProcess (example_config 0 0) ?two)
        (batch_run_outcomes first_fails (example_config 0 0) ?two empty_world))"
    "take 4 (printed_after GenerateBatch
        (snd (batch_run_loop first_fails (example_config 0 0) ?two empty_world)) ?wfin)
      = [[Txt ''=== Generation Complete ===''],
         [Txt ''Success: '', Numb (Num (int (length (filter succeeded
            (batch_run_outcomes first_fails (example_config 0 0) ?two empty_world)))))],
         [Txt ''Skipped: '', Numb (Num (int (length (filter skipped
            (batch_run_outcomes first_fails (example_config 0 0) ?two empty_world)))))],
         [Txt ''Errors: '', Numb (Num (int (length (filter failed
            (batch_run_outcomes first_fails (example_config 0 0) ?two empty_world)))))]]"
    by blast+
  have e: "errorCount ?final = 1" "skipCount ?final = 0" "successCount ?final = 1"
    "errors ?final = [(js ''Plato'', js ''Generation failed: down'')]"
    "take 4 (printed_after GenerateBatch
        (snd (batch_run_loop first_fails (example_config 0 0) ?two empty_world)) ?wfin)
      = [[Txt ''=== Generation Complete ===''],
         [Txt ''Success: '', Numb (Num 1)],
         [Txt ''Skipped: '', Numb (Num 0)],
         [Txt ''Errors: '', Numb (Num 1)]]"
    unfolding e0 first_fails_batch_run todo_two by simp_all
  from t rm have f0:
    "errorCount ?rfinal = length (filter failed (regen_run_outcomes first_fails ?two empty_world))"
    "skipCount ?rfinal = 0"
    "successCount ?rfinal = length (filter succeeded (regen_run_outcomes first_fails ?two empty_world))"
    "errors ?rfinal = failures_of (zip ?two (regen_run_outcomes first_fails ?two empty_world))"
    "take 3 (printed_after RegenerateSpecific
        (snd (regen_run_loop first_fails ?two empty_world)) ?rwfin)
      = [[Txt ''=== Regeneration Complete ===''],
         [Txt ''Success: '', Numb (Num (int (length (filter succeeded
            (regen_run_outcomes first_fails ?two empty_world)))))],
         [Txt ''Errors: '', Numb (Num (int (length (filter failed
            (regen_run_outcomes first_fails ?two empty_world)))))]]"
    by blast+
  have f: "errorCount ?rfinal = 1" "skipCount ?rfinal = 0" "successCount ?rfinal = 1"
    "errors ?rfinal = [(js ''Plato'', js ''Generation failed: down'')]"
    "take 3 (printed_after RegenerateSpecific
        (snd (regen_run_loop first_fails ?two empty_world)) ?rwfin)
      = [[Txt ''=== Regeneration Complete ===''],
         [Txt ''Success: '', Numb (Num 1)],
         [Txt ''Errors: '', Numb (Num 1)]]"
    unfolding f0 first_fails_regen_run by simp_all
  from h1 h2 a b c n nc m e first_fails_batch_run rm f first_fails_regen_run show ?thesis
    by blast
qed

section \<open>The manifest\<close>

text \<open>
  Claim C6. \<open>saveManifest\<close> sets \<open>total_avatars\<close> to the number of keys of \<open>avatars\<close>, sets
  \<open>updated_at\<close> to the time of the call, leaves the entries alone, and when its write
  succeeds the persisted manifest is the whole manifest object, whatever was stored
  before. After an item that succeeded, in either script, the persisted manifest is the
  manifest object of \<open>main\<close>, its \<open>total_avatars\<close> is the number of keys of its \<open>avatars\<close>,
  its \<open>updated_at\<close> is the time of the save, and it holds the entry of the item.
\<close>

theorem manifest_save_invariant:
  "(saveManifest e m w = (r, m', w') \<longrightarrow>
      total_avatars m' = card (dom (map_of (avatars m'))) \<and> avatars m' = avatars m
      \<and> generated_at m' = generated_at m \<and> updated_at m' = Some (now w)
      \<and> (r = Inr () \<longrightarrow> manifestFile w' = Some m')
      \<and> (r \<noteq> Inr () \<longrightarrow> w' = w))
   \<and> (fst (batch_item e cfg t n i a st w) = Success f \<longrightarrow>
        manifestFile (snd (snd (batch_item e cfg t n i a st w)))
           = Some (manifest (fst (snd (batch_item e cfg t n i a st w))))
        \<and> total_avatars (manifest (fst (snd (batch_item e cfg t n i a st w))))
           = card (dom (map_of (avatars (manifest (fst (snd (batch_item e cfg t n i a st w)))))))
        \<and> updated_at (manifest (fst (snd (batch_item e cfg t n i a st w)))) = Some (now w)
        \<and> (a \<noteq> js ''__proto__'' \<longrightarrow>
             map_of (avatars (manifest (fst (snd (batch_item e cfg t n i a st w))))) a
               = Some \<lparr>filename = f, entry_generated_at = now w, regenerated = False\<rparr>))
   \<and> (fst (regen_item e n i a st w) = Success f \<longrightarrow>
        manifestFile (snd (snd (regen_item e n i a st w)))
           = Some (manifest (fst (snd (regen_item e n i a st w))))
        \<and> total_avatars (manifest (fst (snd (regen_item e n i a st w))))
           = card (dom (map_of (avatars (manifest (fst (snd (regen_item e n i a st w)))))))
        \<and> updated_at (manifest (fst (snd (regen_item e n i a st w)))) = Some (now w)
        \<and> (a \<noteq> js ''__proto__'' \<longrightarrow>
             map_of (avatars (manifest (fst (snd (regen_item e n i a st w))))) a
               = Some \<lparr>filename = f, entry_generated_at = now w, regenerated = True\<rparr>))"
  (is "?A \<and> ?B \<and> ?C")
proof -
  have A: ?A
  proof
    assume "saveManifest e m w = (r, m', w')"
    from saveManifest_cases [OF this] show
      "total_avatars m' = card (dom (map_of (avatars m'))) \<and> avatars m' = avatars m
      \<and> generated_at m' = generated_at m \<and> updated_at m' = Some (now w)
      \<and> (r = Inr () \<longrightarrow> manifestFile w' = Some m')
      \<and> (r \<noteq> Inr () \<longrightarrow> w' = w)"
      by auto
  qed
  have B: ?B using batch_item_Success [of e cfg t n i a st w f] by blast
  have C: ?C using regen_item_Success [of e n i a st w f] by blast
  from A B C show ?thesis by blast
qed


theorem manifest_save_invariant_witness:
  "fst (batch_item service_up (example_config 0 0) 1 1 0 (js ''Plato'')
     (initial_state empty_world) empty_world) = Success (js ''plato.png'')
   \<and> manifestFile (snd (snd (batch_item service_up (example_config 0 0) 1 1 0 (js ''Plato'')
       (initial_state empty_world) empty_world)))
      = Some (manifest (fst (snd (batch_item service_up (example_config 0 0) 1 1 0 (js ''Plato'')
       (initial_state empty_world) empty_world))))
   \<and> updated_at (manifest (fst (snd (batch_item service_up (example_config 0 0) 1 1 0 (js ''Plato'')
       (initial_state empty_world) empty_world)))) = Some 0
   \<and> fst (regen_item service_up 1 0 (js ''Plato'') (initial_state empty_world) empty_world)
      = Success (js ''plato.png'')
   \<and> manifestFile (snd (snd (regen_item service_up 1 0 (js ''Plato'')
       (initial_state empty_world) empty_world)))
      = Some (manifest (fst (snd (regen_item service_up 1 0 (js ''Plato'')
       (initial_state empty_world) empty_world))))
   \<and> total_avatars (fst (snd (saveManifest service_up (loadManifest empty_world) empty_world))) = 0"
proof -
  obtain r m' w' where s: "saveManifest service_up (loadManifest empty_world) empty_world = (r, m', w')"
    by (rule prod_cases3)
  have l: "avatars (loadManifest empty_world) = []"
    by (simp add: loadManifest_def empty_world_def)
  have n: "now empty_world = 0" by (simp add: empty_world_def)
  from manifest_save_invariant [of service_up "loadManifest empty_world" empty_world r m' w'
      "example_config 0 0" 1 1 0 "js ''Plato''" "initial_state empty_world" "js ''plato.png''"]
    s l n service_up_item service_up_regen_item
  show ?thesis by simp
qed

text \<open>
  Claim C10. When the generation call of an item raises, or saving its file does, the
  \<open>try\<close> block ends with the manifest object as it was and the persisted manifest as it
  was; so does the turn of the item in either script, whose outcome is \<open>Failure\<close>.
\<close>

theorem failed_item_leaves_manifest:
  "(generation_or_save_fails sc e a w \<longrightarrow>
      (\<exists>msg w'. try_item sc e a m w = (Inl msg, m, w') \<and> manifestFile w' = manifestFile w))
   \<and> (\<not> existsSync w (item_path e a) \<and> generation_or_save_fails GenerateBatch e a w \<longrightarrow>
        failed (fst (batch_item e cfg t n i a st w))
        \<and> manifest (fst (snd (batch_item e cfg t n i a st w))) = manifest st
        \<and> manifestFile (snd (snd (batch_item e cfg t n i a st w))) = manifestFile w)
   \<and> (generation_or_save_fails RegenerateSpecific e a w \<longrightarrow>
        failed (fst (regen_item e n i a st w))
        \<and> manifest (fst (snd (regen_item e n i a st w))) = manifest st
        \<and> manifestFile (snd (snd (regen_item e n i a st w))) = manifestFile w)"
  using try_item_fails [of sc e a w m] batch_item_fails [of w e a cfg t n i st]
    regen_item_fails [of e a w n i st]
  by blast

theorem failed_item_leaves_manifest_witness:
  "generation_or_save_fails GenerateBatch service_down (js ''Plato'') empty_world
   \<and> \<not> existsSync empty_world (item_path service_down (js ''Plato''))
   \<and> failed (fst (batch_item service_down (example_config 0 0) 1 1 0 (js ''Plato'')
        (initial_state empty_world) empty_world))
   \<and> manifestFile (snd (snd (batch_item service_down (example_config 0 0) 1 1 0 (js ''Plato'')
        (initial_state empty_world) empty_world))) = None
   \<and> generation_or_save_fails RegenerateSpecific service_bad_data (js ''Plato'') empty_world
   \<and> fst (generateAvatar RegenerateSpecific service_bad_data (js ''Plato'') empty_world) = Inr (JNum 5)
   \<and> failed (fst (regen_item service_bad_data 1 0 (js ''Plato'') (initial_state empty_world) empty_world))
   \<and> manifest (fst (snd (regen_item service_bad_data 1 0 (js ''Plato'')
        (initial_state empty_world) empty_world))) = manifest (initial_state empty_world)
   \<and> manifestFile (snd (snd (regen_item service_bad_data 1 0 (js ''Plato'')
        (initial_state empty_world) empty_world))) = None"
proof -
  have g: "fst (generateAvatar RegenerateSpecific service_bad_data (js ''Plato'') empty_world) = Inr (JNum 5)"
    by code_simp
  have mf: "manifestFile empty_world = None" by (simp add: empty_world_def)
  from failed_item_leaves_manifest [of GenerateBatch service_down "js ''Plato''" empty_world
      "manifest (initial_state empty_world)" "example_config 0 0" 1 1 0 "initial_state empty_world"]
    service_down_fails_item [of GenerateBatch "js ''Plato''" empty_world]
    nothing_exists [of "item_path service_down (js ''Plato'')"] mf
  have a: "failed (fst (batch_item service_down (example_config 0 0) 1 1 0 (js ''Plato'')
        (initial_state empty_world) empty_world))
     \<and> manifestFile (snd (snd (batch_item service_down (example_config 0 0) 1 1 0 (js ''Plato'')
        (initial_state empty_world) empty_world))) = None"
    by simp
  from failed_item_leaves_manifest [of RegenerateSpecific service_bad_data "js ''Plato''" empty_world
      "manifest (initial_state empty_world)" "example_config 0 0" 1 1 0 "initial_state empty_world"]
    service_bad_data_fails mf
  have b: "failed (fst (regen_item service_bad_data 1 0 (js ''Plato'') (initial_state empty_world) empty_world))
   \<and> manifest (fst (snd (regen_item service_bad_data 1 0 (js ''Plato'')
        (initial_state empty_world) empty_world))) = manifest (initial_state empty_world)
   \<and> manifestFile (snd (snd (regen_item service_bad_data 1 0 (js ''Plato'')
        (initial_state empty_world) empty_world))) = None"
    by simp
  from a b g service_down_fails_item [of GenerateBatch "js ''Plato''" empty_world]
    nothing_exists [of "item_path service_down (js ''Plato'')"] service_bad_data_fails
  show ?thesis by simp
qed

section \<open>Running the batch again\<close>

text \<open>
  Claim C2 as stated fails: with the service down, the item of a first run fails and
  leaves no file, and a second run over the same range, with nothing changed in between,
  calls the generator again.
\<close>

theorem batch_rerun_after_failure_counterexample:
  "calls (world_after (batch_main service_down (example_config 0 0) [js ''Plato''] empty_world))
     = [sent_request GenerateBatch service_down (js ''Plato'')]
   \<and> calls (world_after (batch_main service_down (example_config 0 0) [js ''Plato'']
        (world_after (batch_main service_down (example_config 0 0) [js ''Plato''] empty_world))))
     = [sent_request GenerateBatch service_down (js ''Plato''),
        sent_request GenerateBatch service_down (js ''Plato'')]"
proof -
  let ?w1 = "world_after (batch_main service_down (example_config 0 0) [js ''Plato''] empty_world)"
  have f: "\<forall>w'. fst (generateAvatar GenerateBatch service_down (js ''Plato'') w')
      = Inl (js ''Generation failed: down'')"
    by (simp add: service_down_fails)
  from batch_main_single_failure [OF has_credential(2) todo_plato nothing_exists f]
  have one: "calls ?w1 = [sent_request GenerateBatch service_down (js ''Plato'')]"
    and fs: "files ?w1 = files empty_world"
    by (simp_all add: empty_world_def)
  from fs have "\<not> existsSync ?w1 (item_path service_down (js ''Plato''))"
    by (simp add: existsSync_def empty_world_def)
  from batch_main_single_failure [OF has_credential(2) todo_plato this f] one
  show ?thesis by simp
qed

text \<open>
  Claim C2, as amended. An item whose content file exists when its turn comes is skipped:
  no request is sent and \<open>skipCount\<close> grows by one. When a run of the batch script ends
  with no error, a second run over the same catalogue and range, from a world with the
  same content files, sends no request and skips every item.
\<close>

theorem batch_rerun_skips:
  "(existsSync w (item_path e a) \<longrightarrow>
      fst (batch_item e cfg t n i a st w) = Skipped
      \<and> calls (snd (snd (batch_item e cfg t n i a st w))) = calls w
      \<and> skipCount (fst (snd (batch_item e cfg t n i a st w))) = skipCount st + 1)
   \<and> (batch_main e cfg authors w = (c1, Some st1, w1) \<and> errorCount st1 = 0
      \<and> files w2 = files w1 \<and> batch_main e cfg authors w2 = (c2, Some st2, w3) \<longrightarrow>
        calls w3 = calls w2 \<and> skipCount st2 = length (authorsToProcess cfg authors)
        \<and> successCount st2 = 0 \<and> errorCount st2 = 0)"
  (is "?A \<and> ?B")
proof -
  have A: ?A using batch_item_skip [of w e a cfg t n i st] by simp
  have B: ?B
  proof
    assume a: "batch_main e cfg authors w = (c1, Some st1, w1) \<and> errorCount st1 = 0
      \<and> files w2 = files w1 \<and> batch_main e cfg authors w2 = (c2, Some st2, w3)"
    let ?todo = "authorsToProcess cfg authors"
    from a have nc: "\<not> no_credential e" by (auto simp add: batch_main_def)
    from batch_main_unfold [OF nc, of w cfg authors] a obtain sa wa where
      r1: "errorCount sa = 0"
          "st1 = fst (batch_loop e cfg (length authors) (length ?todo) 0 ?todo sa wa)"
          "w1 = batch_summary st1 (snd (batch_loop e cfg (length authors) (length ?todo) 0 ?todo sa wa))"
      by auto
    from r1 a have "errorCount (fst (batch_loop e cfg (length authors) (length ?todo) 0 ?todo sa wa))
        = errorCount sa"
      by simp
    from batch_loop_no_error_all_exist [OF this] r1(3)
    have ex1: "\<forall>b\<in>set ?todo. existsSync w1 (item_path e b)"
      by (simp add: existsSync_def)
    from batch_main_unfold [OF nc, of w2 cfg authors] a obtain sb wb where
      r2: "files wb = files w2" "calls wb = calls w2"
          "successCount sb = 0" "skipCount sb = 0" "errorCount sb = 0"
          "st2 = fst (batch_loop e cfg (length authors) (length ?todo) 0 ?todo sb wb)"
          "w3 = batch_summary st2 (snd (batch_loop e cfg (length authors) (length ?todo) 0 ?todo sb wb))"
      by auto
    from ex1 r2(1) a have "\<forall>b\<in>set ?todo. existsSync wb (item_path e b)"
      by (simp add: existsSync_def)
    from batch_loop_all_exist [OF this, of cfg "length authors" "length ?todo" 0 sb] r2
    show "calls w3 = calls w2 \<and> skipCount st2 = length ?todo
        \<and> successCount st2 = 0 \<and> errorCount st2 = 0"
      by simp
  qed
  from A B show ?thesis by blast
qed

theorem batch_rerun_skips_witness:
  "\<exists>st1 w1 st2 w3.
      batch_main service_up (example_config 0 0) [js ''Plato''] empty_world = (0, Some st1, w1)
      \<and> errorCount st1 = 0
      \<and> batch_main service_up (example_config 0 0) [js ''Plato''] w1 = (0, Some st2, w3)
      \<and> calls w3 = calls w1 \<and> skipCount st2 = 1 \<and> successCount st2 = 0 \<and> errorCount st2 = 0"
proof -
  from batch_main_Some [OF has_credential(1)] obtain st1 w1 where
    r1: "batch_main service_up (example_config 0 0) [js ''Plato''] empty_world = (0, Some st1, w1)"
    by blast
  from batch_main_reliable [OF service_up_reliable r1] have e1: "errorCount st1 = 0" .
  from batch_main_Some [OF has_credential(1)] obtain st2 w3 where
    r2: "batch_main service_up (example_config 0 0) [js ''Plato''] w1 = (0, Some st2, w3)"
    by blast
  from batch_rerun_skips [of empty_world service_up "js ''Plato''" "example_config 0 0" 1 1 0
      "initial_state empty_world" "[js ''Plato'']" 0 st1 w1 w1 0 st2 w3] r1 e1 r2
  have "calls w3 = calls w1 \<and> skipCount st2 = length (authorsToProcess (example_config 0 0) [js ''Plato''])
        \<and> successCount st2 = 0 \<and> errorCount st2 = 0"
    by blast
  with r1 e1 r2 show ?thesis by (simp add: todo_plato)
qed

section \<open>Backups of the regeneration script\<close>

text \<open>
  What \<open>saveAvatar\<close> of the regeneration script does with an existing file. A call that
  returns has copied the earlier version to the backup path and written the new bytes; it
  has touched no other path. A call that raises leaves the file as it was. After any
  number of calls that return, the file holds the last payload and the backup the version
  from just before the last call. When the path of the directory of the scripts does not
  hold \<open>.png\<close>, the backup path is the sibling of the file with the suffix \<open>.backup.png\<close>.
\<close>

lemma replaceNonAlnum_chars:
  "c \<in> set (replaceNonAlnum s) \<Longrightarrow> isLowerAlnum c \<or> c = 0x2D"
  by (induction s) (auto simp add: js_def split: if_splits)

lemma replaceNonAlnum_no_dot: "0x2E \<notin> set (replaceNonAlnum s)"
  using replaceNonAlnum_chars [of "0x2E" s] by (auto simp add: isLowerAlnum_def)

lemma replace_first_suffix:
  "0x2E \<notin> set xs \<Longrightarrow> replace_first (js ''.png'') rep (xs @ js ''.png'') = xs @ rep"
  by (induction xs) (auto simp add: js_def)

lemma replace_first_skip_dir:
  "\<not> str_includes d (js ''.png'') \<Longrightarrow>
   replace_first (js ''.png'') rep (d @ 0x2F # r) = d @ replace_first (js ''.png'') rep (0x2F # r)"
proof (induction d)
  case Nil
  show ?case by simp
next
  case (Cons x d)
  from Cons.prems have np: "\<not> prefix (js ''.png'') (x # d)" and ni: "\<not> str_includes d (js ''.png'')"
    by simp_all
  have "\<not> prefix (js ''.png'') (x # d @ 0x2F # r)"
  proof
    assume p: "prefix (js ''.png'') (x # d @ 0x2F # r)"
    show False
    proof (cases d)
      case Nil
      with p show False by (simp add: js_def)
    next
      case (Cons y d1)
      note d = this
      show False
      proof (cases d1)
        case Nil
        with p d show False by (simp add: js_def)
      next
        case (Cons z d2)
        note d1 = this
        show False
        proof (cases d2)
          case Nil
          with p d d1 show False by (simp add: js_def)
        next
          case (Cons u d3)
          with p d d1 np show False by (simp add: js_def)
        qed
      qed
    qed
  qed
  with Cons.IH [OF ni] show ?case by simp
qed

lemma str_includes_self: "str_includes pat pat"
  by (cases pat) simp_all

lemma str_includes_suffix: "str_includes (xs @ pat) pat"
  by (induction xs) (simp_all add: str_includes_self)

lemma replace_first_length:
  "str_includes s pat \<Longrightarrow> length (replace_first pat rep s) + length pat = length s + length rep"
proof (induction s)
  case Nil
  then show ?case by simp
next
  case (Cons c cs)
  show ?case
  proof (cases "prefix pat (c # cs)")
    case True
    then have "length pat \<le> length (c # cs)" by (rule prefix_length_le)
    with True show ?thesis by simp
  next
    case False
    with Cons show ?thesis by simp
  qed
qed

lemma AVATARS_DIR_not_root: "AVATARS_DIR e \<noteq> js ''/''"
  by (auto simp add: AVATARS_DIR_def path_join_def js_def)

lemma item_path_eq:
  "item_path e a = AVATARS_DIR e @ js ''/'' @ replaceNonAlnum (toLowerCase (unicodeLower e) a) @ js ''.png''"
  by (simp add: item_path_def path_join_def AVATARS_DIR_not_root normalizeFilename_def)

lemma backupPath_differs: "backupPath_of (item_path e a) \<noteq> item_path e a"
proof -
  have "str_includes (item_path e a) (js ''.png'')"
    using str_includes_suffix [of "AVATARS_DIR e @ js ''/'' @ replaceNonAlnum (toLowerCase (unicodeLower e) a)" "js ''.png''"]
    by (simp add: item_path_eq)
  from replace_first_length [OF this, of "js ''.backup.png''"]
  have "length (backupPath_of (item_path e a)) \<noteq> length (item_path e a)"
    by (simp add: backupPath_of_def js_def)
  then show ?thesis by auto
qed

lemma backupPath_sibling:
  assumes "\<not> str_includes (dirname e) (js ''.png'')"
  shows "backupPath_of (item_path e a)
     = path_join (AVATARS_DIR e) (replaceNonAlnum (toLowerCase (unicodeLower e) a) @ js ''.backup.png'')"
proof -
  let ?stem = "replaceNonAlnum (toLowerCase (unicodeLower e) a)"
  have tail: "replace_first (js ''.png'') (js ''.backup.png'') (js ''/avatars/'' @ ?stem @ js ''.png'')
      = js ''/avatars/'' @ ?stem @ js ''.backup.png''"
    using replace_first_suffix [OF replaceNonAlnum_no_dot, of "js ''.backup.png''" "toLowerCase (unicodeLower e) a"]
    by (simp add: js_def)
  show ?thesis
  proof (cases "dirname e = js ''/''")
    case True
    with tail show ?thesis
      by (simp add: item_path_eq backupPath_of_def AVATARS_DIR_def path_join_def js_def)
  next
    case False
    have "replace_first (js ''.png'') (js ''.backup.png'')
            (dirname e @ 0x2F # (js ''avatars/'' @ ?stem @ js ''.png''))
          = dirname e @ replace_first (js ''.png'') (js ''.backup.png'')
            (0x2F # (js ''avatars/'' @ ?stem @ js ''.png''))"
      by (rule replace_first_skip_dir [OF assms])
    moreover have "0x2F # (js ''avatars/'' @ ?stem @ js ''.png'') = js ''/avatars/'' @ ?stem @ js ''.png''"
      by (simp add: js_def)
    ultimately have "replace_first (js ''.png'') (js ''.backup.png'')
            (dirname e @ js ''/avatars/'' @ ?stem @ js ''.png'')
          = dirname e @ js ''/avatars/'' @ ?stem @ js ''.backup.png''"
      using tail by (simp add: js_def)
    with False show ?thesis
      by (simp add: item_path_eq backupPath_of_def AVATARS_DIR_def path_join_def js_def)
  qed
qed

lemma regen_saveAvatar_Inr_files:
  assumes "files w (item_path e a) = Some old"
    and "regen_saveAvatar e a d w = (Inr f, w')"
  shows "Buffer_from e d = Inr (decoded e d)
     \<and> files w' (item_path e a) = Some (decoded e d)
     \<and> files w' (backupPath_of (item_path e a)) = Some old
     \<and> (\<forall>q. q \<noteq> item_path e a \<and> q \<noteq> backupPath_of (item_path e a) \<longrightarrow> files w' q = files w q)"
proof -
  let ?p = "item_path e a"
  let ?bp = "backupPath_of ?p"
  obtain r1 w1 where b: "backup_old_file e ?p w = (r1, w1)" by (cases "backup_old_file e ?p w")
  from assms(2) b have r1: "r1 = Inr ()"
    by (cases r1) (simp_all add: regen_saveAvatar_def Let_def item_path_def)
  from b r1 assms(1) have cp: "fst (copyFileSync e ?p ?bp w) = Inr ()"
    by (auto simp add: backup_old_file_def existsSync_def split: prod.splits sum.splits)
  then have we: "writeError e ?bp = None"
    using assms(1) by (simp add: copyFileSync_def writeFileSync_def split: option.splits)
  from b assms(1) we have w1: "files w1 = (files w)(?bp \<mapsto> old)"
    by (auto simp add: backup_old_file_def existsSync_def copyFileSync_def writeFileSync_def)
  from assms(2) b r1 obtain buffer where bf: "Buffer_from e d = Inr buffer"
    by (cases "Buffer_from e d") (simp_all add: regen_saveAvatar_def Let_def item_path_def)
  then have dec: "decoded e d = buffer" by (simp add: decoded_def)
  from assms(2) b r1 bf have "fst (writeFileSync e ?p buffer w1) = Inr ()"
    by (auto simp add: regen_saveAvatar_def Let_def item_path_def split: prod.splits sum.splits)
  then have wp: "writeError e ?p = None"
    by (simp add: writeFileSync_def split: option.splits)
  from assms(2) b r1 bf wp have w': "w' = w1\<lparr>files := (files w1)(?p \<mapsto> buffer)\<rparr>"
    by (auto simp add: regen_saveAvatar_def Let_def item_path_def writeFileSync_def)
  from w' w1 dec bf backupPath_differs [of e a] show ?thesis by auto
qed

lemma regen_saveAvatar_Inl_files:
  assumes "regen_saveAvatar e a d w = (Inl msg, w')"
  shows "files w' (item_path e a) = files w (item_path e a)"
proof -
  let ?p = "item_path e a"
  obtain r1 w1 where b: "backup_old_file e ?p w = (r1, w1)" by (cases "backup_old_file e ?p w")
  note fr = backup_old_file_frame [OF b]
  show ?thesis
  proof (cases r1)
    case (Inl m1)
    with assms b have "w' = w1" by (simp add: regen_saveAvatar_def Let_def item_path_def)
    with fr show ?thesis by simp
  next
    case (Inr u)
    show ?thesis
    proof (cases "Buffer_from e d")
      case (Inl m2)
      with assms b Inr have "w' = w1" by (simp add: regen_saveAvatar_def Let_def item_path_def)
      with fr show ?thesis by simp
    next
      case (Inr buffer)
      obtain r2 w2 where wr: "writeFileSync e ?p buffer w1 = (r2, w2)"
        by (cases "writeFileSync e ?p buffer w1")
      from assms b \<open>r1 = Inr u\<close> Inr wr have "w' = w2 \<and> (\<exists>m. r2 = Inl m)"
        by (cases r2) (simp_all add: regen_saveAvatar_def Let_def item_path_def)
      with writeFileSync_cases [OF wr] have "w' = w1" by auto
      with fr show ?thesis by simp
    qed
  qed
qed

lemma regen_saves_versions:
  assumes "files w (item_path e a) = Some v0" "ds \<noteq> []" "regen_saves e a ds w = Some w'"
  shows "files w' (item_path e a) = Some ((v0 # map (decoded e) ds) ! length ds)
     \<and> files w' (backupPath_of (item_path e a)) = Some ((v0 # map (decoded e) ds) ! (length ds - 1))
     \<and> (\<forall>q. q \<noteq> item_path e a \<and> q \<noteq> backupPath_of (item_path e a) \<longrightarrow> files w' q = files w q)"
  using assms
proof (induction ds arbitrary: w v0)
  case Nil
  then show ?case by simp
next
  case (Cons d ds)
  obtain r w1 where s: "regen_saveAvatar e a d w = (r, w1)" by (cases "regen_saveAvatar e a d w")
  from Cons.prems(3) s obtain f where r: "r = Inr f" and rest: "regen_saves e a ds w1 = Some w'"
    by (cases r) simp_all
  note one = regen_saveAvatar_Inr_files [OF Cons.prems(1) s [unfolded r]]
  show ?case
  proof (cases ds)
    case Nil
    with rest one show ?thesis by simp
  next
    case (Cons d2 ds2)
    then have ne: "ds \<noteq> []" by simp
    from one have p1: "files w1 (item_path e a) = Some (decoded e d)" by simp
    note ih = Cons.IH [OF p1 ne rest]
    from ne have "(v0 # map (decoded e) (d # ds)) ! (length (d # ds) - 1)
        = (decoded e d # map (decoded e) ds) ! (length ds - 1)"
      by (cases ds) simp_all
    with ih one show ?thesis by simp
  qed
qed

text \<open>
  Claim C3 at a failing input. With the scripts in \<open>/srv/a.png\<close>, the first \<open>.png\<close> of the
  file path is in the directory part: the earlier version of \<open>plato.png\<close> is copied to
  \<open>/srv/a.backup.png/avatars/plato.png\<close> (the log line names \<open>plato.png\<close> as the backup),
  and no file \<open>plato.backup.png\<close> stands beside the overwritten one. Where nothing can
  be written outside the directory of the scripts, the copy raises and the call fails.
\<close>

theorem regen_backup_path_in_dotted_directory:
  "item_path dotted_dir_env (js ''Plato'') = js ''/srv/a.png/avatars/plato.png''
   \<and> files old_file_world (js ''/srv/a.png/avatars/plato.png'') = Some [1, 2, 3]
   \<and> backupPath_of (js ''/srv/a.png/avatars/plato.png'') = js ''/srv/a.backup.png/avatars/plato.png''
   \<and> basename (backupPath_of (js ''/srv/a.png/avatars/plato.png'')) = js ''plato.png''
   \<and> fst (regen_saveAvatar dotted_dir_env (js ''Plato'') (JStr (js ''QUJD'')) old_file_world)
       = Inr (js ''plato.png'')
   \<and> files (snd (regen_saveAvatar dotted_dir_env (js ''Plato'') (JStr (js ''QUJD'')) old_file_world))
        (js ''/srv/a.png/avatars/plato.backup.png'') = None
   \<and> files (snd (regen_saveAvatar dotted_dir_env (js ''Plato'') (JStr (js ''QUJD'')) old_file_world))
        (js ''/srv/a.backup.png/avatars/plato.png'') = Some [1, 2, 3]
   \<and> fst (regen_saveAvatar dotted_dir_strict_env (js ''Plato'') (JStr (js ''QUJD'')) old_file_world)
       = Inl (js ''ENOENT: no such file or directory'')
   \<and> files (snd (regen_saveAvatar dotted_dir_strict_env (js ''Plato'') (JStr (js ''QUJD''))
         old_file_world)) (js ''/srv/a.png/avatars/plato.backup.png'') = None"
  by code_simp


end
